theory Spec2Isabelle
  imports Complex_Main "HOL-Library.Word" "HOL-Library.AList"
begin

section \<open>Values, errors and strings\<close>

text \<open>
  The program is \<^verbatim>\<open>src/app.py\<close>. A Python float is a real number or NaN
  (\<open>pyfloat\<close>) where the program formats it; the statistics the libraries return are
  taken as real numbers (infinities and the sign of zero are left out throughout).
  Python ints are \<^typ>\<open>int\<close>. Text produced by the program is a
  \<^typ>\<open>string\<close> holding its UTF-8 bytes; the user identifier, whose encoding is part of
  what the program does, is a list of Unicode code points.
\<close>

datatype py_error =
    UnicodeEncodeError
  | ValueError
  | KeyError string
  | TypeError
  | LibraryError

datatype pyval = PFloat real | PInt int | PStr string

datatype pyfloat = Fin real | NaN

text \<open>\<^verbatim>\<open>x < c\<close> on floats: false when \<open>x\<close> is NaN.\<close>

definition flt :: "pyfloat \<Rightarrow> real \<Rightarrow> bool" where
  "flt x c = (case x of Fin r \<Rightarrow> r < c | NaN \<Rightarrow> False)"

type_synonym byte = "8 word"
type_synonym pystr = "nat list"

definition bindE :: "'e + 'a \<Rightarrow> ('a \<Rightarrow> 'e + 'b) \<Rightarrow> 'e + 'b" where
  "bindE m f = (case m of Inl e \<Rightarrow> Inl e | Inr x \<Rightarrow> f x)"

section \<open>Strength, direction and star formatting\<close>

text \<open>The labels are the program's Polish words. A letter outside ASCII (the stroked l,
  the a and e with ogonek) is written as the two bytes of its UTF-8 form.\<close>

definition lbl_brak :: string where "lbl_brak = ''brak''"
definition lbl_slaby :: string where
  "lbl_slaby = [CHR ''s'', CHR 0xC5, CHR 0x82, CHR ''a'', CHR ''b'', CHR ''y'']"
definition lbl_umiarkowany :: string where "lbl_umiarkowany = ''umiarkowany''"
definition lbl_silny :: string where "lbl_silny = ''silny''"
definition lbl_zwiazku :: string where
  "lbl_zwiazku = [CHR ''z'', CHR ''w'', CHR ''i'', CHR 0xC4, CHR 0x85, CHR ''z'', CHR ''k'', CHR ''u'']"
definition lbl_pozytywny :: string where "lbl_pozytywny = ''pozytywny''"
definition lbl_negatywny :: string where "lbl_negatywny = ''negatywny''"

definition ocen_sile :: "real \<Rightarrow> string" where
  "ocen_sile r =
     (let abs_r = \<bar>r\<bar> in
      if abs_r < 0.1 then lbl_brak
      else if abs_r < 0.3 then lbl_slaby
      else if abs_r < 0.5 then lbl_umiarkowany
      else lbl_silny)"

definition ocen_kierunek :: "real \<Rightarrow> string" where
  "ocen_kierunek r =
     (if \<bar>r\<bar> < 0.1 then lbl_zwiazku
      else if r > 0 then lbl_pozytywny else lbl_negatywny)"

text \<open>Rounding to the nearest integer, ties to the even neighbour: the rule of
  \<^verbatim>\<open>np.rint\<close> and of Python's fixed-point float formatting.\<close>

definition round_half_even :: "real \<Rightarrow> int" where
  "round_half_even x =
     (let f = \<lfloor>x\<rfloor>; d = x - of_int f in
      if d < 1/2 then f
      else if d > 1/2 then f + 1
      else if even f then f else f + 1)"

definition digit_char :: "nat \<Rightarrow> char" where
  "digit_char d = char_of (48 + d)"

fun str_nat :: "nat \<Rightarrow> string" where
  "str_nat n = (if n < 10 then [digit_char n] else str_nat (n div 10) @ [digit_char (n mod 10)])"

declare str_nat.simps [simp del]

text \<open>\<^verbatim>\<open>f"{r:.2f}"\<close>: for a number the sign, integer digits, a period and two fraction
  digits, for the absolute value rounded to hundredths (the sign is printed for every
  negative \<open>r\<close>, also when the digits round to zero); for NaN the text \<^verbatim>\<open>nan\<close>.\<close>

definition body_2f :: "nat \<Rightarrow> string" where
  "body_2f q = str_nat (q div 100) @ ''.'' @ [digit_char (q mod 100 div 10), digit_char (q mod 10)]"

definition format_2f :: "pyfloat \<Rightarrow> string" where
  "format_2f x =
     (case x of
        NaN \<Rightarrow> ''nan''
      | Fin r \<Rightarrow>
          (let q = nat (round_half_even (\<bar>r\<bar> * 100)) in
           (if r < 0 then ''-'' else '''') @ body_2f q))"

definition str_replace :: "char \<Rightarrow> char \<Rightarrow> string \<Rightarrow> string" where
  "str_replace a b s = map (\<lambda>c. if c = a then b else c) s"

definition format_r_z_gwiazdkami :: "pyfloat \<Rightarrow> pyfloat \<Rightarrow> string" where
  "format_r_z_gwiazdkami r p =
     (let stars =
        (if flt p 0.001 then ''***''
         else if flt p 0.01 then ''**''
         else if flt p 0.05 then ''*''
         else '''')
      in str_replace (CHR ''.'') (CHR '','') (format_2f r @ stars))"

section \<open>Reading a formatted coefficient back\<close>

text \<open>The round trip of the specification: strip the stars, put the period back and
  parse the decimal numeral. The functions of this section follow the specification's words;
  the program has no parser.\<close>

definition spec_strip_stars :: "string \<Rightarrow> string" where
  "spec_strip_stars s = filter (\<lambda>c. c \<noteq> CHR ''*'') s"

definition is_digit :: "char \<Rightarrow> bool" where
  "is_digit c = (48 \<le> (of_char c :: nat) \<and> (of_char c :: nat) \<le> 57)"

definition spec_parse_nat :: "string \<Rightarrow> nat option" where
  "spec_parse_nat s =
     (if s = [] \<or> \<not> list_all is_digit s then None
      else Some (foldl (\<lambda>a c. 10 * a + ((of_char c :: nat) - 48)) 0 s))"

definition spec_parse_decimal :: "string \<Rightarrow> real option" where
  "spec_parse_decimal s =
     (let neg = (s \<noteq> [] \<and> hd s = CHR ''-'');
          t = (if neg then tl s else s);
          ip = takeWhile (\<lambda>c. c \<noteq> CHR ''.'') t;
          fp = drop (length ip + 1) t
      in case (spec_parse_nat ip, spec_parse_nat fp) of
           (Some a, Some b) \<Rightarrow>
             Some ((if neg then - 1 else 1) * (real a + real b / 10 ^ length fp))
         | _ \<Rightarrow> None)"

definition spec_read_back :: "string \<Rightarrow> real option" where
  "spec_read_back s = spec_parse_decimal (str_replace (CHR '','') (CHR ''.'') (spec_strip_stars s))"


section \<open>The libraries the program calls\<close>

text \<open>
  \<^verbatim>\<open>hashlib\<close>, \<^verbatim>\<open>numpy\<close>, \<^verbatim>\<open>pandas\<close>, \<^verbatim>\<open>scipy\<close> and \<^verbatim>\<open>statsmodels\<close> are not part
  of the repository. Each function the program calls is a field of the environment; a call
  that may raise returns a sum. \<open>'g\<close> is the state of numpy's process-global random
  generator. \<open>HAS_STATSMODELS\<close> is the module-level flag set by the guarded import.
\<close>

type_synonym matrix = "nat \<Rightarrow> nat \<Rightarrow> real"

text \<open>Each of the two results of \<^verbatim>\<open>stats.spearmanr\<close> is a two-dimensional array or a
  single float: for a constant first or second column scipy returns the pair
  \<^verbatim>\<open>(nan, nan)\<close> instead of two matrices.\<close>

datatype np_value = NdArray matrix | NpScalar pyfloat

record 'g env =
  HAS_STATSMODELS :: bool
  md5_digest :: "byte list \<Rightarrow> byte list"
  seed_state :: "int \<Rightarrow> 'g"
  multivariate_normal :: "'g \<Rightarrow> real list \<Rightarrow> real list list \<Rightarrow> nat \<Rightarrow> real list list \<times> 'g"
  series_mean :: "int list \<Rightarrow> real"
  series_median :: "int list \<Rightarrow> real"
  series_std :: "int list \<Rightarrow> real"
  series_skew :: "int list \<Rightarrow> real"
  series_kurt :: "int list \<Rightarrow> real"
  series_min :: "int list \<Rightarrow> int"
  series_max :: "int list \<Rightarrow> int"
  lilliefors :: "int list \<Rightarrow> py_error + real \<times> real"
  kstest_norm :: "real list \<Rightarrow> py_error + real \<times> real"
  spearmanr :: "int list list \<Rightarrow> py_error + np_value \<times> np_value"

text \<open>What the program relies on from the libraries: an MD5 digest has 16 bytes, and
  \<^verbatim>\<open>multivariate_normal(mean, cov, size=n)\<close> returns \<open>n\<close> rows, one value per
  component of the mean.\<close>

definition library_contract :: "'g env \<Rightarrow> bool" where
  "library_contract env =
     ((\<forall>bs. length (md5_digest env bs) = 16) \<and>
      (\<forall>g m c n. length (fst (multivariate_normal env g m c n)) = n \<and>
                 list_all (\<lambda>row. length row = length m) (fst (multivariate_normal env g m c n))))"

section \<open>Seed derivation\<close>

text \<open>\<^verbatim>\<open>str.encode('utf-8')\<close>, one code point at a time. A surrogate code point
  (U+D800 to U+DFFF) has no UTF-8 form and raises. Code points above U+10FFFF do not
  occur in a Python string.\<close>

definition encode_utf8_cp :: "nat \<Rightarrow> py_error + byte list" where
  "encode_utf8_cp c =
     (if c < 0x80 then Inr [of_nat c]
      else if c < 0x800 then Inr [of_nat (0xC0 + c div 64), of_nat (0x80 + c mod 64)]
      else if 0xD800 \<le> c \<and> c \<le> 0xDFFF then Inl UnicodeEncodeError
      else if c < 0x10000 then
        Inr [of_nat (0xE0 + c div 4096), of_nat (0x80 + c div 64 mod 64), of_nat (0x80 + c mod 64)]
      else if c < 0x110000 then
        Inr [of_nat (0xF0 + c div 262144), of_nat (0x80 + c div 4096 mod 64),
             of_nat (0x80 + c div 64 mod 64), of_nat (0x80 + c mod 64)]
      else Inl UnicodeEncodeError)"

fun str_encode_utf8 :: "pystr \<Rightarrow> py_error + byte list" where
  "str_encode_utf8 [] = Inr []"
| "str_encode_utf8 (c # cs) =
     bindE (encode_utf8_cp c) (\<lambda>b. bindE (str_encode_utf8 cs) (\<lambda>bs. Inr (b @ bs)))"

definition encodable :: "nat \<Rightarrow> bool" where
  "encodable c = (c < 0xD800 \<or> (0xDFFF < c \<and> c < 0x110000))"

definition hex_char :: "nat \<Rightarrow> char" where
  "hex_char d = (if d < 10 then char_of (48 + d) else char_of (87 + d))"

definition hexdigest :: "byte list \<Rightarrow> string" where
  "hexdigest bs = concat (map (\<lambda>b. [hex_char (unat b div 16), hex_char (unat b mod 16)]) bs)"

definition hex_val :: "char \<Rightarrow> nat option" where
  "hex_val c =
     (let n = (of_char c :: nat) in
      if 48 \<le> n \<and> n \<le> 57 then Some (n - 48)
      else if 97 \<le> n \<and> n \<le> 102 then Some (n - 87)
      else if 65 \<le> n \<and> n \<le> 70 then Some (n - 55)
      else None)"

text \<open>\<^verbatim>\<open>int(s, 16)\<close> on a string of hexadecimal digits; an empty string or any other
  character raises \<^verbatim>\<open>ValueError\<close>. (Signs, prefixes, underscores and blanks, which
  Python also accepts, do not occur in a digest.)\<close>

definition int_base16 :: "string \<Rightarrow> py_error + int" where
  "int_base16 s =
     (if s = [] \<or> \<not> list_all (\<lambda>c. hex_val c \<noteq> None) s then Inl ValueError
      else Inr (foldl (\<lambda>a c. 16 * a + int (the (hex_val c))) 0 s))"

text \<open>The integer a digest stands for: its bytes read as one big-endian number.\<close>

definition digest_int :: "byte list \<Rightarrow> int" where
  "digest_int bs = foldl (\<lambda>a b. 256 * a + uint b) 0 bs"

text \<open>Lines 44 and 45 of \<^verbatim>\<open>generuj_dane_studenta\<close>.\<close>

definition derive_seed :: "'g env \<Rightarrow> pystr \<Rightarrow> py_error + int" where
  "derive_seed env user_id =
     bindE (str_encode_utf8 user_id) (\<lambda>bs.
       let seed_hex = hexdigest (md5_digest env bs) in
       bindE (int_base16 seed_hex) (\<lambda>h. Inr (h mod 2 ^ 32)))"

text \<open>\<^verbatim>\<open>np.random.seed\<close> replaces the global generator state by one computed from the
  seed alone, and raises \<^verbatim>\<open>ValueError\<close> for a seed outside \<open>[0, 2^32)\<close>.\<close>

definition np_random_seed :: "'g env \<Rightarrow> int \<Rightarrow> py_error + 'g" where
  "np_random_seed env seed =
     (if 0 \<le> seed \<and> seed < 2 ^ 32 then Inr (seed_state env seed) else Inl ValueError)"

section \<open>Data generation\<close>

type_synonym dataframe = "(string \<times> int list) list"

definition mean_vector :: "real list" where
  "mean_vector = [12, 12, 12, 13, 14]"

definition cov_matrix :: "real list list" where
  "cov_matrix =
     [[1.0, -0.6, 0.5, 0.3, 0.1],
      [-0.6, 1.0, -0.4, -0.1, -0.2],
      [0.5, -0.4, 1.0, 0.2, 0.2],
      [0.3, -0.1, 0.2, 1.0, 0.3],
      [0.1, -0.2, 0.2, 0.3, 1.0]]"

definition sd :: real where
  "sd = 3.5"

definition column_names :: "string list" where
  "column_names = [''Ekstrawersja'', ''Neurotyzm'', ''Otwartosc'', ''Ugodowosc'', ''Sumiennosc'']"

text \<open>\<^verbatim>\<open>astype(int)\<close> converts to a 64-bit integer; outside that range numpy yields the
  smallest 64-bit integer.\<close>

definition astype_int :: "int \<Rightarrow> int" where
  "astype_int v = (if - (2 ^ 63) \<le> v \<and> v < 2 ^ 63 then v else - (2 ^ 63))"

definition np_clip :: "int \<Rightarrow> int \<Rightarrow> int \<Rightarrow> int" where
  "np_clip lo hi v = min (max v lo) hi"

text \<open>\<^verbatim>\<open>pd.DataFrame(data, columns=names)\<close> stores the two-dimensional array by column
  and raises \<^verbatim>\<open>ValueError\<close> when the array's width is not the number of names.\<close>

definition pd_DataFrame :: "int list list \<Rightarrow> string list \<Rightarrow> py_error + dataframe" where
  "pd_DataFrame data names =
     (if list_all (\<lambda>row. length row = length names) data
      then Inr (map (\<lambda>j. (names ! j, map (\<lambda>row. row ! j) data)) [0..<length names])
      else Inl ValueError)"

text \<open>\<^verbatim>\<open>np.rint(data).astype(int)\<close> followed by \<^verbatim>\<open>np.clip(data, 5, 20)\<close>.\<close>

definition round_and_clip :: "real list list \<Rightarrow> int list list" where
  "round_and_clip sample =
     map (map (np_clip 5 20)) (map (map (\<lambda>x. astype_int (round_half_even x))) sample)"

text \<open>Lines 44 to 46: the seed is derived and the process-global generator is set from
  it. The result is the new state of the generator.\<close>

definition seed_call :: "'g env \<Rightarrow> pystr \<Rightarrow> py_error + 'g" where
  "seed_call env user_id = bindE (derive_seed env user_id) (\<lambda>seed. np_random_seed env seed)"

text \<open>Lines 49 to 66: the sample is drawn from the process-global generator, found in
  state \<open>g\<close>, and turned into the data frame.\<close>

definition draw_call :: "'g env \<Rightarrow> 'g \<Rightarrow> nat \<Rightarrow> py_error + dataframe \<times> 'g" where
  "draw_call env g n =
     (let cov = map (map (\<lambda>c. c * sd\<^sup>2)) cov_matrix;
          (sample, g') = multivariate_normal env g mean_vector cov n
      in bindE (pd_DataFrame (round_and_clip sample) column_names) (\<lambda>df. Inr (df, g')))"

text \<open>One call of the function, run without interruption from generator state \<open>g\<close>.\<close>

definition generuj_dane_studenta ::
  "'g env \<Rightarrow> 'g \<Rightarrow> pystr \<Rightarrow> nat \<Rightarrow> py_error + dataframe \<times> 'g" where
  "generuj_dane_studenta env g user_id n =
     bindE (seed_call env user_id) (\<lambda>g1. draw_call env g1 n)"

text \<open>Two requests served by two threads of one process share the generator. Each numpy
  call is atomic, the two calls of one request are not. In this schedule request B runs
  line 46 between line 46 and line 61 of request A, and draws after A.\<close>

definition interleaved_requests ::
  "'g env \<Rightarrow> pystr \<Rightarrow> pystr \<Rightarrow> nat \<Rightarrow> py_error + dataframe \<times> dataframe" where
  "interleaved_requests env id_a id_b n =
     bindE (seed_call env id_a) (\<lambda>g1.
     bindE (seed_call env id_b) (\<lambda>g2.
     bindE (draw_call env g2 n) (\<lambda>(df_a, g3).
     bindE (draw_call env g3 n) (\<lambda>(df_b, g4).
     Inr (df_a, df_b)))))"

section \<open>The answer key\<close>

type_synonym answer_key = "(string \<times> pyval) list"

text \<open>The dictionary \<^verbatim>\<open>klucz\<close> is an association list in insertion order;
  \<^verbatim>\<open>klucz[k] = v\<close> is \<^const>\<open>AList.update\<close>, which replaces the value of a key already
  present and appends a new key at the end.\<close>

definition PREFIX_MAP :: "(string \<times> string) list" where
  "PREFIX_MAP =
     [(''Ekstrawersja'', ''ekstra''),
      (''Neurotyzm'', ''neuro''),
      (''Otwartosc'', ''otwar''),
      (''Ugodowosc'', ''ugoda''),
      (''Sumiennosc'', ''sumien'')]"

definition df_getitem :: "dataframe \<Rightarrow> string \<Rightarrow> py_error + int list" where
  "df_getitem df col_name =
     (case map_of df col_name of None \<Rightarrow> Inl (KeyError col_name) | Some series \<Rightarrow> Inr series)"

fun df_select :: "dataframe \<Rightarrow> string list \<Rightarrow> py_error + int list list" where
  "df_select df [] = Inr []"
| "df_select df (c # cs) =
     bindE (df_getitem df c) (\<lambda>series. bindE (df_select df cs) (\<lambda>rest. Inr (series # rest)))"

text \<open>The normality test of one column. With statsmodels present a raising
  \<^verbatim>\<open>lilliefors\<close> call is caught by the bare \<^verbatim>\<open>except\<close> and replaced by the integer 0 and
  the float 1.0; without it the column is standardised (a zero standard deviation counts
  as 1) and handed to \<^verbatim>\<open>stats.kstest\<close>, which is not guarded.\<close>

definition z_score_of :: "'g env \<Rightarrow> int list \<Rightarrow> real list" where
  "z_score_of env series =
     map (\<lambda>x. (real_of_int x - series_mean env series) /
              (if series_std env series = 0 then 1 else series_std env series)) series"

definition normality_test :: "'g env \<Rightarrow> int list \<Rightarrow> py_error + pyval \<times> pyval" where
  "normality_test env series =
     (if HAS_STATSMODELS env then
        (case lilliefors env series of
           Inr (d_stat, p_val) \<Rightarrow> Inr (PFloat d_stat, PFloat p_val)
         | Inl e \<Rightarrow> Inr (PInt 0, PFloat 1.0))
      else
        (let z_score = z_score_of env series
         in bindE (kstest_norm env z_score) (\<lambda>(d_stat, p_val). Inr (PFloat d_stat, PFloat p_val))))"

text \<open>One pass of the loop of part A.\<close>

definition describe_column ::
  "'g env \<Rightarrow> dataframe \<Rightarrow> answer_key \<Rightarrow> string \<times> string \<Rightarrow> py_error + answer_key" where
  "describe_column env df klucz item =
     (case item of (col_name, prefix) \<Rightarrow>
        bindE (df_getitem df col_name) (\<lambda>series.
          let klucz = AList.update (prefix @ ''_m'') (PFloat (series_mean env series)) klucz;
              klucz = AList.update (prefix @ ''_mdn'') (PFloat (series_median env series)) klucz;
              klucz = AList.update (prefix @ ''_sd'') (PFloat (series_std env series)) klucz;
              klucz = AList.update (prefix @ ''_sk'') (PFloat (series_skew env series)) klucz;
              klucz = AList.update (prefix @ ''_kurt'') (PFloat (series_kurt env series)) klucz;
              klucz = AList.update (prefix @ ''_min'') (PInt (series_min env series)) klucz;
              klucz = AList.update (prefix @ ''_max'') (PInt (series_max env series)) klucz
          in bindE (normality_test env series) (\<lambda>(d_stat, p_val).
               let klucz = AList.update (prefix @ ''_d'') d_stat klucz;
                   klucz = AList.update (prefix @ ''_p'') p_val klucz
               in Inr klucz)))"

fun describe_all ::
  "'g env \<Rightarrow> dataframe \<Rightarrow> answer_key \<Rightarrow> (string \<times> string) list \<Rightarrow> py_error + answer_key" where
  "describe_all env df klucz [] = Inr klucz"
| "describe_all env df klucz (item # items) =
     bindE (describe_column env df klucz item) (\<lambda>klucz'. describe_all env df klucz' items)"

text \<open>Part B. \<^verbatim>\<open>klucz['neuro_p'] < 0.05\<close> reads the dictionary and compares a number
  with a float.\<close>

definition py_lt :: "pyval \<Rightarrow> real \<Rightarrow> py_error + bool" where
  "py_lt v c =
     (case v of PFloat x \<Rightarrow> Inr (x < c) | PInt i \<Rightarrow> Inr (real_of_int i < c) | PStr s \<Rightarrow> Inl TypeError)"

definition lbl_niespelnienie :: string where
  "lbl_niespelnienie =
     [CHR ''n'', CHR ''i'', CHR ''e'', CHR ''s'', CHR ''p'', CHR ''e'', CHR 0xC5, CHR 0x82,
      CHR ''n'', CHR ''i'', CHR ''e'', CHR ''n'', CHR ''i'', CHR ''e'']"

definition lbl_spelnienie :: string where
  "lbl_spelnienie =
     [CHR ''s'', CHR ''p'', CHR ''e'', CHR 0xC5, CHR 0x82,
      CHR ''n'', CHR ''i'', CHR ''e'', CHR ''n'', CHR ''i'', CHR ''e'']"

definition method_label :: "answer_key \<Rightarrow> py_error + answer_key" where
  "method_label klucz =
     (case map_of klucz ''neuro_p'' of
        None \<Rightarrow> Inl (KeyError ''neuro_p'')
      | Some v \<Rightarrow>
          bindE (py_lt v 0.05) (\<lambda>b.
            if b then
              Inr (AList.update ''korelacja_typ'' (PStr ''rho-Spearmana'')
                    (AList.update ''rozklad_typ'' (PStr lbl_niespelnienie) klucz))
            else
              Inr (AList.update ''korelacja_typ'' (PStr ''r-Pearsona'')
                    (AList.update ''rozklad_typ'' (PStr lbl_spelnienie) klucz))))"

text \<open>Part C. \<^verbatim>\<open>idx\<close> is the dictionary built from \<^verbatim>\<open>enumerate(vars_list)\<close>.\<close>

definition vars_list :: "string list" where
  "vars_list = [''Ekstrawersja'', ''Neurotyzm'', ''Otwartosc'', ''Ugodowosc'', ''Sumiennosc'']"

definition idx :: "string \<Rightarrow> nat option" where
  "idx = map_of (map (\<lambda>(i, name). (name, i)) (enumerate 0 vars_list))"

text \<open>\<^verbatim>\<open>a[i, j]\<close>: a float cannot be indexed.\<close>

definition np_getitem :: "np_value \<Rightarrow> nat \<Rightarrow> nat \<Rightarrow> py_error + real" where
  "np_getitem a i j = (case a of NdArray m \<Rightarrow> Inr (m i j) | NpScalar x \<Rightarrow> Inl TypeError)"

definition get_rp :: "np_value \<Rightarrow> np_value \<Rightarrow> string \<Rightarrow> string \<Rightarrow> py_error + real \<times> real" where
  "get_rp rho p_matrix v1 v2 =
     (case idx v1 of
        None \<Rightarrow> Inl (KeyError v1)
      | Some i \<Rightarrow>
          (case idx v2 of
             None \<Rightarrow> Inl (KeyError v2)
           | Some j \<Rightarrow>
               bindE (np_getitem rho i j) (\<lambda>r.
               bindE (np_getitem p_matrix i j) (\<lambda>p. Inr (r, p)))))"

definition pairs :: "(string \<times> string \<times> string) list" where
  "pairs =
     [(''Neurotyzm'', ''Ekstrawersja'', ''corr_neuro_ekstra''),
      (''Otwartosc'', ''Ekstrawersja'', ''corr_otwar_ekstra''),
      (''Otwartosc'', ''Neurotyzm'', ''corr_otwar_neuro''),
      (''Ugodowosc'', ''Ekstrawersja'', ''corr_ugoda_ekstra''),
      (''Ugodowosc'', ''Neurotyzm'', ''corr_ugoda_neuro''),
      (''Ugodowosc'', ''Otwartosc'', ''corr_ugoda_otwar''),
      (''Sumiennosc'', ''Ekstrawersja'', ''corr_sumien_ekstra''),
      (''Sumiennosc'', ''Neurotyzm'', ''corr_sumien_neuro''),
      (''Sumiennosc'', ''Otwartosc'', ''corr_sumien_otwar''),
      (''Sumiennosc'', ''Ugodowosc'', ''corr_sumien_ugoda'')]"

fun format_pairs ::
  "np_value \<Rightarrow> np_value \<Rightarrow> answer_key \<Rightarrow> (string \<times> string \<times> string) list \<Rightarrow> py_error + answer_key" where
  "format_pairs rho p_matrix klucz [] = Inr klucz"
| "format_pairs rho p_matrix klucz ((v1, v2, key) # rest) =
     bindE (get_rp rho p_matrix v1 v2) (\<lambda>(r, p).
       format_pairs rho p_matrix
         (AList.update key (PStr (format_r_z_gwiazdkami (Fin r) (Fin p))) klucz) rest)"

text \<open>Part D, the four hypotheses in the order of the source.\<close>

definition lbl_potwierdza :: string where "lbl_potwierdza = ''potwierdza''"
definition lbl_nie_potwierdza :: string where "lbl_nie_potwierdza = ''nie potwierdza''"

definition hypotheses :: "np_value \<Rightarrow> np_value \<Rightarrow> answer_key \<Rightarrow> py_error + answer_key" where
  "hypotheses rho p_matrix klucz =
     bindE (get_rp rho p_matrix ''Neurotyzm'' ''Ekstrawersja'') (\<lambda>(r1, p1).
       let klucz = AList.update ''h1_sila'' (PStr (ocen_sile r1)) klucz;
           klucz = AList.update ''h1_kierunek'' (PStr (ocen_kierunek r1)) klucz;
           klucz = AList.update ''h1_decyzja''
                     (PStr (if p1 < 0.05 \<and> r1 < 0 then lbl_potwierdza else lbl_nie_potwierdza)) klucz
       in
     bindE (get_rp rho p_matrix ''Otwartosc'' ''Ekstrawersja'') (\<lambda>(r2, p2).
       let klucz = AList.update ''h2_sila'' (PStr (ocen_sile r2)) klucz;
           klucz = AList.update ''h2_kierunek'' (PStr (ocen_kierunek r2)) klucz;
           klucz = AList.update ''h2_decyzja''
                     (PStr (if p2 < 0.05 \<and> r2 > 0 then lbl_potwierdza else lbl_nie_potwierdza)) klucz
       in
     bindE (get_rp rho p_matrix ''Otwartosc'' ''Neurotyzm'') (\<lambda>(r3, p3).
       let klucz = AList.update ''h3_sila'' (PStr (ocen_sile r3)) klucz;
           klucz = AList.update ''h3_kierunek'' (PStr (ocen_kierunek r3)) klucz;
           klucz = AList.update ''h3_decyzja''
                     (PStr (if p3 < 0.05 \<and> r3 < 0 then lbl_potwierdza else lbl_nie_potwierdza)) klucz
       in
     bindE (get_rp rho p_matrix ''Ugodowosc'' ''Ekstrawersja'') (\<lambda>(r4, p4).
       let klucz = AList.update ''h4_sila'' (PStr (ocen_sile r4)) klucz;
           klucz = AList.update ''h4_kierunek'' (PStr (ocen_kierunek r4)) klucz;
           klucz =
             (if \<bar>r4\<bar> < 0.1 \<or> p4 \<ge> 0.05 then
                AList.update ''h4_decyzja'' (PStr lbl_nie_potwierdza) klucz
              else
                AList.update ''h4_decyzja''
                  (PStr (if r4 > 0 then lbl_potwierdza else lbl_nie_potwierdza)) klucz)
       in Inr klucz))))"

definition oblicz_poprawne_statystyki :: "'g env \<Rightarrow> dataframe \<Rightarrow> py_error + answer_key" where
  "oblicz_poprawne_statystyki env df =
     bindE (describe_all env df [] PREFIX_MAP) (\<lambda>klucz.
     bindE (method_label klucz) (\<lambda>klucz.
     bindE (df_select df vars_list) (\<lambda>columns.
     bindE (spearmanr env columns) (\<lambda>(rho, p_matrix).
     bindE (format_pairs rho p_matrix klucz pairs) (\<lambda>klucz.
     hypotheses rho p_matrix klucz)))))"

section \<open>A sample environment and sample inputs\<close>

text \<open>Stand-ins for the libraries, used to run the model on concrete inputs. The digest
  is not MD5: its sixteen bytes are sixteen polynomial checksums of the input bytes. The
  sampler returns, from state \<open>g\<close>, row \<open>i\<close> as the mean shifted by
  \<open>0.45 * ((g + i) mod 50) - 10\<close> and leaves the state \<open>g + 1\<close>. The rank correlations
  are fixed tables.\<close>

definition sample_digest :: "byte list \<Rightarrow> byte list" where
  "sample_digest bs = map (\<lambda>k. foldl (\<lambda>a b. 31 * a + b) (of_nat (7 * k + 1)) bs) [0..<16]"

definition sample_rho :: matrix where
  "sample_rho = (\<lambda>i j.
     [[1, -0.55, 0.5, 0.3, 0.1],
      [-0.55, 1, -0.4, -0.1, -0.2],
      [0.5, -0.4, 1, 0.2, 0.2],
      [0.3, -0.1, 0.2, 1, 0.3],
      [0.1, -0.2, 0.2, 0.3, 1]] ! i ! j)"

definition sample_p :: matrix where
  "sample_p = (\<lambda>i j.
     [[0, 0.0001, 0.0000001, 0.002, 0.32],
      [0.0001, 0, 0.00004, 0.32, 0.046],
      [0.0000001, 0.00004, 0, 0.046, 0.046],
      [0.002, 0.32, 0.046, 0, 0.002],
      [0.32, 0.046, 0.046, 0.002, 0]] ! i ! j)"

definition sample_env :: "int env" where
  "sample_env =
     \<lparr> HAS_STATSMODELS = True,
       md5_digest = sample_digest,
       seed_state = (\<lambda>seed. seed),
       multivariate_normal =
         (\<lambda>g m c n.
            (map (\<lambda>i. map (\<lambda>mu. mu - 10 + 0.45 * real (nat ((g + int i) mod 50))) m) [0..<n],
             g + 1)),
       series_mean = (\<lambda>s. real_of_int (sum_list s) / real (length s)),
       series_median = (\<lambda>s. 12),
       series_std = (\<lambda>s. 3.5),
       series_skew = (\<lambda>s. 0),
       series_kurt = (\<lambda>s. 0),
       series_min = (\<lambda>s. fold min s 20),
       series_max = (\<lambda>s. fold max s 5),
       lilliefors = (\<lambda>s. Inr (0.09, 0.04)),
       kstest_norm = (\<lambda>z. Inr (0.09, 0.4)),
       spearmanr = (\<lambda>columns. Inr (NdArray sample_rho, NdArray sample_p)) \<rparr>"

text \<open>The same environment with a Lilliefors test that raises on every column.\<close>

definition failing_env :: "int env" where
  "failing_env = sample_env \<lparr> lilliefors := (\<lambda>s. Inl LibraryError) \<rparr>"

definition sample_df :: dataframe where
  "sample_df =
     [(''Ekstrawersja'', replicate 50 10 @ replicate 50 14),
      (''Neurotyzm'', replicate 50 15 @ replicate 50 9),
      (''Otwartosc'', replicate 40 11 @ replicate 60 13),
      (''Ugodowosc'', replicate 25 5 @ replicate 75 20),
      (''Sumiennosc'', replicate 30 12 @ replicate 70 16)]"

text \<open>The keys of the answer key in the order the program assigns them, and the keys of a
  dictionary after one more assignment.\<close>

definition stat_suffixes :: "string list" where
  "stat_suffixes = [''_m'', ''_mdn'', ''_sd'', ''_sk'', ''_kurt'', ''_min'', ''_max'', ''_d'', ''_p'']"

definition hypothesis_keys :: "string list" where
  "hypothesis_keys =
     [''h1_sila'', ''h1_kierunek'', ''h1_decyzja'',
      ''h2_sila'', ''h2_kierunek'', ''h2_decyzja'',
      ''h3_sila'', ''h3_kierunek'', ''h3_decyzja'',
      ''h4_sila'', ''h4_kierunek'', ''h4_decyzja'']"

definition expected_keys :: "string list" where
  "expected_keys =
     concat (map (\<lambda>(col_name, prefix). map (\<lambda>suffix. prefix @ suffix) stat_suffixes) PREFIX_MAP)
     @ [''rozklad_typ'', ''korelacja_typ'']
     @ map (\<lambda>(v1, v2, key). key) pairs
     @ hypothesis_keys"

definition add_key :: "'k \<Rightarrow> 'k list \<Rightarrow> 'k list" where
  "add_key k ks = (if k \<in> set ks then ks else ks @ [k])"

section \<open>Closed forms of the assignments\<close>

text \<open>The nine entries one pass of part A adds for a column, and the twelve entries of
  part D, written as one nested update each (the last assignment outermost). The verdict
  of the fourth hypothesis is written as one condition.\<close>

definition column_entries ::
  "'g env \<Rightarrow> string \<Rightarrow> int list \<Rightarrow> pyval \<Rightarrow> pyval \<Rightarrow> answer_key \<Rightarrow> answer_key" where
  "column_entries env prefix series d_stat p_val klucz =
     AList.update (prefix @ ''_p'') p_val
      (AList.update (prefix @ ''_d'') d_stat
       (AList.update (prefix @ ''_max'') (PInt (series_max env series))
        (AList.update (prefix @ ''_min'') (PInt (series_min env series))
         (AList.update (prefix @ ''_kurt'') (PFloat (series_kurt env series))
          (AList.update (prefix @ ''_sk'') (PFloat (series_skew env series))
           (AList.update (prefix @ ''_sd'') (PFloat (series_std env series))
            (AList.update (prefix @ ''_mdn'') (PFloat (series_median env series))
             (AList.update (prefix @ ''_m'') (PFloat (series_mean env series)) klucz))))))))"

definition hypothesis_entries :: "matrix \<Rightarrow> matrix \<Rightarrow> answer_key \<Rightarrow> answer_key" where
  "hypothesis_entries rho pm klucz =
     AList.update ''h4_decyzja''
        (PStr (if pm 3 0 < 0.05 \<and> rho 3 0 > 0 \<and> \<bar>rho 3 0\<bar> \<ge> 0.1
               then lbl_potwierdza else lbl_nie_potwierdza))
      (AList.update ''h4_kierunek'' (PStr (ocen_kierunek (rho 3 0)))
      (AList.update ''h4_sila'' (PStr (ocen_sile (rho 3 0)))
      (AList.update ''h3_decyzja''
        (PStr (if pm 2 1 < 0.05 \<and> rho 2 1 < 0 then lbl_potwierdza else lbl_nie_potwierdza))
      (AList.update ''h3_kierunek'' (PStr (ocen_kierunek (rho 2 1)))
      (AList.update ''h3_sila'' (PStr (ocen_sile (rho 2 1)))
      (AList.update ''h2_decyzja''
        (PStr (if pm 2 0 < 0.05 \<and> rho 2 0 > 0 then lbl_potwierdza else lbl_nie_potwierdza))
      (AList.update ''h2_kierunek'' (PStr (ocen_kierunek (rho 2 0)))
      (AList.update ''h2_sila'' (PStr (ocen_sile (rho 2 0)))
      (AList.update ''h1_decyzja''
        (PStr (if pm 1 0 < 0.05 \<and> rho 1 0 < 0 then lbl_potwierdza else lbl_nie_potwierdza))
      (AList.update ''h1_kierunek'' (PStr (ocen_kierunek (rho 1 0)))
      (AList.update ''h1_sila'' (PStr (ocen_sile (rho 1 0))) klucz)))))))))))"

section \<open>Auxiliary facts: errors, digits and rounding\<close>

lemma bindE_simps [simp]: "bindE (Inr x) f = f x" "bindE (Inl e) f = Inl e"
  by (simp_all add: bindE_def)

lemma bindE_Inr_iff: "bindE m f = Inr y \<longleftrightarrow> (\<exists>x. m = Inr x \<and> f x = Inr y)"
  by (cases m) simp_all

lemma bindE_assoc: "bindE (bindE m f) h = bindE m (\<lambda>x. bindE (f x) h)"
  by (cases m) simp_all

lemma bindE_Inl_iff: "bindE m f = Inl e \<longleftrightarrow> (m = Inl e \<or> (\<exists>x. m = Inr x \<and> f x = Inl e))"
  by (cases m) simp_all

lemma digit_char_props:
  assumes "d < 10"
  shows "is_digit (digit_char d)" "(of_char (digit_char d) :: nat) - 48 = d"
  using assms by (auto simp: is_digit_def digit_char_def)

lemma digit_char_neq:
  assumes "d < 10"
  shows "digit_char d \<noteq> CHR ''.''" "digit_char d \<noteq> CHR '',''" "digit_char d \<noteq> CHR ''*''"
        "digit_char d \<noteq> CHR ''-''"
proof -
  have n: "\<not> is_digit (CHR ''.'')" "\<not> is_digit (CHR '','')" "\<not> is_digit (CHR ''*'')"
    "\<not> is_digit (CHR ''-'')"
    by (simp_all add: is_digit_def)
  from digit_char_props(1)[OF assms] n
  show "digit_char d \<noteq> CHR ''.''" "digit_char d \<noteq> CHR '',''" "digit_char d \<noteq> CHR ''*''"
        "digit_char d \<noteq> CHR ''-''"
    by metis+
qed

lemma digit_char_vals:
  "digit_char 0 = CHR ''0''" "digit_char 1 = CHR ''1''" "digit_char 2 = CHR ''2''"
  "digit_char 3 = CHR ''3''" "digit_char 4 = CHR ''4''" "digit_char 5 = CHR ''5''"
  "digit_char 6 = CHR ''6''" "digit_char 7 = CHR ''7''" "digit_char 8 = CHR ''8''"
  "digit_char 9 = CHR ''9''" "digit_char (Suc 0) = CHR ''1''"
  by code_simp+

lemma str_nat_digits: "list_all is_digit (str_nat n)"
  by (induction n rule: str_nat.induct) (subst str_nat.simps, auto simp: digit_char_props)

lemma str_nat_ne: "str_nat n \<noteq> []"
  by (subst str_nat.simps) auto

lemma str_nat_foldl: "foldl (\<lambda>a c. 10 * a + ((of_char c :: nat) - 48)) 0 (str_nat n) = n"
  by (induction n rule: str_nat.induct) (subst str_nat.simps, auto simp: digit_char_props)

lemma parse_str_nat: "spec_parse_nat (str_nat n) = Some n"
  by (simp add: spec_parse_nat_def str_nat_digits str_nat_ne str_nat_foldl)

lemma rhe_neg: "round_half_even (- x) = - round_half_even x"
proof (cases "x = of_int \<lfloor>x\<rfloor>")
  case True
  then obtain k where "x = of_int k" by metis
  then show ?thesis by (simp add: round_half_even_def)
next
  case False
  have "\<lfloor>- x\<rfloor> = - \<lceil>x\<rceil>" by (simp add: ceiling_def)
  also have "\<dots> = - \<lfloor>x\<rfloor> - 1" using False by (simp add: ceiling_altdef)
  finally have fl: "\<lfloor>- x\<rfloor> = - \<lfloor>x\<rfloor> - 1" .
  have "x - of_int \<lfloor>x\<rfloor> \<noteq> 0" using False by simp
  then show ?thesis
    unfolding round_half_even_def Let_def fl by (auto)
qed

lemma rhe_nearest:
  "\<bar>real_of_int (round_half_even x) - x\<bar> \<le> 1 / 2"
  "\<bar>real_of_int (round_half_even x) - x\<bar> = 1 / 2 \<Longrightarrow> even (round_half_even x)"
proof -
  have f: "real_of_int \<lfloor>x\<rfloor> \<le> x" "x < real_of_int \<lfloor>x\<rfloor> + 1" by linarith+
  show "\<bar>real_of_int (round_half_even x) - x\<bar> \<le> 1 / 2"
    unfolding round_half_even_def Let_def using f by (auto simp: abs_le_iff)
  show "even (round_half_even x)" if "\<bar>real_of_int (round_half_even x) - x\<bar> = 1 / 2"
    using that f unfolding round_half_even_def Let_def by (auto split: if_splits)
qed

lemma rhe_unique:
  assumes "\<bar>real_of_int n - x\<bar> \<le> 1 / 2"
    and "\<bar>real_of_int n - x\<bar> = 1 / 2 \<longrightarrow> even n"
  shows "n = round_half_even x"
proof -
  let ?m = "round_half_even x"
  note r = rhe_nearest[of x]
  have "\<bar>real_of_int n - real_of_int ?m\<bar> \<le> 1" using assms(1) r(1) by linarith
  then have "\<bar>n - ?m\<bar> \<le> 1" by linarith
  then consider "n = ?m" | "n = ?m + 1" | "n = ?m - 1" by linarith
  then show ?thesis
  proof cases
    case 1 then show ?thesis .
  next
    case 2
    then have a: "\<bar>real_of_int n - x\<bar> = 1 / 2" "\<bar>real_of_int ?m - x\<bar> = 1 / 2"
      using assms(1) r(1) by auto
    with assms(2) r(2) have "even n" "even ?m" by auto
    with 2 show ?thesis by simp
  next
    case 3
    then have a: "\<bar>real_of_int n - x\<bar> = 1 / 2" "\<bar>real_of_int ?m - x\<bar> = 1 / 2"
      using assms(1) r(1) by auto
    with assms(2) r(2) have "even n" "even ?m" by auto
    with 3 show ?thesis by simp
  qed
qed

lemma rhe_nonneg: "0 \<le> x \<Longrightarrow> 0 \<le> round_half_even x"
  unfolding round_half_even_def Let_def by auto

lemma digits_replace_id:
  "list_all is_digit s \<Longrightarrow> str_replace (CHR ''.'') (CHR '','') s = s"
  "list_all is_digit s \<Longrightarrow> str_replace (CHR '','') (CHR ''.'') s = s"
  "list_all is_digit s \<Longrightarrow> spec_strip_stars s = s"
  "list_all is_digit s \<Longrightarrow> takeWhile (\<lambda>c. c \<noteq> CHR ''.'') (s @ CHR ''.'' # t) = s"
  by (induction s) (auto simp: str_replace_def spec_strip_stars_def is_digit_def)

lemma str_replace_append: "str_replace a b (s @ t) = str_replace a b s @ str_replace a b t"
  by (simp add: str_replace_def)

lemma strip_append: "spec_strip_stars (s @ t) = spec_strip_stars s @ spec_strip_stars t"
  by (simp add: spec_strip_stars_def)

lemma format_2f_body:
  "format_2f (Fin r) = (if r < 0 then ''-'' else '''') @ body_2f (nat (round_half_even (\<bar>r\<bar> * 100)))"
  by (simp add: format_2f_def Let_def)

lemma two_digits:
  "list_all is_digit [digit_char (q mod 100 div 10), digit_char (q mod 10)]"
proof -
  have "q mod 100 < 10 * 10" by simp
  then have "q mod 100 div 10 < 10" by (rule less_mult_imp_div_less)
  moreover have "q mod 10 < 10" by simp
  ultimately show ?thesis by (simp add: digit_char_props)
qed

lemma unformat_body:
  "str_replace (CHR '','') (CHR ''.'') (spec_strip_stars (str_replace (CHR ''.'') (CHR '','') (body_2f q))) = body_2f q"
proof -
  let ?d = "[digit_char (q mod 100 div 10), digit_char (q mod 10)]"
  have a: "str_replace (CHR ''.'') (CHR '','') (body_2f q) = str_nat (q div 100) @ '','' @ ?d"
    unfolding body_2f_def str_replace_append
    using digits_replace_id(1)[OF str_nat_digits] digits_replace_id(1)[OF two_digits]
    by (simp add: str_replace_def)
  have b: "spec_strip_stars (str_nat (q div 100) @ '','' @ ?d) = str_nat (q div 100) @ '','' @ ?d"
    unfolding strip_append
    using digits_replace_id(3)[OF str_nat_digits] digits_replace_id(3)[OF two_digits]
    by (simp add: spec_strip_stars_def)
  have c: "str_replace (CHR '','') (CHR ''.'') (str_nat (q div 100) @ '','' @ ?d) = body_2f q"
    unfolding body_2f_def str_replace_append
    using digits_replace_id(2)[OF str_nat_digits] digits_replace_id(2)[OF two_digits]
    by (simp add: str_replace_def)
  show ?thesis by (simp only: a b c)
qed

lemma unformat:
  "str_replace (CHR '','') (CHR ''.'') (spec_strip_stars (format_r_z_gwiazdkami (Fin r) p)) = format_2f (Fin r)"
proof -
  have st: "str_replace (CHR '','') (CHR ''.'') (spec_strip_stars (str_replace (CHR ''.'') (CHR '','') s)) = []"
    if "s \<in> {''***'', ''**'', ''*'', ''''}" for s
    using that by (auto simp: str_replace_def spec_strip_stars_def)
  have sg: "str_replace (CHR '','') (CHR ''.'') (spec_strip_stars (str_replace (CHR ''.'') (CHR '','') s)) = s"
    if "s \<in> {''-'', ''''}" for s
    using that by (auto simp: str_replace_def spec_strip_stars_def)
  show ?thesis
    unfolding format_r_z_gwiazdkami_def Let_def format_2f_body str_replace_append strip_append
    by (simp add: unformat_body st sg)
qed

lemma two_digit_value: "10 * (q mod 100 div 10) + q mod 10 = (q mod 100 :: nat)"
proof -
  have "q mod 10 = q mod 100 mod 10" by (simp add: mod_mod_cancel)
  then show ?thesis by (simp only: mult_div_mod_eq)
qed

lemma two_digit_bounds: "q mod 100 div 10 < (10::nat)" "q mod 10 < (10::nat)"
proof -
  have "q mod 100 < 10 * 10" by simp
  then show "q mod 100 div 10 < 10" by (rule less_mult_imp_div_less)
  show "q mod 10 < 10" by simp
qed

lemma parse_two_digits:
  "spec_parse_nat [digit_char (q mod 100 div 10), digit_char (q mod 10)] = Some (q mod 100)"
proof -
  have "spec_parse_nat [digit_char (q mod 100 div 10), digit_char (q mod 10)]
        = Some (10 * (q mod 100 div 10) + q mod 10)"
    unfolding spec_parse_nat_def
    by (simp add: digit_char_props[OF two_digit_bounds(1)] digit_char_props[OF two_digit_bounds(2)])
  then show ?thesis by (simp only: two_digit_value)
qed

lemma hd_body: "hd (body_2f q) \<noteq> CHR ''-''"
proof -
  have "hd (str_nat (q div 100)) \<in> set (str_nat (q div 100))" by (simp add: str_nat_ne)
  then have "is_digit (hd (str_nat (q div 100)))"
    using str_nat_digits[of "q div 100"] by (simp add: list_all_iff)
  moreover have "\<not> is_digit (CHR ''-'')" by (simp add: is_digit_def)
  ultimately have "hd (str_nat (q div 100)) \<noteq> CHR ''-''" by metis
  then show ?thesis by (simp add: body_2f_def hd_append str_nat_ne)
qed

lemma lin_100: "100 * a + b = (c::real) \<Longrightarrow> a + b / 100 = c / 100"
  by linarith

lemma real_div_mod_100: "real (q div 100) + real (q mod 100) / 100 = real q / 100"
proof -
  have "100 * (q div 100) + q mod 100 = q" by (rule mult_div_mod_eq)
  then have "real (100 * (q div 100) + q mod 100) = real q" by (simp only:)
  then have "100 * real (q div 100) + real (q mod 100) = real q"
    by (simp only: of_nat_add of_nat_mult of_nat_numeral)
  then show ?thesis by (rule lin_100)
qed

lemma tw_body: "takeWhile (\<lambda>c. c \<noteq> CHR ''.'') (body_2f q) = str_nat (q div 100)"
  unfolding body_2f_def using digits_replace_id(4)[OF str_nat_digits, of "q div 100"] by simp

lemma dr_body: "drop (length (str_nat (q div 100)) + 1) (body_2f q) = [digit_char (q mod 100 div 10), digit_char (q mod 10)]"
  unfolding body_2f_def by simp

lemma parse_decimal_unsigned:
  assumes "s \<noteq> []" "hd s \<noteq> CHR ''-''"
    and "takeWhile (\<lambda>c. c \<noteq> CHR ''.'') s = ip"
    and "drop (length ip + 1) s = fp"
    and "spec_parse_nat ip = Some a" "spec_parse_nat fp = Some b"
  shows "spec_parse_decimal s = Some (real a + real b / 10 ^ length fp)"
  unfolding spec_parse_decimal_def Let_def using assms by simp

lemma parse_body:
  "spec_parse_decimal (body_2f q) = Some (real q / 100)"
proof -
  have ne: "body_2f q \<noteq> []" by (simp add: body_2f_def)
  have "spec_parse_decimal (body_2f q) = Some (real (q div 100) + real (q mod 100) / 10 ^ length [digit_char (q mod 100 div 10), digit_char (q mod 10)])"
    by (rule parse_decimal_unsigned[OF ne hd_body tw_body dr_body parse_str_nat parse_two_digits])
  also have "\<dots> = Some (real q / 100)"
    by (simp only: real_div_mod_100[of q, symmetric]) simp
  finally show ?thesis .
qed

lemma parse_neg_body:
  "spec_parse_decimal (''-'' @ body_2f q) = Some (- (real q / 100))"
proof -
  have "spec_parse_decimal (''-'' @ body_2f q) = map_option uminus (spec_parse_decimal (body_2f q))"
  proof -
    note hdne = hd_body
    show ?thesis
      unfolding spec_parse_decimal_def Let_def using hdne
      by (auto split: option.splits)
  qed
  then show ?thesis by (simp add: parse_body)
qed

lemma parse_format_2f:
  "spec_parse_decimal (format_2f (Fin r)) = Some (real_of_int (round_half_even (r * 100)) / 100)"
proof (cases "r < 0")
  case True
  then have "\<bar>r\<bar> * 100 = - (r * 100)" by simp
  then have e: "round_half_even (\<bar>r\<bar> * 100) = - round_half_even (r * 100)" by (simp add: rhe_neg)
  have "0 \<le> round_half_even (\<bar>r\<bar> * 100)" by (rule rhe_nonneg) simp
  then have "real (nat (round_half_even (\<bar>r\<bar> * 100))) = - real_of_int (round_half_even (r * 100))"
    using e by simp
  then show ?thesis using True parse_neg_body[of "nat (round_half_even (\<bar>r\<bar> * 100))"]
    by (simp add: format_2f_body)
next
  case False
  then have "\<bar>r\<bar> * 100 = r * 100" by simp
  moreover have "0 \<le> round_half_even (\<bar>r\<bar> * 100)" by (rule rhe_nonneg) simp
  ultimately have "real (nat (round_half_even (\<bar>r\<bar> * 100))) = real_of_int (round_half_even (r * 100))"
    by simp
  then show ?thesis using False by (simp add: format_2f_body parse_body)
qed

section \<open>Auxiliary facts: seed derivation and generation\<close>

lemma hex_val_hex_char: "d < 16 \<Longrightarrow> hex_val (hex_char d) = Some d"
  by (auto simp: hex_val_def hex_char_def Let_def)

lemma nibbles: "unat (b :: byte) div 16 < 16" "unat b mod 16 < 16"
proof -
  have "unat b < 16 * 16" using unsigned_less[of b] by simp
  then show "unat b div 16 < 16" by (rule less_mult_imp_div_less)
  show "unat b mod 16 < 16" by simp
qed

lemma hexdigest_Nil [simp]: "hexdigest [] = []"
  by (simp add: hexdigest_def)

lemma hexdigest_Cons:
  "hexdigest (b # bs) = hex_char (unat b div 16) # hex_char (unat b mod 16) # hexdigest bs"
  by (simp add: hexdigest_def)

lemma hexdigest_snoc:
  "hexdigest (bs @ [b]) = hexdigest bs @ [hex_char (unat b div 16), hex_char (unat b mod 16)]"
  by (simp add: hexdigest_def)

lemma hexdigest_all_hex: "list_all (\<lambda>c. hex_val c \<noteq> None) (hexdigest bs)"
  by (induction bs) (simp_all add: hexdigest_Cons hex_val_hex_char nibbles)

lemma hexdigest_empty_iff: "hexdigest bs = [] \<longleftrightarrow> bs = []"
  by (cases bs) (simp_all add: hexdigest_Cons)

lemma byte_split: "16 * int (unat (b::byte) div 16) + int (unat b mod 16) = uint b"
proof -
  have "16 * (unat b div 16) + unat b mod 16 = unat b" by (rule mult_div_mod_eq)
  then have "int (16 * (unat b div 16) + unat b mod 16) = int (unat b)" by (simp only:)
  then show ?thesis by (simp only: of_nat_add of_nat_mult of_nat_numeral) simp
qed

lemma nibble_step: "16 * h + l = u \<Longrightarrow> 16 * (16 * B + h) + l = 256 * B + (u::int)"
  by simp

lemma foldl_hexdigest:
  "foldl (\<lambda>a c. 16 * a + int (the (hex_val c))) 0 (hexdigest bs) = digest_int bs"
proof (induction bs rule: rev_induct)
  case Nil
  then show ?case by (simp add: digest_int_def)
next
  case (snoc b bs)
  have "16 * (16 * digest_int bs + int (unat b div 16)) + int (unat b mod 16)
        = 256 * digest_int bs + uint b"
    by (rule nibble_step [OF byte_split])
  then show ?case
    using snoc by (simp add: hexdigest_snoc hex_val_hex_char nibbles digest_int_def)
qed

lemma int_base16_hexdigest:
  "bs \<noteq> [] \<Longrightarrow> int_base16 (hexdigest bs) = Inr (digest_int bs)"
  unfolding int_base16_def using hexdigest_all_hex[of bs]
  by (simp add: hexdigest_empty_iff foldl_hexdigest)

lemma encode_cp_ok: "encodable c \<Longrightarrow> \<exists>bs. encode_utf8_cp c = Inr bs"
  by (auto simp: encodable_def encode_utf8_cp_def)

lemma encode_cp_fail: "\<not> encodable c \<Longrightarrow> encode_utf8_cp c = Inl UnicodeEncodeError"
  by (auto simp: encodable_def encode_utf8_cp_def)

lemma str_encode_ok: "list_all encodable s \<Longrightarrow> \<exists>bs. str_encode_utf8 s = Inr bs"
proof (induction s)
  case Nil
  then show ?case by simp
next
  case (Cons c s)
  then obtain b bs where "encode_utf8_cp c = Inr b" "str_encode_utf8 s = Inr bs"
    using encode_cp_ok[of c] by auto
  then show ?case by simp
qed

lemma str_encode_fail: "\<not> list_all encodable s \<Longrightarrow> str_encode_utf8 s = Inl UnicodeEncodeError"
proof (induction s)
  case Nil
  then show ?case by simp
next
  case (Cons c s)
  show ?case
  proof (cases "encodable c")
    case True
    then obtain b where b: "encode_utf8_cp c = Inr b" using encode_cp_ok by blast
    from True Cons.prems have "\<not> list_all encodable s" by simp
    then have "str_encode_utf8 s = Inl UnicodeEncodeError" by (rule Cons.IH)
    with b show ?thesis by simp
  next
    case False
    then show ?thesis by (simp add: encode_cp_fail)
  qed
qed

lemma digest_ne: "library_contract env \<Longrightarrow> md5_digest env bs \<noteq> []"
proof -
  assume "library_contract env"
  then have "length (md5_digest env bs) = 16" by (simp add: library_contract_def)
  then show ?thesis by auto
qed

lemma derive_seed_ok:
  assumes "library_contract env" "str_encode_utf8 user_id = Inr bs"
  shows "derive_seed env user_id = Inr (digest_int (md5_digest env bs) mod 2 ^ 32)"
  using assms by (simp add: derive_seed_def Let_def int_base16_hexdigest digest_ne)

lemma derive_seed_fail:
  assumes "\<not> list_all encodable user_id"
  shows "derive_seed env user_id = Inl UnicodeEncodeError"
  using str_encode_fail[OF assms] by (simp add: derive_seed_def)

lemma sample_digest_length: "length (sample_digest bs) = 16"
  by (simp add: sample_digest_def)

lemma sample_contract: "library_contract sample_env"
  by (simp add: library_contract_def sample_env_def list_all_iff sample_digest_length)

lemma md5_sample: "md5_digest sample_env = sample_digest"
  by (simp add: sample_env_def)

lemma np_clip_range: "5 \<le> np_clip 5 20 v \<and> np_clip 5 20 v \<le> 20"
  by (simp add: np_clip_def)

lemma clip_of_rounded:
  fixes x :: real
  defines "v \<equiv> np_clip 5 20 (astype_int (round_half_even x))"
  shows "5 \<le> v" "v \<le> 20" "x \<le> 5 \<Longrightarrow> v = 5" "20 \<le> x \<Longrightarrow> x < 2 ^ 62 \<Longrightarrow> v = 20"
    "5 \<le> x \<Longrightarrow> x \<le> 20 \<Longrightarrow> v = round_half_even x"
proof -
  note r = rhe_nearest(1)[of x]
  show "5 \<le> v" "v \<le> 20" by (simp_all add: v_def np_clip_def)
  show "v = 5" if "x \<le> 5"
  proof -
    from that r have "round_half_even x \<le> 5" by linarith
    then show ?thesis by (simp add: v_def np_clip_def astype_int_def)
  qed
  show "v = 20" if "20 \<le> x" "x < 2 ^ 62"
  proof -
    from that r have "20 \<le> round_half_even x" by linarith
    moreover have p: "(2::real) ^ 62 = 4611686018427387904" by simp
    from that r have "real_of_int (round_half_even x) < 4611686018427387905"
      unfolding p by linarith
    then have "round_half_even x < 4611686018427387905" by linarith
    ultimately show ?thesis by (simp add: v_def np_clip_def astype_int_def)
  qed
  show "v = round_half_even x" if "5 \<le> x" "x \<le> 20"
  proof -
    from that r have "5 \<le> round_half_even x" "round_half_even x \<le> 20" by linarith+
    then show ?thesis by (simp add: v_def np_clip_def astype_int_def)
  qed
qed

lemma generuj_unfold:
  "generuj_dane_studenta env g user_id n =
     bindE (derive_seed env user_id) (\<lambda>seed.
     bindE (np_random_seed env seed) (\<lambda>g1.
       bindE (pd_DataFrame
                (round_and_clip (fst (multivariate_normal env g1 mean_vector (map (map (\<lambda>c. c * sd\<^sup>2)) cov_matrix) n)))
                column_names)
         (\<lambda>df. Inr (df, snd (multivariate_normal env g1 mean_vector (map (map (\<lambda>c. c * sd\<^sup>2)) cov_matrix) n)))))"
  by (simp add: generuj_dane_studenta_def seed_call_def draw_call_def bindE_assoc Let_def
      case_prod_unfold)

lemma round_and_clip_shape:
  "length (round_and_clip sample) = length sample"
  "list_all (\<lambda>row. length row = k) sample \<Longrightarrow> list_all (\<lambda>row. length row = k) (round_and_clip sample)"
  by (simp_all add: round_and_clip_def list_all_iff)

lemma round_and_clip_nth:
  "i < length sample \<Longrightarrow> j < length (sample ! i) \<Longrightarrow>
   round_and_clip sample ! i ! j = np_clip 5 20 (astype_int (round_half_even (sample ! i ! j)))"
  by (simp add: round_and_clip_def)

lemma round_and_clip_range:
  "row \<in> set (round_and_clip sample) \<Longrightarrow> v \<in> set row \<Longrightarrow> 5 \<le> v \<and> v \<le> 20"
  using np_clip_range by (auto simp: round_and_clip_def)

lemma pd_DataFrame_Inr:
  assumes "pd_DataFrame data names = Inr df"
  shows "map fst df = names" "length df = length names"
    "\<forall>(name, series) \<in> set df. length series = length data \<and> (\<forall>v \<in> set series. \<exists>row \<in> set data. v \<in> set row)"
    "\<forall>j < length names. \<forall>i < length data. snd (df ! j) ! i = data ! i ! j"
proof -
  from assms have w: "list_all (\<lambda>row. length row = length names) data"
    and df: "df = map (\<lambda>j. (names ! j, map (\<lambda>row. row ! j) data)) [0..<length names]"
    by (auto simp: pd_DataFrame_def split: if_splits)
  show "map fst df = names" unfolding df by (simp add: o_def map_nth)
  show "length df = length names" unfolding df by simp
  have "\<exists>row \<in> set data. r ! j \<in> set row" if "r \<in> set data" "j < length names" for r j
  proof -
    from that w have "j < length r" by (simp add: list_all_iff)
    then have "r ! j \<in> set r" by (rule nth_mem)
    with that(1) show ?thesis by blast
  qed
  then show "\<forall>(name, series) \<in> set df. length series = length data \<and> (\<forall>v \<in> set series. \<exists>row \<in> set data. v \<in> set row)"
    unfolding df by auto
  show "\<forall>j < length names. \<forall>i < length data. snd (df ! j) ! i = data ! i ! j"
    unfolding df by simp
qed

lemma pd_DataFrame_ok:
  "list_all (\<lambda>row. length row = length names) data \<Longrightarrow> \<exists>df. pd_DataFrame data names = Inr df"
  by (simp add: pd_DataFrame_def)

lemma derive_seed_Inr_range:
  "derive_seed env user_id = Inr seed \<Longrightarrow> 0 \<le> seed \<and> seed < 2 ^ 32"
  by (auto simp: derive_seed_def Let_def bindE_Inr_iff)

lemma contract_rows:
  assumes "library_contract env"
  shows "length (fst (multivariate_normal env g m c n)) = n"
    "list_all (\<lambda>row. length row = length m) (fst (multivariate_normal env g m c n))"
  using assms by (simp_all add: library_contract_def)

lemma contract_width5:
  assumes "library_contract env"
  shows "list_all (\<lambda>row. length row = 5) (fst (multivariate_normal env g mean_vector c n))"
proof -
  have "length mean_vector = 5" by (simp add: mean_vector_def)
  with contract_rows(2)[OF assms, where m = mean_vector] show ?thesis by simp
qed

lemma generate_ok:
  assumes "library_contract env" and "list_all encodable user_id"
  shows "\<exists>df g'. generuj_dane_studenta env g user_id n = Inr (df, g')"
proof -
  let ?cov = "map (map (\<lambda>c. c * sd\<^sup>2)) cov_matrix"
  from str_encode_ok[OF assms(2)] obtain bs where "str_encode_utf8 user_id = Inr bs" by blast
  from derive_seed_ok[OF assms(1) this] obtain seed where
    seed: "derive_seed env user_id = Inr seed" by blast
  from derive_seed_Inr_range[OF seed] have r: "0 \<le> seed" "seed < 2 ^ 32" by simp_all
  have g1: "np_random_seed env seed = Inr (seed_state env seed)"
    using r by (simp add: np_random_seed_def)
  let ?sample = "fst (multivariate_normal env (seed_state env seed) mean_vector ?cov n)"
  have "length column_names = 5" by (simp add: column_names_def)
  then have "list_all (\<lambda>row. length row = length column_names) ?sample"
    using contract_width5[OF assms(1)] by (simp only:)
  then have "list_all (\<lambda>row. length row = length column_names) (round_and_clip ?sample)"
    by (rule round_and_clip_shape(2))
  then obtain df where "pd_DataFrame (round_and_clip ?sample) column_names = Inr df"
    using pd_DataFrame_ok by blast
  then show ?thesis unfolding generuj_unfold by (simp add: seed g1)
qed

lemma generate_fail:
  assumes "\<not> list_all encodable user_id"
  shows "generuj_dane_studenta env g user_id n = Inl UnicodeEncodeError"
  unfolding generuj_unfold by (simp add: derive_seed_fail[OF assms])
section \<open>Auxiliary facts: the encoding, the two calls of the generator, the sample libraries\<close>

lemma encode_cp_table:
  "c < 0x80 \<Longrightarrow> encode_utf8_cp c = Inr [of_nat c]"
  "0x80 \<le> c \<Longrightarrow> c < 0x800 \<Longrightarrow>
     encode_utf8_cp c = Inr [of_nat (0xC0 + c div 64), of_nat (0x80 + c mod 64)]"
  "0x800 \<le> c \<and> c < 0xD800 \<or> 0xE000 \<le> c \<and> c < 0x10000 \<Longrightarrow>
     encode_utf8_cp c =
       Inr [of_nat (0xE0 + c div 4096), of_nat (0x80 + c div 64 mod 64), of_nat (0x80 + c mod 64)]"
  "0x10000 \<le> c \<Longrightarrow> c < 0x110000 \<Longrightarrow>
     encode_utf8_cp c =
       Inr [of_nat (0xF0 + c div 262144), of_nat (0x80 + c div 4096 mod 64),
            of_nat (0x80 + c div 64 mod 64), of_nat (0x80 + c mod 64)]"
  by (auto simp: encode_utf8_cp_def)

lemma str_encode_single: "str_encode_utf8 [c] = bindE (encode_utf8_cp c) (\<lambda>b. Inr b)"
  by (cases "encode_utf8_cp c") simp_all

lemma str_encode_append:
  "str_encode_utf8 u = Inr a \<Longrightarrow> str_encode_utf8 v = Inr b \<Longrightarrow> str_encode_utf8 (u @ v) = Inr (a @ b)"
proof (induction u arbitrary: a)
  case Nil
  then show ?case by simp
next
  case (Cons c u)
  from Cons.prems(1) obtain x y where
    x: "encode_utf8_cp c = Inr x" and y: "str_encode_utf8 u = Inr y" and a: "a = x @ y"
    by (auto simp: bindE_Inr_iff)
  from Cons.IH[OF y Cons.prems(2)] x a show ?case by simp
qed

lemma str_encode_ascii:
  "list_all (\<lambda>c. c < 0x80) u \<Longrightarrow> str_encode_utf8 u = Inr (map of_nat u)"
  by (induction u) (simp_all add: encode_cp_table(1))

lemma digest_int_snoc: "digest_int (d @ [b]) = 256 * digest_int d + uint b"
  by (simp add: digest_int_def)

lemma digest_int_last4:
  "digest_int (d @ [b3, b2, b1, b0]) mod 2 ^ 32 =
     16777216 * uint b3 + 65536 * uint b2 + 256 * uint b1 + uint (b0 :: byte)"
proof -
  have e: "d @ [b3, b2, b1, b0] = (((d @ [b3]) @ [b2]) @ [b1]) @ [b0]" by simp
  have v: "digest_int (d @ [b3, b2, b1, b0]) =
        digest_int d * 2 ^ 32 + (16777216 * uint b3 + 65536 * uint b2 + 256 * uint b1 + uint b0)"
    unfolding e digest_int_snoc by simp
  have b: "0 \<le> uint b3" "uint b3 < 256" "0 \<le> uint b2" "uint b2 < 256"
    "0 \<le> uint b1" "uint b1 < 256" "0 \<le> uint b0" "uint b0 < 256"
    using uint_bounded[of b3] uint_bounded[of b2] uint_bounded[of b1] uint_bounded[of b0]
    by simp_all
  then have r: "0 \<le> 16777216 * uint b3 + 65536 * uint b2 + 256 * uint b1 + uint b0"
    "16777216 * uint b3 + 65536 * uint b2 + 256 * uint b1 + uint b0 < 2 ^ 32"
    by simp_all
  show ?thesis unfolding v using r by (simp add: mod_pos_pos_trivial)
qed

lemma seed_call_Inr:
  "seed_call env user_id = Inr g1 \<longleftrightarrow>
   (\<exists>seed. derive_seed env user_id = Inr seed \<and> g1 = seed_state env seed)"
proof
  assume "seed_call env user_id = Inr g1"
  then show "\<exists>seed. derive_seed env user_id = Inr seed \<and> g1 = seed_state env seed"
    by (auto simp: seed_call_def bindE_Inr_iff np_random_seed_def split: if_splits)
next
  assume "\<exists>seed. derive_seed env user_id = Inr seed \<and> g1 = seed_state env seed"
  then obtain seed where s: "derive_seed env user_id = Inr seed" "g1 = seed_state env seed" by blast
  from derive_seed_Inr_range[OF s(1)] s show "seed_call env user_id = Inr g1"
    by (simp add: seed_call_def np_random_seed_def)
qed

lemma draw_call_unfold:
  "draw_call env g n =
     bindE (pd_DataFrame
              (round_and_clip (fst (multivariate_normal env g mean_vector (map (map (\<lambda>c. c * sd\<^sup>2)) cov_matrix) n)))
              column_names)
       (\<lambda>df. Inr (df, snd (multivariate_normal env g mean_vector (map (map (\<lambda>c. c * sd\<^sup>2)) cov_matrix) n)))"
  by (simp add: draw_call_def Let_def case_prod_unfold)

lemma draw_call_cells:
  assumes "library_contract env" and "draw_call env g n = Inr (df, g')"
  shows "map fst df = column_names" and "length df = 5"
    and "\<forall>(name, series) \<in> set df. length series = n"
    and "\<forall>j < 5. \<forall>i < n. snd (df ! j) ! i =
           np_clip 5 20 (astype_int (round_half_even
             (fst (multivariate_normal env g mean_vector (map (map (\<lambda>c. c * sd\<^sup>2)) cov_matrix) n) ! i ! j)))"
proof -
  let ?cov = "map (map (\<lambda>c. c * sd\<^sup>2)) cov_matrix"
  let ?sample = "fst (multivariate_normal env g mean_vector ?cov n)"
  from assms(2) have df: "pd_DataFrame (round_and_clip ?sample) column_names = Inr df"
    unfolding draw_call_unfold by (auto simp: bindE_Inr_iff)
  have len: "length ?sample = n" by (rule contract_rows(1)[OF assms(1)])
  have wid: "list_all (\<lambda>row. length row = 5) ?sample" by (rule contract_width5[OF assms(1)])
  have ncol: "length column_names = 5" by (simp add: column_names_def)
  note D = pd_DataFrame_Inr[OF df]
  show "map fst df = column_names" by (rule D(1))
  show "length df = 5" using D(2) ncol by simp
  show "\<forall>(name, series) \<in> set df. length series = n"
    using D(3) len by (fastforce simp: round_and_clip_shape(1))
  show "\<forall>j < 5. \<forall>i < n. snd (df ! j) ! i =
           np_clip 5 20 (astype_int (round_half_even (?sample ! i ! j)))"
  proof (intro allI impI)
    fix j i :: nat assume j: "j < 5" and i: "i < n"
    have "snd (df ! j) ! i = round_and_clip ?sample ! i ! j"
      using D(4) j i ncol len by (simp add: round_and_clip_shape(1))
    moreover have "j < length (?sample ! i)"
      using wid i len j by (simp add: list_all_length)
    ultimately show "snd (df ! j) ! i = np_clip 5 20 (astype_int (round_half_even (?sample ! i ! j)))"
      using round_and_clip_nth[of i ?sample j] i len by simp
  qed
qed

lemma draw_call_ok:
  assumes "library_contract env"
  shows "\<exists>df g'. draw_call env g n = Inr (df, g')"
proof -
  let ?cov = "map (map (\<lambda>c. c * sd\<^sup>2)) cov_matrix"
  let ?sample = "fst (multivariate_normal env g mean_vector ?cov n)"
  have "length column_names = 5" by (simp add: column_names_def)
  then have "list_all (\<lambda>row. length row = length column_names) ?sample"
    using contract_width5[OF assms] by (simp only:)
  then have "list_all (\<lambda>row. length row = length column_names) (round_and_clip ?sample)"
    by (rule round_and_clip_shape(2))
  then obtain df where "pd_DataFrame (round_and_clip ?sample) column_names = Inr df"
    using pd_DataFrame_ok by blast
  then show ?thesis unfolding draw_call_unfold by simp
qed

lemma generuj_Inr_steps:
  "generuj_dane_studenta env g user_id n = Inr r \<longleftrightarrow>
   (\<exists>seed. derive_seed env user_id = Inr seed \<and> draw_call env (seed_state env seed) n = Inr r)"
  unfolding generuj_dane_studenta_def bindE_Inr_iff seed_call_Inr by auto

lemma sample_cell:
  assumes "i < n" and "j < 5"
  shows "fst (multivariate_normal sample_env g mean_vector c n) ! i ! j =
           mean_vector ! j - 10 + 0.45 * real (nat ((g + int i) mod 50))"
proof -
  have "j < length mean_vector" using assms(2) by (simp add: mean_vector_def)
  with assms(1) show ?thesis by (simp add: sample_env_def)
qed

lemma sample_state [simp]: "seed_state sample_env seed = seed"
  by (simp add: sample_env_def)

lemma sample_digest_vals:
  "sample_digest [] = [1, 8, 15, 22, 29, 36, 43, 50, 57, 64, 71, 78, 85, 92, 99, 106]"
  "sample_digest [0x61] = [128, 89, 50, 11, 228, 189, 150, 111, 72, 33, 250, 211, 172, 133, 94, 55]"
  "sample_digest [0x62] = [129, 90, 51, 12, 229, 190, 151, 112, 73, 34, 251, 212, 173, 134, 95, 56]"
  "sample_digest [0x4A] = [105, 66, 27, 244, 205, 166, 127, 88, 49, 10, 227, 188, 149, 110, 71, 32]"
  "sample_digest [0x4A, 0x61, 0xC5, 0x84] =
     [119, 254, 133, 12, 147, 26, 161, 40, 175, 54, 189, 68, 203, 82, 217, 96]"
  by code_simp+

subsection \<open>The sample environment, evaluated\<close>

lemma sample_seed_vals:
  "derive_seed sample_env [] = Inr 1432118122"
  "derive_seed sample_env [0x61] = Inr 2894421559"
  "derive_seed sample_env [0x62] = Inr 2911264568"
proof -
  have e: "str_encode_utf8 [] = Inr []" "str_encode_utf8 [0x61] = Inr [0x61]"
    "str_encode_utf8 [0x62] = Inr [0x62]"
    by (simp_all add: encode_utf8_cp_def)
  have d: "sample_digest [] = [1, 8, 15, 22, 29, 36, 43, 50, 57, 64, 71, 78] @ [85, 92, 99, 106]"
    "sample_digest [0x61] = [128, 89, 50, 11, 228, 189, 150, 111, 72, 33, 250, 211] @ [172, 133, 94, 55]"
    "sample_digest [0x62] = [129, 90, 51, 12, 229, 190, 151, 112, 73, 34, 251, 212] @ [173, 134, 95, 56]"
    by (simp_all add: sample_digest_vals)
  show "derive_seed sample_env [] = Inr 1432118122"
    unfolding derive_seed_ok[OF sample_contract e(1)] md5_sample d(1) digest_int_last4 by simp
  show "derive_seed sample_env [0x61] = Inr 2894421559"
    unfolding derive_seed_ok[OF sample_contract e(2)] md5_sample d(2) digest_int_last4 by simp
  show "derive_seed sample_env [0x62] = Inr 2911264568"
    unfolding derive_seed_ok[OF sample_contract e(3)] md5_sample d(3) digest_int_last4 by simp
qed

lemma sample_draw_state:
  assumes "draw_call sample_env g n = Inr (df, g')"
  shows "g' = g + 1"
  using assms unfolding draw_call_unfold by (auto simp: bindE_Inr_iff sample_env_def)

lemma sample_draw_cell:
  assumes "draw_call sample_env g n = Inr (df, g')" and "i < n" and "j < 5"
  shows "snd (df ! j) ! i =
    np_clip 5 20 (astype_int (round_half_even (mean_vector ! j - 10 + 0.45 * real (nat ((g + int i) mod 50)))))"
  using draw_call_cells(4)[OF sample_contract assms(1)] assms(2,3) sample_cell[OF assms(2,3)]
  by simp

lemma rhe_vals:
  "round_half_even (128 / 10) = 13" "round_half_even (155 / 10) = 16"
  "round_half_even (65 / 10) = 6" "round_half_even (605 / 100) = 6"
  "round_half_even (101 / 10) = 10" "round_half_even (1055 / 100) = 11"
proof -
  have f: "\<lfloor>128 / 10 :: real\<rfloor> = 12" "\<lfloor>155 / 10 :: real\<rfloor> = 15" "\<lfloor>65 / 10 :: real\<rfloor> = 6"
    "\<lfloor>605 / 100 :: real\<rfloor> = 6" "\<lfloor>101 / 10 :: real\<rfloor> = 10" "\<lfloor>1055 / 100 :: real\<rfloor> = 10"
    by simp_all
  show "round_half_even (128 / 10) = 13" using f(1) by (simp add: round_half_even_def Let_def)
  show "round_half_even (155 / 10) = 16" using f(2) by (simp add: round_half_even_def Let_def)
  show "round_half_even (65 / 10) = 6" using f(3) by (simp add: round_half_even_def Let_def)
  show "round_half_even (605 / 100) = 6" using f(4) by (simp add: round_half_even_def Let_def)
  show "round_half_even (101 / 10) = 10" using f(5) by (simp add: round_half_even_def Let_def)
  show "round_half_even (1055 / 100) = 11" using f(6) by (simp add: round_half_even_def Let_def)
qed

subsection \<open>Two requests on one generator\<close>

lemma generuj_Inr_calls:
  "generuj_dane_studenta env g user_id n = Inr r \<longleftrightarrow>
   (\<exists>g1. seed_call env user_id = Inr g1 \<and> draw_call env g1 n = Inr r)"
  by (simp add: generuj_dane_studenta_def bindE_Inr_iff)

lemma interleaved_requests_Inr:
  "interleaved_requests env id_a id_b n = Inr (df_a, df_b) \<longleftrightarrow>
   (\<exists>g1 g2 g3 g4. seed_call env id_a = Inr g1 \<and> seed_call env id_b = Inr g2 \<and>
      draw_call env g2 n = Inr (df_a, g3) \<and> draw_call env g3 n = Inr (df_b, g4))"
  by (auto simp: interleaved_requests_def bindE_Inr_iff)

lemma interleaved_requests_ok:
  assumes "library_contract env" "list_all encodable id_a" "list_all encodable id_b"
  shows "\<exists>df_a df_b. interleaved_requests env id_a id_b n = Inr (df_a, df_b)"
proof -
  from str_encode_ok[OF assms(2)] obtain ba where "str_encode_utf8 id_a = Inr ba" by blast
  from derive_seed_ok[OF assms(1) this] have "\<exists>g1. seed_call env id_a = Inr g1"
    by (simp add: seed_call_Inr)
  moreover
  from str_encode_ok[OF assms(3)] obtain bb where "str_encode_utf8 id_b = Inr bb" by blast
  from derive_seed_ok[OF assms(1) this] obtain g2 where g2: "seed_call env id_b = Inr g2"
    by (auto simp: seed_call_Inr)
  moreover from draw_call_ok[OF assms(1), of g2 n] obtain df_a g3 where
    d1: "draw_call env g2 n = Inr (df_a, g3)" by blast
  moreover from draw_call_ok[OF assms(1), of g3 n] obtain df_b g4 where
    "draw_call env g3 n = Inr (df_b, g4)" by blast
  ultimately show ?thesis unfolding interleaved_requests_Inr by blast
qed

section \<open>Auxiliary facts: the answer key\<close>

lemma update_keys_add: "map fst (AList.update k v al) = add_key k (map fst al)"
  by (simp add: add_key_def update_keys)

lemma lookup_update: "map_of (AList.update k v al) k' = (if k' = k then Some v else map_of al k')"
  by (simp add: update_conv')

lemma fold_add_key_distinct: "distinct (ys @ xs) \<Longrightarrow> fold add_key xs ys = ys @ xs"
proof (induction xs arbitrary: ys)
  case Nil
  then show ?case by simp
next
  case (Cons x xs)
  from Cons.prems have "x \<notin> set ys" by auto
  then have "add_key x ys = ys @ [x]" by (simp add: add_key_def)
  moreover have "distinct ((ys @ [x]) @ xs)" using Cons.prems by auto
  ultimately show ?case using Cons.IH[of "ys @ [x]"] by simp
qed

lemma expected_keys_distinct: "distinct expected_keys"
  by code_simp

lemma normality_test_Inr:
  assumes "normality_test env series = Inr (d, p)"
  shows "(\<exists>pv. p = PFloat pv) \<and> (d = PInt 0 \<or> (\<exists>dv. d = PFloat dv))"
  using assms
  by (auto simp: normality_test_def Let_def bindE_Inr_iff split: if_splits sum.splits prod.splits)

lemma normality_test_lilliefors_fails:
  "HAS_STATSMODELS env \<Longrightarrow> lilliefors env series = Inl e \<Longrightarrow>
   normality_test env series = Inr (PInt 0, PFloat 1)"
  by (simp add: normality_test_def)

lemma normality_test_statsmodels_ok:
  "HAS_STATSMODELS env \<Longrightarrow> \<exists>d p. normality_test env series = Inr (d, p)"
  by (auto simp: normality_test_def split: sum.splits)

lemma normality_test_fallback:
  "\<not> HAS_STATSMODELS env \<Longrightarrow>
   normality_test env series =
     bindE (kstest_norm env (z_score_of env series)) (\<lambda>(d_stat, p_val). Inr (PFloat d_stat, PFloat p_val))"
  by (simp add: normality_test_def z_score_of_def Let_def)

lemma describe_column_eq:
  "describe_column env df klucz (col_name, prefix) =
     bindE (df_getitem df col_name) (\<lambda>series.
       bindE (normality_test env series) (\<lambda>(d_stat, p_val).
         Inr (column_entries env prefix series d_stat p_val klucz)))"
  by (simp add: describe_column_def column_entries_def Let_def)

lemma column_entries_keys:
  "map fst (column_entries env prefix series d p klucz) =
     fold add_key (map (\<lambda>suffix. prefix @ suffix) stat_suffixes) (map fst klucz)"
  by (simp add: column_entries_def stat_suffixes_def update_keys_add)

lemma describe_column_keys:
  assumes "describe_column env df klucz (col_name, prefix) = Inr klucz'"
  shows "map fst klucz' = fold add_key (map (\<lambda>suffix. prefix @ suffix) stat_suffixes) (map fst klucz)"
  using assms unfolding describe_column_eq
  by (auto simp: bindE_Inr_iff column_entries_keys)

lemma describe_all_keys:
  "describe_all env df klucz items = Inr klucz' \<Longrightarrow>
   map fst klucz' =
     fold add_key (concat (map (\<lambda>(col_name, prefix). map (\<lambda>suffix. prefix @ suffix) stat_suffixes) items))
       (map fst klucz)"
proof (induction items arbitrary: klucz)
  case Nil
  then show ?case by simp
next
  case (Cons item items)
  obtain c p where item: "item = (c, p)" by (cases item)
  from Cons.prems obtain k1 where
    k1: "describe_column env df klucz (c, p) = Inr k1" and
    rest: "describe_all env df k1 items = Inr klucz'"
    by (auto simp: bindE_Inr_iff item)
  from Cons.IH[OF rest] describe_column_keys[OF k1]
  show ?case by (simp add: item)
qed

lemma method_label_keys:
  "method_label klucz = Inr klucz' \<Longrightarrow>
   map fst klucz' = fold add_key [''rozklad_typ'', ''korelacja_typ''] (map fst klucz)"
  by (auto simp: method_label_def bindE_Inr_iff update_keys_add split: option.splits if_splits)

lemma format_pairs_keys:
  "format_pairs (NdArray rho) (NdArray pm) klucz ps = Inr klucz' \<Longrightarrow>
   map fst klucz' = fold add_key (map (\<lambda>(v1, v2, key). key) ps) (map fst klucz)"
proof (induction ps arbitrary: klucz)
  case Nil
  then show ?case by simp
next
  case (Cons a ps)
  obtain v1 v2 key where a: "a = (v1, v2, key)" by (cases a)
  from Cons.prems obtain r p where
    "format_pairs (NdArray rho) (NdArray pm) (AList.update key (PStr (format_r_z_gwiazdkami (Fin r) (Fin p))) klucz) ps = Inr klucz'"
    by (auto simp: bindE_Inr_iff a)
  from Cons.IH[OF this] show ?case by (simp add: a update_keys_add)
qed

lemma idx_vals:
  "idx ''Ekstrawersja'' = Some 0" "idx ''Neurotyzm'' = Some 1" "idx ''Otwartosc'' = Some 2"
  "idx ''Ugodowosc'' = Some 3" "idx ''Sumiennosc'' = Some 4"
  by (simp_all add: idx_def vars_list_def enumerate_eq_zip upt_rec)

lemma get_rp_vals:
  "get_rp (NdArray rho) (NdArray pm) ''Neurotyzm'' ''Ekstrawersja'' = Inr (rho 1 0, pm 1 0)"
  "get_rp (NdArray rho) (NdArray pm) ''Otwartosc'' ''Ekstrawersja'' = Inr (rho 2 0, pm 2 0)"
  "get_rp (NdArray rho) (NdArray pm) ''Otwartosc'' ''Neurotyzm'' = Inr (rho 2 1, pm 2 1)"
  "get_rp (NdArray rho) (NdArray pm) ''Ugodowosc'' ''Ekstrawersja'' = Inr (rho 3 0, pm 3 0)"
  by (simp_all add: get_rp_def np_getitem_def idx_vals)

lemma get_rp_NdArray:
  assumes "get_rp rho pm v1 v2 = Inr rp"
  shows "\<exists>r p. rho = NdArray r \<and> pm = NdArray p"
proof (cases rho)
  case (NdArray r)
  show ?thesis
  proof (cases pm)
    case (NdArray p)
    with \<open>rho = NdArray r\<close> show ?thesis by simp
  next
    case (NpScalar x)
    with assms show ?thesis
      by (auto simp: get_rp_def np_getitem_def bindE_Inr_iff split: option.splits)
  qed
next
  case (NpScalar x)
  with assms show ?thesis
    by (auto simp: get_rp_def np_getitem_def bindE_Inr_iff split: option.splits)
qed

lemma get_rp_scalar:
  "idx v1 = Some i \<Longrightarrow> idx v2 = Some j \<Longrightarrow> get_rp (NpScalar x) pm v1 v2 = Inl TypeError"
  "idx v1 = Some i \<Longrightarrow> idx v2 = Some j \<Longrightarrow> get_rp (NdArray r) (NpScalar y) v1 v2 = Inl TypeError"
  by (simp_all add: get_rp_def np_getitem_def)

lemma format_pairs_NdArray:
  assumes "format_pairs rho pm klucz (a # ps) = Inr klucz'"
  shows "\<exists>r p. rho = NdArray r \<and> pm = NdArray p"
proof -
  obtain v1 v2 key where a: "a = (v1, v2, key)" by (cases a)
  from assms obtain rp where "get_rp rho pm v1 v2 = Inr rp"
    by (auto simp: bindE_Inr_iff a)
  then show ?thesis by (rule get_rp_NdArray)
qed

lemma hypotheses_keys:
  "hypotheses (NdArray rho) (NdArray pm) klucz = Inr klucz' \<Longrightarrow>
   map fst klucz' = fold add_key hypothesis_keys (map fst klucz)"
  by (auto simp: hypotheses_def get_rp_vals Let_def update_keys_add hypothesis_keys_def)

lemma oblicz_Inr_iff:
  "oblicz_poprawne_statystyki env df = Inr klucz \<longleftrightarrow>
   (\<exists>k1 k2 columns rho pm k3.
      describe_all env df [] PREFIX_MAP = Inr k1 \<and>
      method_label k1 = Inr k2 \<and>
      df_select df vars_list = Inr columns \<and>
      spearmanr env columns = Inr (NdArray rho, NdArray pm) \<and>
      format_pairs (NdArray rho) (NdArray pm) k2 pairs = Inr k3 \<and>
      hypotheses (NdArray rho) (NdArray pm) k3 = Inr klucz)"
proof -
  have *: "oblicz_poprawne_statystyki env df = Inr klucz \<longleftrightarrow>
   (\<exists>k1 k2 columns a b k3.
      describe_all env df [] PREFIX_MAP = Inr k1 \<and>
      method_label k1 = Inr k2 \<and>
      df_select df vars_list = Inr columns \<and>
      spearmanr env columns = Inr (a, b) \<and>
      format_pairs a b k2 pairs = Inr k3 \<and>
      hypotheses a b k3 = Inr klucz)"
    by (auto simp: oblicz_poprawne_statystyki_def bindE_Inr_iff)
  have p: "pairs = hd pairs # tl pairs" by (simp add: pairs_def)
  show ?thesis
  proof
    assume "oblicz_poprawne_statystyki env df = Inr klucz"
    then obtain k1 k2 columns a b k3 where
      s: "describe_all env df [] PREFIX_MAP = Inr k1" "method_label k1 = Inr k2"
         "df_select df vars_list = Inr columns" "spearmanr env columns = Inr (a, b)"
         "format_pairs a b k2 pairs = Inr k3" "hypotheses a b k3 = Inr klucz"
      unfolding * by blast
    from s(5) have "format_pairs a b k2 (hd pairs # tl pairs) = Inr k3" using p by simp
    from format_pairs_NdArray[OF this] obtain rho pm where "a = NdArray rho" "b = NdArray pm"
      by blast
    with s show "\<exists>k1 k2 columns rho pm k3.
      describe_all env df [] PREFIX_MAP = Inr k1 \<and>
      method_label k1 = Inr k2 \<and>
      df_select df vars_list = Inr columns \<and>
      spearmanr env columns = Inr (NdArray rho, NdArray pm) \<and>
      format_pairs (NdArray rho) (NdArray pm) k2 pairs = Inr k3 \<and>
      hypotheses (NdArray rho) (NdArray pm) k3 = Inr klucz" by blast
  next
    assume "\<exists>k1 k2 columns rho pm k3.
      describe_all env df [] PREFIX_MAP = Inr k1 \<and>
      method_label k1 = Inr k2 \<and>
      df_select df vars_list = Inr columns \<and>
      spearmanr env columns = Inr (NdArray rho, NdArray pm) \<and>
      format_pairs (NdArray rho) (NdArray pm) k2 pairs = Inr k3 \<and>
      hypotheses (NdArray rho) (NdArray pm) k3 = Inr klucz"
    then show "oblicz_poprawne_statystyki env df = Inr klucz" unfolding * by blast
  qed
qed

lemma oblicz_keys:
  assumes "oblicz_poprawne_statystyki env df = Inr klucz"
  shows "map fst klucz = expected_keys"
proof -
  from assms obtain k1 k2 rho pm k3 where
    a: "describe_all env df [] PREFIX_MAP = Inr k1" and
    b: "method_label k1 = Inr k2" and
    c: "format_pairs (NdArray rho) (NdArray pm) k2 pairs = Inr k3" and
    d: "hypotheses (NdArray rho) (NdArray pm) k3 = Inr klucz"
    unfolding oblicz_Inr_iff by blast
  have "map fst klucz = fold add_key expected_keys []"
    unfolding expected_keys_def fold_append o_apply
    using describe_all_keys[OF a] method_label_keys[OF b] format_pairs_keys[OF c] hypotheses_keys[OF d]
    by simp
  also have "\<dots> = expected_keys"
    using fold_add_key_distinct[of "[]" expected_keys] expected_keys_distinct by simp
  finally show ?thesis .
qed

lemma df_getitem_Inr [simp]: "df_getitem df c = Inr s \<longleftrightarrow> map_of df c = Some s"
  by (simp add: df_getitem_def split: option.splits)

lemma column_entries_lookup:
  "map_of (column_entries env prefix series d p k) key =
     (if key = prefix @ ''_p'' then Some p
      else if key = prefix @ ''_d'' then Some d
      else if key = prefix @ ''_max'' then Some (PInt (series_max env series))
      else if key = prefix @ ''_min'' then Some (PInt (series_min env series))
      else if key = prefix @ ''_kurt'' then Some (PFloat (series_kurt env series))
      else if key = prefix @ ''_sk'' then Some (PFloat (series_skew env series))
      else if key = prefix @ ''_sd'' then Some (PFloat (series_std env series))
      else if key = prefix @ ''_mdn'' then Some (PFloat (series_median env series))
      else if key = prefix @ ''_m'' then Some (PFloat (series_mean env series))
      else map_of k key)"
  by (simp add: column_entries_def lookup_update)

lemma describe_column_Inr_iff:
  "describe_column env df klucz (col_name, prefix) = Inr klucz' \<longleftrightarrow>
   (\<exists>series d p. map_of df col_name = Some series \<and> normality_test env series = Inr (d, p) \<and>
      klucz' = column_entries env prefix series d p klucz)"
  unfolding describe_column_eq by (auto simp: bindE_Inr_iff)

lemma describe_all_PREFIX_MAP:
  "describe_all env df klucz PREFIX_MAP = Inr k1 \<longleftrightarrow>
   (\<exists>s0 d0 p0 s1 d1 p1 s2 d2 p2 s3 d3 p3 s4 d4 p4.
      map_of df ''Ekstrawersja'' = Some s0 \<and> normality_test env s0 = Inr (d0, p0) \<and>
      map_of df ''Neurotyzm'' = Some s1 \<and> normality_test env s1 = Inr (d1, p1) \<and>
      map_of df ''Otwartosc'' = Some s2 \<and> normality_test env s2 = Inr (d2, p2) \<and>
      map_of df ''Ugodowosc'' = Some s3 \<and> normality_test env s3 = Inr (d3, p3) \<and>
      map_of df ''Sumiennosc'' = Some s4 \<and> normality_test env s4 = Inr (d4, p4) \<and>
      k1 = column_entries env ''sumien'' s4 d4 p4
            (column_entries env ''ugoda'' s3 d3 p3
              (column_entries env ''otwar'' s2 d2 p2
                (column_entries env ''neuro'' s1 d1 p1
                  (column_entries env ''ekstra'' s0 d0 p0 klucz)))))"
  unfolding PREFIX_MAP_def describe_all.simps bindE_Inr_iff describe_column_Inr_iff
  by (simp only: ex_simps[symmetric] conj_assoc) blast

lemma method_label_Inr:
  assumes "method_label klucz = Inr klucz'"
  shows "(\<forall>key. key \<noteq> ''rozklad_typ'' \<and> key \<noteq> ''korelacja_typ'' \<longrightarrow> map_of klucz' key = map_of klucz key)"
    and "(map_of klucz' ''korelacja_typ'' = Some (PStr ''rho-Spearmana'') \<and>
          map_of klucz' ''rozklad_typ'' = Some (PStr lbl_niespelnienie)) \<or>
         (map_of klucz' ''korelacja_typ'' = Some (PStr ''r-Pearsona'') \<and>
          map_of klucz' ''rozklad_typ'' = Some (PStr lbl_spelnienie))"
  using assms
  by (auto simp: method_label_def bindE_Inr_iff lookup_update split: option.splits if_splits)

lemma method_label_ok:
  "map_of klucz ''neuro_p'' = Some (PFloat pv) \<Longrightarrow> \<exists>klucz'. method_label klucz = Inr klucz'"
  by (simp add: method_label_def py_lt_def)

lemma method_label_float:
  "map_of klucz ''neuro_p'' = Some (PFloat pv) \<Longrightarrow>
   method_label klucz =
     Inr (if pv < 0.05 then
            AList.update ''korelacja_typ'' (PStr ''rho-Spearmana'')
              (AList.update ''rozklad_typ'' (PStr lbl_niespelnienie) klucz)
          else
            AList.update ''korelacja_typ'' (PStr ''r-Pearsona'')
              (AList.update ''rozklad_typ'' (PStr lbl_spelnienie) klucz))"
  by (simp add: method_label_def py_lt_def)

lemma get_rp_idx:
  "get_rp (NdArray rho) (NdArray pm) v1 v2 = Inr (r, p) \<longleftrightarrow>
   (\<exists>i j. idx v1 = Some i \<and> idx v2 = Some j \<and> r = rho i j \<and> p = pm i j)"
  by (auto simp: get_rp_def np_getitem_def split: option.splits)

lemma format_pairs_lookup:
  "format_pairs (NdArray rho) (NdArray pm) klucz ps = Inr klucz' \<Longrightarrow> distinct (map (\<lambda>(v1, v2, key). key) ps) \<Longrightarrow>
   (\<forall>(v1, v2, key) \<in> set ps. \<exists>i j. idx v1 = Some i \<and> idx v2 = Some j \<and>
       map_of klucz' key = Some (PStr (format_r_z_gwiazdkami (Fin (rho i j)) (Fin (pm i j))))) \<and>
   (\<forall>key. key \<notin> set (map (\<lambda>(v1, v2, key). key) ps) \<longrightarrow> map_of klucz' key = map_of klucz key)"
proof (induction ps arbitrary: klucz)
  case Nil
  then show ?case by simp
next
  case (Cons a ps)
  obtain v1 v2 key where a: "a = (v1, v2, key)" by (cases a)
  from Cons.prems(1) obtain r p where
    rp: "get_rp (NdArray rho) (NdArray pm) v1 v2 = Inr (r, p)" and
    rest: "format_pairs (NdArray rho) (NdArray pm) (AList.update key (PStr (format_r_z_gwiazdkami (Fin r) (Fin p))) klucz) ps = Inr klucz'"
    by (auto simp: bindE_Inr_iff a)
  from rp obtain i j where ij: "idx v1 = Some i" "idx v2 = Some j" "r = rho i j" "p = pm i j"
    unfolding get_rp_idx by blast
  from Cons.prems(2) have d: "distinct (map (\<lambda>(v1, v2, key). key) ps)"
    and nk: "key \<notin> set (map (\<lambda>(v1, v2, key). key) ps)" by (simp_all add: a)
  note IH = Cons.IH[OF rest d]
  from IH nk have "map_of klucz' key = Some (PStr (format_r_z_gwiazdkami (Fin r) (Fin p)))"
    by (simp add: lookup_update)
  with IH ij show ?case
    by (auto simp: a lookup_update)
qed

lemma format_pairs_keep:
  assumes "format_pairs (NdArray rho) (NdArray pm) klucz ps = Inr klucz'"
    and "distinct (map (\<lambda>(v1, v2, key). key) ps)"
    and "key \<notin> set (map (\<lambda>(v1, v2, key). key) ps)"
  shows "map_of klucz' key = map_of klucz key"
  using conjunct2[OF format_pairs_lookup[OF assms(1,2)]] assms(3) by blast

lemma format_pairs_values:
  assumes "format_pairs (NdArray rho) (NdArray pm) klucz ps = Inr klucz'"
    and "distinct (map (\<lambda>(v1, v2, key). key) ps)"
    and "(v1, v2, key) \<in> set ps"
  shows "\<exists>i j. idx v1 = Some i \<and> idx v2 = Some j \<and>
       map_of klucz' key = Some (PStr (format_r_z_gwiazdkami (Fin (rho i j)) (Fin (pm i j))))"
  using conjunct1[OF format_pairs_lookup[OF assms(1,2)]] assms(3) by fast

lemma method_label_keep:
  assumes "method_label klucz = Inr klucz'" "key \<noteq> ''rozklad_typ''" "key \<noteq> ''korelacja_typ''"
  shows "map_of klucz' key = map_of klucz key"
  using method_label_Inr(1)[OF assms(1)] assms(2,3) by blast

lemma format_pairs_ok:
  "list_all (\<lambda>(v1, v2, key). idx v1 \<noteq> None \<and> idx v2 \<noteq> None) ps \<Longrightarrow>
   \<exists>klucz'. format_pairs (NdArray rho) (NdArray pm) klucz ps = Inr klucz'"
proof (induction ps arbitrary: klucz)
  case Nil
  then show ?case by simp
next
  case (Cons a ps)
  obtain v1 v2 key where a: "a = (v1, v2, key)" by (cases a)
  from Cons.prems obtain i j where "idx v1 = Some i" "idx v2 = Some j" by (auto simp: a)
  then have "get_rp (NdArray rho) (NdArray pm) v1 v2 = Inr (rho i j, pm i j)"
    by (simp add: get_rp_def np_getitem_def)
  moreover from Cons.prems have "list_all (\<lambda>(v1, v2, key). idx v1 \<noteq> None \<and> idx v2 \<noteq> None) ps" by simp
  ultimately show ?case using Cons.IH by (simp add: a)
qed

lemma pairs_idx_ok: "list_all (\<lambda>(v1, v2, key). idx v1 \<noteq> None \<and> idx v2 \<noteq> None) pairs"
  by (simp add: pairs_def idx_vals)

lemma pairs_distinct: "distinct (map (\<lambda>(v1, v2, key). key) pairs)"
  by (simp add: pairs_def)


lemma h4_gate:
  "(if \<bar>r4\<bar> < 0.1 \<or> p4 \<ge> 0.05 then AList.update k (PStr lbl_nie_potwierdza) m
    else AList.update k (PStr (if r4 > 0 then lbl_potwierdza else lbl_nie_potwierdza)) m) =
   AList.update k (PStr (if p4 < 0.05 \<and> r4 > 0 \<and> \<bar>r4\<bar> \<ge> (0.1 :: real)
                         then lbl_potwierdza else lbl_nie_potwierdza)) m"
  for r4 p4 :: real
  by (cases "\<bar>r4\<bar> < 0.1 \<or> p4 \<ge> 0.05") auto

lemma hypotheses_eq: "hypotheses (NdArray rho) (NdArray pm) klucz = Inr (hypothesis_entries rho pm klucz)"
  unfolding hypotheses_def get_rp_vals bindE_simps prod.case Let_def h4_gate hypothesis_entries_def
  by (rule refl)

lemma hypothesis_entries_lookup:
  "map_of (hypothesis_entries rho pm klucz) key =
     (if key = ''h4_decyzja'' then
        Some (PStr (if pm 3 0 < 0.05 \<and> rho 3 0 > 0 \<and> \<bar>rho 3 0\<bar> \<ge> 0.1
                    then lbl_potwierdza else lbl_nie_potwierdza))
      else if key = ''h4_kierunek'' then Some (PStr (ocen_kierunek (rho 3 0)))
      else if key = ''h4_sila'' then Some (PStr (ocen_sile (rho 3 0)))
      else if key = ''h3_decyzja'' then
        Some (PStr (if pm 2 1 < 0.05 \<and> rho 2 1 < 0 then lbl_potwierdza else lbl_nie_potwierdza))
      else if key = ''h3_kierunek'' then Some (PStr (ocen_kierunek (rho 2 1)))
      else if key = ''h3_sila'' then Some (PStr (ocen_sile (rho 2 1)))
      else if key = ''h2_decyzja'' then
        Some (PStr (if pm 2 0 < 0.05 \<and> rho 2 0 > 0 then lbl_potwierdza else lbl_nie_potwierdza))
      else if key = ''h2_kierunek'' then Some (PStr (ocen_kierunek (rho 2 0)))
      else if key = ''h2_sila'' then Some (PStr (ocen_sile (rho 2 0)))
      else if key = ''h1_decyzja'' then
        Some (PStr (if pm 1 0 < 0.05 \<and> rho 1 0 < 0 then lbl_potwierdza else lbl_nie_potwierdza))
      else if key = ''h1_kierunek'' then Some (PStr (ocen_kierunek (rho 1 0)))
      else if key = ''h1_sila'' then Some (PStr (ocen_sile (rho 1 0)))
      else map_of klucz key)"
  unfolding hypothesis_entries_def lookup_update by (rule refl)

lemma hypotheses_keep:
  assumes "hypotheses (NdArray rho) (NdArray pm) klucz = Inr klucz'" and "key \<notin> set hypothesis_keys"
  shows "map_of klucz' key = map_of klucz key"
proof -
  from assms(1) have k: "klucz' = hypothesis_entries rho pm klucz" by (simp add: hypotheses_eq)
  from assms(2) show ?thesis
    unfolding k hypothesis_entries_lookup by (simp add: hypothesis_keys_def)
qed

lemma df_select_vars:
  "df_select df vars_list = Inr columns \<longleftrightarrow>
   (\<exists>s0 s1 s2 s3 s4. map_of df ''Ekstrawersja'' = Some s0 \<and> map_of df ''Neurotyzm'' = Some s1 \<and>
      map_of df ''Otwartosc'' = Some s2 \<and> map_of df ''Ugodowosc'' = Some s3 \<and>
      map_of df ''Sumiennosc'' = Some s4 \<and> columns = [s0, s1, s2, s3, s4])"
  unfolding vars_list_def df_select.simps bindE_Inr_iff df_getitem_Inr
  by auto

lemma stat_keys_apart:
  assumes "prefix \<in> {''ekstra'', ''neuro'', ''otwar'', ''ugoda'', ''sumien''}"
    and "suffix \<in> {''_d'', ''_p''}"
  shows "prefix @ suffix \<notin> set hypothesis_keys"
    "prefix @ suffix \<notin> set (map (\<lambda>(v1, v2, key). key) pairs)"
    "prefix @ suffix \<noteq> ''rozklad_typ''" "prefix @ suffix \<noteq> ''korelacja_typ''"
  using assms by (auto simp: hypothesis_keys_def pairs_def)

lemma PREFIX_MAP_cases:
  "(c, prefix) \<in> set PREFIX_MAP \<Longrightarrow>
   c = ''Ekstrawersja'' \<and> prefix = ''ekstra'' \<or> c = ''Neurotyzm'' \<and> prefix = ''neuro'' \<or>
   c = ''Otwartosc'' \<and> prefix = ''otwar'' \<or> c = ''Ugodowosc'' \<and> prefix = ''ugoda'' \<or>
   c = ''Sumiennosc'' \<and> prefix = ''sumien''"
  by (auto simp: PREFIX_MAP_def)

lemma oblicz_normality_entries:
  assumes "oblicz_poprawne_statystyki env df = Inr klucz" and "(c, prefix) \<in> set PREFIX_MAP"
  shows "\<exists>s d p. map_of df c = Some s \<and> normality_test env s = Inr (d, p) \<and>
           map_of klucz (prefix @ ''_d'') = Some d \<and> map_of klucz (prefix @ ''_p'') = Some p"
proof -
  from assms(1) obtain k1 k2 rho pm k3 where
    a: "describe_all env df [] PREFIX_MAP = Inr k1" and
    b: "method_label k1 = Inr k2" and
    c: "format_pairs (NdArray rho) (NdArray pm) k2 pairs = Inr k3" and
    d: "hypotheses (NdArray rho) (NdArray pm) k3 = Inr klucz"
    unfolding oblicz_Inr_iff by blast
  have keep: "map_of klucz key = map_of k1 key"
    if "key \<notin> set hypothesis_keys" "key \<notin> set (map (\<lambda>(v1, v2, key). key) pairs)"
       "key \<noteq> ''rozklad_typ''" "key \<noteq> ''korelacja_typ''" for key
  proof -
    have "map_of klucz key = map_of k3 key" by (rule hypotheses_keep[OF d that(1)])
    also have "\<dots> = map_of k2 key" by (rule format_pairs_keep[OF c pairs_distinct that(2)])
    also have "\<dots> = map_of k1 key" by (rule method_label_keep[OF b that(3,4)])
    finally show ?thesis .
  qed
  from a obtain s0 d0 p0 s1 d1 p1 s2 d2 p2 s3 d3 p3 s4 d4 p4 where
    n: "map_of df ''Ekstrawersja'' = Some s0" "normality_test env s0 = Inr (d0, p0)"
       "map_of df ''Neurotyzm'' = Some s1" "normality_test env s1 = Inr (d1, p1)"
       "map_of df ''Otwartosc'' = Some s2" "normality_test env s2 = Inr (d2, p2)"
       "map_of df ''Ugodowosc'' = Some s3" "normality_test env s3 = Inr (d3, p3)"
       "map_of df ''Sumiennosc'' = Some s4" "normality_test env s4 = Inr (d4, p4)" and
    k1: "k1 = column_entries env ''sumien'' s4 d4 p4
            (column_entries env ''ugoda'' s3 d3 p3
              (column_entries env ''otwar'' s2 d2 p2
                (column_entries env ''neuro'' s1 d1 p1
                  (column_entries env ''ekstra'' s0 d0 p0 []))))"
    unfolding describe_all_PREFIX_MAP by blast
  from PREFIX_MAP_cases[OF assms(2)] show ?thesis
  proof (elim disjE conjE)
    assume e: "c = ''Ekstrawersja''" "prefix = ''ekstra''"
    have "map_of klucz (''ekstra'' @ ''_d'') = map_of k1 (''ekstra'' @ ''_d'')"
      "map_of klucz (''ekstra'' @ ''_p'') = map_of k1 (''ekstra'' @ ''_p'')"
      by (rule keep; rule stat_keys_apart; simp)+
    then have "map_of klucz (prefix @ ''_d'') = Some d0" "map_of klucz (prefix @ ''_p'') = Some p0"
      unfolding e by (simp_all add: k1 column_entries_lookup)
    with n(1,2) show ?thesis unfolding e(1) by blast
  next
    assume e: "c = ''Neurotyzm''" "prefix = ''neuro''"
    have "map_of klucz (''neuro'' @ ''_d'') = map_of k1 (''neuro'' @ ''_d'')"
      "map_of klucz (''neuro'' @ ''_p'') = map_of k1 (''neuro'' @ ''_p'')"
      by (rule keep; rule stat_keys_apart; simp)+
    then have "map_of klucz (prefix @ ''_d'') = Some d1" "map_of klucz (prefix @ ''_p'') = Some p1"
      unfolding e by (simp_all add: k1 column_entries_lookup)
    with n(3,4) show ?thesis unfolding e(1) by blast
  next
    assume e: "c = ''Otwartosc''" "prefix = ''otwar''"
    have "map_of klucz (''otwar'' @ ''_d'') = map_of k1 (''otwar'' @ ''_d'')"
      "map_of klucz (''otwar'' @ ''_p'') = map_of k1 (''otwar'' @ ''_p'')"
      by (rule keep; rule stat_keys_apart; simp)+
    then have "map_of klucz (prefix @ ''_d'') = Some d2" "map_of klucz (prefix @ ''_p'') = Some p2"
      unfolding e by (simp_all add: k1 column_entries_lookup)
    with n(5,6) show ?thesis unfolding e(1) by blast
  next
    assume e: "c = ''Ugodowosc''" "prefix = ''ugoda''"
    have "map_of klucz (''ugoda'' @ ''_d'') = map_of k1 (''ugoda'' @ ''_d'')"
      "map_of klucz (''ugoda'' @ ''_p'') = map_of k1 (''ugoda'' @ ''_p'')"
      by (rule keep; rule stat_keys_apart; simp)+
    then have "map_of klucz (prefix @ ''_d'') = Some d3" "map_of klucz (prefix @ ''_p'') = Some p3"
      unfolding e by (simp_all add: k1 column_entries_lookup)
    with n(7,8) show ?thesis unfolding e(1) by blast
  next
    assume e: "c = ''Sumiennosc''" "prefix = ''sumien''"
    have "map_of klucz (''sumien'' @ ''_d'') = map_of k1 (''sumien'' @ ''_d'')"
      "map_of klucz (''sumien'' @ ''_p'') = map_of k1 (''sumien'' @ ''_p'')"
      by (rule keep; rule stat_keys_apart; simp)+
    then have "map_of klucz (prefix @ ''_d'') = Some d4" "map_of klucz (prefix @ ''_p'') = Some p4"
      unfolding e by (simp_all add: k1 column_entries_lookup)
    with n(9,10) show ?thesis unfolding e(1) by blast
  qed
qed

lemma oblicz_ok:
  assumes cols: "list_all (\<lambda>c. \<exists>s d p. map_of df c = Some s \<and> normality_test env s = Inr (d, p)) vars_list"
    and sp: "\<And>columns. df_select df vars_list = Inr columns \<Longrightarrow> \<exists>rho pm. spearmanr env columns = Inr (NdArray rho, NdArray pm)"
  shows "\<exists>klucz. oblicz_poprawne_statystyki env df = Inr klucz"
proof -
  from cols obtain s0 d0 p0 s1 d1 p1 s2 d2 p2 s3 d3 p3 s4 d4 p4 where
    n: "map_of df ''Ekstrawersja'' = Some s0" "normality_test env s0 = Inr (d0, p0)"
       "map_of df ''Neurotyzm'' = Some s1" "normality_test env s1 = Inr (d1, p1)"
       "map_of df ''Otwartosc'' = Some s2" "normality_test env s2 = Inr (d2, p2)"
       "map_of df ''Ugodowosc'' = Some s3" "normality_test env s3 = Inr (d3, p3)"
       "map_of df ''Sumiennosc'' = Some s4" "normality_test env s4 = Inr (d4, p4)"
    unfolding vars_list_def by auto
  define k1 where "k1 = column_entries env ''sumien'' s4 d4 p4
            (column_entries env ''ugoda'' s3 d3 p3
              (column_entries env ''otwar'' s2 d2 p2
                (column_entries env ''neuro'' s1 d1 p1
                  (column_entries env ''ekstra'' s0 d0 p0 []))))"
  have a: "describe_all env df [] PREFIX_MAP = Inr k1"
    unfolding describe_all_PREFIX_MAP k1_def using n by blast
  from normality_test_Inr[OF n(4)] obtain pv where pv: "p1 = PFloat pv" by blast
  have "map_of k1 ''neuro_p'' = Some (PFloat pv)"
    by (simp add: k1_def column_entries_lookup pv)
  from method_label_ok[OF this] obtain k2 where b: "method_label k1 = Inr k2" by blast
  have sel: "df_select df vars_list = Inr [s0, s1, s2, s3, s4]"
    unfolding df_select_vars using n by simp
  from sp[OF sel] obtain rho pm where s: "spearmanr env [s0, s1, s2, s3, s4] = Inr (NdArray rho, NdArray pm)" by blast
  from format_pairs_ok[OF pairs_idx_ok] obtain k3 where c: "format_pairs (NdArray rho) (NdArray pm) k2 pairs = Inr k3"
    by blast
  have d: "hypotheses (NdArray rho) (NdArray pm) k3 = Inr (hypothesis_entries rho pm k3)" by (rule hypotheses_eq)
  show ?thesis unfolding oblicz_Inr_iff using a b sel s c d by blast
qed

lemma oblicz_spearman_entries:
  assumes "oblicz_poprawne_statystyki env df = Inr klucz"
  shows "\<exists>columns rho pm k3.
           df_select df vars_list = Inr columns \<and> spearmanr env columns = Inr (NdArray rho, NdArray pm) \<and>
           hypotheses (NdArray rho) (NdArray pm) k3 = Inr klucz \<and>
           (\<forall>(v1, v2, key) \<in> set pairs. \<exists>i j. idx v1 = Some i \<and> idx v2 = Some j \<and>
              map_of klucz key = Some (PStr (format_r_z_gwiazdkami (Fin (rho i j)) (Fin (pm i j))))) \<and>
           ((map_of klucz ''korelacja_typ'' = Some (PStr ''rho-Spearmana'') \<and>
             map_of klucz ''rozklad_typ'' = Some (PStr lbl_niespelnienie)) \<or>
            (map_of klucz ''korelacja_typ'' = Some (PStr ''r-Pearsona'') \<and>
             map_of klucz ''rozklad_typ'' = Some (PStr lbl_spelnienie)))"
proof -
  from assms obtain k1 k2 columns rho pm k3 where
    b: "method_label k1 = Inr k2" and
    sel: "df_select df vars_list = Inr columns" and
    s: "spearmanr env columns = Inr (NdArray rho, NdArray pm)" and
    c: "format_pairs (NdArray rho) (NdArray pm) k2 pairs = Inr k3" and
    d: "hypotheses (NdArray rho) (NdArray pm) k3 = Inr klucz"
    unfolding oblicz_Inr_iff by blast
  have H: "\<forall>key. key \<notin> set hypothesis_keys \<longrightarrow> map_of klucz key = map_of k3 key"
    using hypotheses_keep[OF d] by blast
  have pk: "key \<notin> set hypothesis_keys" if "(v1, v2, key) \<in> set pairs" for v1 v2 key
    using that by (auto simp: pairs_def hypothesis_keys_def)
  have p: "\<forall>(v1, v2, key) \<in> set pairs. \<exists>i j. idx v1 = Some i \<and> idx v2 = Some j \<and>
              map_of klucz key = Some (PStr (format_r_z_gwiazdkami (Fin (rho i j)) (Fin (pm i j))))"
  proof (clarify)
    fix v1 v2 key assume m: "(v1, v2, key) \<in> set pairs"
    from format_pairs_values[OF c pairs_distinct m] obtain i j where "idx v1 = Some i" "idx v2 = Some j"
      "map_of k3 key = Some (PStr (format_r_z_gwiazdkami (Fin (rho i j)) (Fin (pm i j))))" by blast
    moreover from H pk[OF m] have "map_of klucz key = map_of k3 key" by simp
    ultimately show "\<exists>i j. idx v1 = Some i \<and> idx v2 = Some j \<and>
              map_of klucz key = Some (PStr (format_r_z_gwiazdkami (Fin (rho i j)) (Fin (pm i j))))" by auto
  qed
  have l: "map_of klucz key = map_of k2 key" if "key = ''korelacja_typ'' \<or> key = ''rozklad_typ''" for key
  proof -
    from that have "key \<notin> set hypothesis_keys" "key \<notin> set (map (\<lambda>(v1, v2, key). key) pairs)"
      by (auto simp: hypothesis_keys_def pairs_def)
    with H format_pairs_keep[OF c pairs_distinct, of key] show ?thesis by simp
  qed
  from method_label_Inr(2)[OF b] l
  have "(map_of klucz ''korelacja_typ'' = Some (PStr ''rho-Spearmana'') \<and>
             map_of klucz ''rozklad_typ'' = Some (PStr lbl_niespelnienie)) \<or>
            (map_of klucz ''korelacja_typ'' = Some (PStr ''r-Pearsona'') \<and>
             map_of klucz ''rozklad_typ'' = Some (PStr lbl_spelnienie))"
    by simp
  with sel s d p show ?thesis by blast
qed

section \<open>Auxiliary facts: stages of the analysis and the sample inputs\<close>

lemma stage_keep:
  assumes "method_label k1 = Inr k2" and "format_pairs (NdArray rho) (NdArray pm) k2 pairs = Inr k3"
    and "hypotheses (NdArray rho) (NdArray pm) k3 = Inr klucz"
    and "key \<notin> set hypothesis_keys" and "key \<notin> set (map (\<lambda>(v1, v2, key). key) pairs)"
    and "key \<noteq> ''rozklad_typ''" and "key \<noteq> ''korelacja_typ''"
  shows "map_of klucz key = map_of k1 key"
proof -
  have "map_of klucz key = map_of k3 key" by (rule hypotheses_keep[OF assms(3,4)])
  also have "\<dots> = map_of k2 key" by (rule format_pairs_keep[OF assms(2) pairs_distinct assms(5)])
  also have "\<dots> = map_of k1 key" by (rule method_label_keep[OF assms(1,6,7)])
  finally show ?thesis .
qed

lemma neuro_p_apart:
  "''neuro_p'' \<notin> set hypothesis_keys" "''neuro_p'' \<notin> set (map (\<lambda>(v1, v2, key). key) pairs)"
  "''neuro_p'' \<noteq> ''rozklad_typ''" "''neuro_p'' \<noteq> ''korelacja_typ''"
  by (simp_all add: hypothesis_keys_def pairs_def)

lemma label_apart:
  "''korelacja_typ'' \<notin> set hypothesis_keys"
  "''korelacja_typ'' \<notin> set (map (\<lambda>(v1, v2, key). key) pairs)"
  by (simp_all add: hypothesis_keys_def pairs_def)

lemma oblicz_label:
  assumes "oblicz_poprawne_statystyki env df = Inr klucz"
  shows "\<exists>pv. map_of klucz ''neuro_p'' = Some (PFloat pv) \<and>
           map_of klucz ''korelacja_typ'' =
             Some (PStr (if pv < 0.05 then ''rho-Spearmana'' else ''r-Pearsona''))"
proof -
  from assms obtain k1 k2 rho pm k3 where
    a: "describe_all env df [] PREFIX_MAP = Inr k1" and
    b: "method_label k1 = Inr k2" and
    c: "format_pairs (NdArray rho) (NdArray pm) k2 pairs = Inr k3" and
    d: "hypotheses (NdArray rho) (NdArray pm) k3 = Inr klucz"
    unfolding oblicz_Inr_iff by blast
  from a obtain s0 d0 p0 s1 d1 p1 s2 d2 p2 s3 d3 p3 s4 d4 p4 where
    n: "normality_test env s1 = Inr (d1, p1)" and
    k1: "k1 = column_entries env ''sumien'' s4 d4 p4
            (column_entries env ''ugoda'' s3 d3 p3
              (column_entries env ''otwar'' s2 d2 p2
                (column_entries env ''neuro'' s1 d1 p1
                  (column_entries env ''ekstra'' s0 d0 p0 []))))"
    unfolding describe_all_PREFIX_MAP by blast
  from normality_test_Inr[OF n] obtain pv where pv: "p1 = PFloat pv" by blast
  have l1: "map_of k1 ''neuro_p'' = Some (PFloat pv)"
    by (simp add: k1 column_entries_lookup pv)
  have "map_of klucz ''neuro_p'' = map_of k1 ''neuro_p''"
    by (rule stage_keep[OF b c d neuro_p_apart])
  with l1 have x: "map_of klucz ''neuro_p'' = Some (PFloat pv)" by simp
  from b have k2: "k2 = (if pv < 0.05 then
            AList.update ''korelacja_typ'' (PStr ''rho-Spearmana'')
              (AList.update ''rozklad_typ'' (PStr lbl_niespelnienie) k1)
          else
            AList.update ''korelacja_typ'' (PStr ''r-Pearsona'')
              (AList.update ''rozklad_typ'' (PStr lbl_spelnienie) k1))"
    unfolding method_label_float[OF l1] by simp
  have "map_of klucz ''korelacja_typ'' = map_of k3 ''korelacja_typ''"
    by (rule hypotheses_keep[OF d label_apart(1)])
  also have "\<dots> = map_of k2 ''korelacja_typ''"
    by (rule format_pairs_keep[OF c pairs_distinct label_apart(2)])
  also have "\<dots> = Some (PStr (if pv < 0.05 then ''rho-Spearmana'' else ''r-Pearsona''))"
    unfolding k2 by (simp add: lookup_update)
  finally show ?thesis using x by blast
qed

lemma oblicz_hypothesis_entries:
  assumes "oblicz_poprawne_statystyki env df = Inr klucz"
  shows "\<exists>columns rho pm k3.
           df_select df vars_list = Inr columns \<and> spearmanr env columns = Inr (NdArray rho, NdArray pm) \<and>
           klucz = hypothesis_entries rho pm k3"
proof -
  from assms obtain columns rho pm k3 where
    sel: "df_select df vars_list = Inr columns" and
    s: "spearmanr env columns = Inr (NdArray rho, NdArray pm)" and
    d: "hypotheses (NdArray rho) (NdArray pm) k3 = Inr klucz"
    unfolding oblicz_Inr_iff by blast
  from d have "klucz = hypothesis_entries rho pm k3" by (simp add: hypotheses_eq)
  with sel s show ?thesis by blast
qed

lemma spearmanr_sample [simp]:
  "spearmanr sample_env columns = Inr (NdArray sample_rho, NdArray sample_p)"
  "spearmanr failing_env columns = Inr (NdArray sample_rho, NdArray sample_p)"
  by (simp_all add: sample_env_def failing_env_def)

lemma normality_sample [simp]:
  "normality_test sample_env series = Inr (PFloat 0.09, PFloat 0.04)"
  "normality_test failing_env series = Inr (PInt 0, PFloat 1)"
  by (simp_all add: normality_test_def sample_env_def failing_env_def)

lemma sample_df_columns:
  "map_of sample_df ''Ekstrawersja'' = Some (replicate 50 10 @ replicate 50 14)"
  "map_of sample_df ''Neurotyzm'' = Some (replicate 50 15 @ replicate 50 9)"
  "map_of sample_df ''Otwartosc'' = Some (replicate 40 11 @ replicate 60 13)"
  "map_of sample_df ''Ugodowosc'' = Some (replicate 25 5 @ replicate 75 20)"
  "map_of sample_df ''Sumiennosc'' = Some (replicate 30 12 @ replicate 70 16)"
  by (simp_all add: sample_df_def)

lemma sample_columns_ok:
  "list_all (\<lambda>c. \<exists>s d p. map_of sample_df c = Some s \<and> normality_test sample_env s = Inr (d, p)) vars_list"
  "list_all (\<lambda>c. \<exists>s d p. map_of sample_df c = Some s \<and> normality_test failing_env s = Inr (d, p)) vars_list"
  by (simp_all add: vars_list_def sample_df_columns)

lemma oblicz_sample_ok:
  "\<exists>klucz. oblicz_poprawne_statystyki sample_env sample_df = Inr klucz"
  "\<exists>klucz. oblicz_poprawne_statystyki failing_env sample_df = Inr klucz"
  by (rule oblicz_ok[OF sample_columns_ok(1)], simp, rule oblicz_ok[OF sample_columns_ok(2)], simp)

lemma sample_matrix_vals:
  "sample_rho 1 0 = - 0.55" "sample_p 1 0 = 0.0001"
  "sample_rho 2 0 = 0.5" "sample_p 2 0 = 0.0000001"
  "sample_rho 2 1 = - 0.4" "sample_p 2 1 = 0.00004"
  "sample_rho 3 0 = 0.3" "sample_p 3 0 = 0.002"
  "sample_rho (Suc 0) 0 = - 0.55" "sample_p (Suc 0) 0 = 0.0001"
  by (simp_all add: sample_rho_def sample_p_def)

lemma format_sample: "format_r_z_gwiazdkami (Fin (- 0.55)) (Fin 0.0001) = ''-0,55***''"
proof -
  have q: "round_half_even 55 = 55" by (simp add: round_half_even_def Let_def)
  have s: "str_nat 0 = ''0''" by (subst str_nat.simps) (simp add: digit_char_vals)
  show ?thesis
    by (simp add: format_r_z_gwiazdkami_def format_2f_def body_2f_def Let_def q s digit_char_vals
        str_replace_def flt_def)
qed

section \<open>Auxiliary facts: failures\<close>

lemma generuj_Inr_shape:
  assumes "library_contract env"
    and "generuj_dane_studenta env g user_id n = Inr (df, g')"
  shows "map fst df = column_names"
    and "\<forall>(name, series) \<in> set df. length series = n"
proof -
  let ?cov = "map (map (\<lambda>c. c * sd\<^sup>2)) cov_matrix"
  from assms(2) obtain seed g1 where
    df: "pd_DataFrame (round_and_clip (fst (multivariate_normal env g1 mean_vector ?cov n))) column_names = Inr df"
    unfolding generuj_unfold by (auto simp: bindE_Inr_iff)
  note D = pd_DataFrame_Inr[OF df]
  show "map fst df = column_names" by (rule D(1))
  have "length (fst (multivariate_normal env g1 mean_vector ?cov n)) = n"
    by (rule contract_rows(1)[OF assms(1)])
  with D(3) show "\<forall>(name, series) \<in> set df. length series = n"
    by (fastforce simp: round_and_clip_shape(1))
qed

lemma vars_list_prefix:
  assumes "c \<in> set vars_list"
  shows "\<exists>prefix. (c, prefix) \<in> set PREFIX_MAP"
proof -
  have "map fst PREFIX_MAP = vars_list" by (simp add: PREFIX_MAP_def vars_list_def)
  with assms have "c \<in> fst ` set PREFIX_MAP" by (metis set_map)
  then obtain x where "x \<in> set PREFIX_MAP" "c = fst x" by (rule imageE)
  then have "(c, snd x) \<in> set PREFIX_MAP" by simp
  then show ?thesis ..
qed

lemma oblicz_needs_column:
  assumes "oblicz_poprawne_statystyki env df = Inr klucz" and "c \<in> set vars_list"
  shows "\<exists>s d p. map_of df c = Some s \<and> normality_test env s = Inr (d, p)"
proof -
  from vars_list_prefix[OF assms(2)] obtain prefix where "(c, prefix) \<in> set PREFIX_MAP" by blast
  from oblicz_normality_entries[OF assms(1) this] show ?thesis by blast
qed

lemma oblicz_needs_spearman:
  assumes "oblicz_poprawne_statystyki env df = Inr klucz" and "df_select df vars_list = Inr columns"
  shows "\<exists>rho pm. spearmanr env columns = Inr (NdArray rho, NdArray pm)"
proof -
  from assms(1) obtain columns' rho pm where
    "df_select df vars_list = Inr columns'" "spearmanr env columns' = Inr (NdArray rho, NdArray pm)"
    unfolding oblicz_Inr_iff by blast
  with assms(2) show ?thesis by auto
qed

lemma not_Inr_isl: "(\<And>y. x \<noteq> Inr y) \<Longrightarrow> isl x"
  by (cases x) auto

lemma oblicz_statsmodels_ok:
  assumes "HAS_STATSMODELS env" and "df_select df vars_list = Inr columns"
    and "spearmanr env columns = Inr (NdArray rho, NdArray pm)"
  shows "\<exists>klucz. oblicz_poprawne_statystyki env df = Inr klucz"
proof (rule oblicz_ok)
  from assms(2) obtain s0 s1 s2 s3 s4 where
    m: "map_of df ''Ekstrawersja'' = Some s0" "map_of df ''Neurotyzm'' = Some s1"
       "map_of df ''Otwartosc'' = Some s2" "map_of df ''Ugodowosc'' = Some s3"
       "map_of df ''Sumiennosc'' = Some s4"
    unfolding df_select_vars by blast
  show "list_all (\<lambda>c. \<exists>s d p. map_of df c = Some s \<and> normality_test env s = Inr (d, p)) vars_list"
    unfolding vars_list_def using m normality_test_statsmodels_ok[OF assms(1)] by simp
next
  fix columns' assume "df_select df vars_list = Inr columns'"
  with assms(2) have "columns' = columns" by simp
  with assms(3) show "\<exists>rho pm. spearmanr env columns' = Inr (NdArray rho, NdArray pm)" by blast
qed

lemma sample_df_select:
  "df_select sample_df vars_list =
     Inr [replicate 50 10 @ replicate 50 14, replicate 50 15 @ replicate 50 9,
          replicate 40 11 @ replicate 60 13, replicate 25 5 @ replicate 75 20, replicate 30 12 @ replicate 70 16]"
  unfolding df_select_vars by (simp add: sample_df_columns)

section \<open>Auxiliary facts: when the analysis returns\<close>

lemma normality_test_returns:
  "(\<exists>d p. normality_test env s = Inr (d, p)) \<longleftrightarrow>
   (HAS_STATSMODELS env \<or> \<not> isl (kstest_norm env (z_score_of env s)))"
proof (cases "HAS_STATSMODELS env")
  case True
  with normality_test_statsmodels_ok[OF True, of s] show ?thesis by simp
next
  case False
  show ?thesis unfolding normality_test_fallback[OF False]
    by (cases "kstest_norm env (z_score_of env s)") (auto simp: False)
qed

lemma normality_test_lilliefors_ok:
  "HAS_STATSMODELS env \<Longrightarrow> lilliefors env s = Inr (dv, pv) \<Longrightarrow>
   normality_test env s = Inr (PFloat dv, PFloat pv)"
  by (simp add: normality_test_def)

lemma normality_test_kstest:
  assumes "\<not> HAS_STATSMODELS env" and "normality_test env s = Inr (d, p)"
  shows "\<exists>dv pv. kstest_norm env (z_score_of env s) = Inr (dv, pv) \<and> d = PFloat dv \<and> p = PFloat pv"
  using assms(2) unfolding normality_test_fallback[OF assms(1)]
  by (auto simp: bindE_Inr_iff)

lemma oblicz_returns_iff:
  "(\<exists>klucz. oblicz_poprawne_statystyki env df = Inr klucz) \<longleftrightarrow>
   (\<exists>columns rho pm.
      df_select df vars_list = Inr columns \<and>
      (HAS_STATSMODELS env \<or> list_all (\<lambda>s. \<not> isl (kstest_norm env (z_score_of env s))) columns) \<and>
      spearmanr env columns = Inr (NdArray rho, NdArray pm))"
proof
  assume "\<exists>klucz. oblicz_poprawne_statystyki env df = Inr klucz"
  then obtain klucz k1 columns rho pm where
    a: "describe_all env df [] PREFIX_MAP = Inr k1" and
    sel: "df_select df vars_list = Inr columns" and
    s: "spearmanr env columns = Inr (NdArray rho, NdArray pm)"
    unfolding oblicz_Inr_iff by blast
  from a obtain s0 d0 p0 s1 d1 p1 s2 d2 p2 s3 d3 p3 s4 d4 p4 where
    n: "map_of df ''Ekstrawersja'' = Some s0" "normality_test env s0 = Inr (d0, p0)"
       "map_of df ''Neurotyzm'' = Some s1" "normality_test env s1 = Inr (d1, p1)"
       "map_of df ''Otwartosc'' = Some s2" "normality_test env s2 = Inr (d2, p2)"
       "map_of df ''Ugodowosc'' = Some s3" "normality_test env s3 = Inr (d3, p3)"
       "map_of df ''Sumiennosc'' = Some s4" "normality_test env s4 = Inr (d4, p4)"
    unfolding describe_all_PREFIX_MAP by blast
  from sel n have c: "columns = [s0, s1, s2, s3, s4]" unfolding df_select_vars by simp
  have "HAS_STATSMODELS env \<or> \<not> isl (kstest_norm env (z_score_of env x))"
    if "x \<in> {s0, s1, s2, s3, s4}" for x
  proof -
    from that n have "\<exists>d p. normality_test env x = Inr (d, p)" by auto
    then show ?thesis unfolding normality_test_returns .
  qed
  then have "HAS_STATSMODELS env \<or> list_all (\<lambda>s. \<not> isl (kstest_norm env (z_score_of env s))) columns"
    unfolding c by auto
  with sel s show "\<exists>columns rho pm.
      df_select df vars_list = Inr columns \<and>
      (HAS_STATSMODELS env \<or> list_all (\<lambda>s. \<not> isl (kstest_norm env (z_score_of env s))) columns) \<and>
      spearmanr env columns = Inr (NdArray rho, NdArray pm)" by blast
next
  assume "\<exists>columns rho pm.
      df_select df vars_list = Inr columns \<and>
      (HAS_STATSMODELS env \<or> list_all (\<lambda>s. \<not> isl (kstest_norm env (z_score_of env s))) columns) \<and>
      spearmanr env columns = Inr (NdArray rho, NdArray pm)"
  then obtain columns rho pm where
    sel: "df_select df vars_list = Inr columns" and
    t: "HAS_STATSMODELS env \<or> list_all (\<lambda>s. \<not> isl (kstest_norm env (z_score_of env s))) columns" and
    s: "spearmanr env columns = Inr (NdArray rho, NdArray pm)" by blast
  from sel obtain s0 s1 s2 s3 s4 where
    m: "map_of df ''Ekstrawersja'' = Some s0" "map_of df ''Neurotyzm'' = Some s1"
       "map_of df ''Otwartosc'' = Some s2" "map_of df ''Ugodowosc'' = Some s3"
       "map_of df ''Sumiennosc'' = Some s4" and c: "columns = [s0, s1, s2, s3, s4]"
    unfolding df_select_vars by blast
  from t have "\<exists>d p. normality_test env x = Inr (d, p)" if "x \<in> {s0, s1, s2, s3, s4}" for x
    unfolding normality_test_returns c using that by auto
  then have n: "\<exists>d p. normality_test env s0 = Inr (d, p)" "\<exists>d p. normality_test env s1 = Inr (d, p)"
    "\<exists>d p. normality_test env s2 = Inr (d, p)" "\<exists>d p. normality_test env s3 = Inr (d, p)"
    "\<exists>d p. normality_test env s4 = Inr (d, p)" by simp_all
  show "\<exists>klucz. oblicz_poprawne_statystyki env df = Inr klucz"
  proof (rule oblicz_ok)
    show "list_all (\<lambda>c. \<exists>s d p. map_of df c = Some s \<and> normality_test env s = Inr (d, p)) vars_list"
      unfolding vars_list_def using m n by simp
  next
    fix columns' assume "df_select df vars_list = Inr columns'"
    with sel have "columns' = columns" by simp
    with s show "\<exists>rho pm. spearmanr env columns' = Inr (NdArray rho, NdArray pm)" by blast
  qed
qed

lemma format_pairs_scalar:
  "format_pairs (NpScalar x) b klucz pairs = Inl TypeError"
  "format_pairs (NdArray r) (NpScalar y) klucz pairs = Inl TypeError"
  by (simp_all add: pairs_def get_rp_def np_getitem_def idx_vals)

lemma oblicz_after_part_b:
  assumes "df_select df vars_list = Inr columns"
    and "HAS_STATSMODELS env \<or> list_all (\<lambda>s. \<not> isl (kstest_norm env (z_score_of env s))) columns"
  shows "\<exists>k2. oblicz_poprawne_statystyki env df =
           bindE (spearmanr env columns) (\<lambda>(rho, p_matrix).
           bindE (format_pairs rho p_matrix k2 pairs) (\<lambda>klucz.
           hypotheses rho p_matrix klucz))"
proof -
  from assms(1) obtain s0 s1 s2 s3 s4 where
    m: "map_of df ''Ekstrawersja'' = Some s0" "map_of df ''Neurotyzm'' = Some s1"
       "map_of df ''Otwartosc'' = Some s2" "map_of df ''Ugodowosc'' = Some s3"
       "map_of df ''Sumiennosc'' = Some s4" and c: "columns = [s0, s1, s2, s3, s4]"
    unfolding df_select_vars by blast
  from assms(2) have "\<exists>d p. normality_test env x = Inr (d, p)" if "x \<in> {s0, s1, s2, s3, s4}" for x
    unfolding normality_test_returns c using that by auto
  then obtain d0 p0 d1 p1 d2 p2 d3 p3 d4 p4 where
    n: "normality_test env s0 = Inr (d0, p0)" "normality_test env s1 = Inr (d1, p1)"
       "normality_test env s2 = Inr (d2, p2)" "normality_test env s3 = Inr (d3, p3)"
       "normality_test env s4 = Inr (d4, p4)"
    by (metis insertCI)
  define k1 where "k1 = column_entries env ''sumien'' s4 d4 p4
            (column_entries env ''ugoda'' s3 d3 p3
              (column_entries env ''otwar'' s2 d2 p2
                (column_entries env ''neuro'' s1 d1 p1
                  (column_entries env ''ekstra'' s0 d0 p0 []))))"
  have a: "describe_all env df [] PREFIX_MAP = Inr k1"
    unfolding describe_all_PREFIX_MAP k1_def using m n by blast
  from normality_test_Inr[OF n(2)] obtain pv where pv: "p1 = PFloat pv" by blast
  have "map_of k1 ''neuro_p'' = Some (PFloat pv)"
    by (simp add: k1_def column_entries_lookup pv)
  from method_label_ok[OF this] obtain k2 where b: "method_label k1 = Inr k2" by blast
  have "oblicz_poprawne_statystyki env df =
           bindE (spearmanr env columns) (\<lambda>(rho, p_matrix).
           bindE (format_pairs rho p_matrix k2 pairs) (\<lambda>klucz.
           hypotheses rho p_matrix klucz))"
    by (simp add: oblicz_poprawne_statystyki_def a b assms(1))
  then show ?thesis ..
qed

lemma oblicz_spearman_raises:
  assumes "df_select df vars_list = Inr columns"
    and "HAS_STATSMODELS env \<or> list_all (\<lambda>s. \<not> isl (kstest_norm env (z_score_of env s))) columns"
    and "spearmanr env columns = Inl e"
  shows "oblicz_poprawne_statystyki env df = Inl e"
  using oblicz_after_part_b[OF assms(1,2)] assms(3) by auto

lemma oblicz_spearman_scalar:
  assumes "df_select df vars_list = Inr columns"
    and "HAS_STATSMODELS env \<or> list_all (\<lambda>s. \<not> isl (kstest_norm env (z_score_of env s))) columns"
    and "spearmanr env columns = Inr (a, b)"
    and "(\<exists>x. a = NpScalar x) \<or> (\<exists>y. b = NpScalar y)"
  shows "oblicz_poprawne_statystyki env df = Inl TypeError"
proof -
  from oblicz_after_part_b[OF assms(1,2)] assms(3) obtain k2 where
    o: "oblicz_poprawne_statystyki env df =
          bindE (format_pairs a b k2 pairs) (\<lambda>klucz. hypotheses a b klucz)" by auto
  have "format_pairs a b k2 pairs = Inl TypeError"
  proof (cases a)
    case (NdArray r)
    with assms(4) obtain y where "b = NpScalar y" by auto
    with NdArray show ?thesis by (simp only: format_pairs_scalar(2))
  next
    case (NpScalar x)
    then show ?thesis by (simp only: format_pairs_scalar(1))
  qed
  with o show ?thesis by simp
qed

lemma label_apart2:
  "''rozklad_typ'' \<notin> set hypothesis_keys"
  "''rozklad_typ'' \<notin> set (map (\<lambda>(v1, v2, key). key) pairs)"
  by (simp_all add: hypothesis_keys_def pairs_def)

lemma oblicz_labels:
  assumes "oblicz_poprawne_statystyki env df = Inr klucz"
  shows "\<exists>pv. map_of klucz ''neuro_p'' = Some (PFloat pv) \<and>
           map_of klucz ''korelacja_typ'' =
             Some (PStr (if pv < 0.05 then ''rho-Spearmana'' else ''r-Pearsona'')) \<and>
           map_of klucz ''rozklad_typ'' =
             Some (PStr (if pv < 0.05 then lbl_niespelnienie else lbl_spelnienie))"
proof -
  from assms obtain k1 k2 rho pm k3 where
    a: "describe_all env df [] PREFIX_MAP = Inr k1" and
    b: "method_label k1 = Inr k2" and
    c: "format_pairs (NdArray rho) (NdArray pm) k2 pairs = Inr k3" and
    d: "hypotheses (NdArray rho) (NdArray pm) k3 = Inr klucz"
    unfolding oblicz_Inr_iff by blast
  from oblicz_label[OF assms] obtain pv where
    x: "map_of klucz ''neuro_p'' = Some (PFloat pv)" and
    y: "map_of klucz ''korelacja_typ'' =
             Some (PStr (if pv < 0.05 then ''rho-Spearmana'' else ''r-Pearsona''))" by blast
  have "map_of klucz ''neuro_p'' = map_of k1 ''neuro_p''"
    by (rule stage_keep[OF b c d neuro_p_apart])
  with x have l1: "map_of k1 ''neuro_p'' = Some (PFloat pv)" by simp
  from b have k2: "k2 = (if pv < 0.05 then
            AList.update ''korelacja_typ'' (PStr ''rho-Spearmana'')
              (AList.update ''rozklad_typ'' (PStr lbl_niespelnienie) k1)
          else
            AList.update ''korelacja_typ'' (PStr ''r-Pearsona'')
              (AList.update ''rozklad_typ'' (PStr lbl_spelnienie) k1))"
    unfolding method_label_float[OF l1] by simp
  have "map_of klucz ''rozklad_typ'' = map_of k3 ''rozklad_typ''"
    by (rule hypotheses_keep[OF d label_apart2(1)])
  also have "\<dots> = map_of k2 ''rozklad_typ''"
    by (rule format_pairs_keep[OF c pairs_distinct label_apart2(2)])
  also have "\<dots> = Some (PStr (if pv < 0.05 then lbl_niespelnienie else lbl_spelnienie))"
    unfolding k2 by (simp add: lookup_update)
  finally show ?thesis using x y by blast
qed

section \<open>Claims about the classifiers and the formatting\<close>

text \<open>
  Claim C6. The strength classifier returns "brak" (none) for \<open>|r| < 0.1\<close>, "slaby"
  (weak) for \<open>0.1 \<le> |r| < 0.3\<close>, "umiarkowany" (moderate) for \<open>0.3 \<le> |r| < 0.5\<close> and
  "silny" (strong) for \<open>|r| \<ge> 0.5\<close>, for every real \<open>r\<close>; in particular at the six
  boundary values of the specification and at their negatives. The four labels are
  pairwise different.
\<close>

theorem ocen_sile_thresholds:
  "(\<bar>r\<bar> < 0.1 \<longrightarrow> ocen_sile r = lbl_brak) \<and>
   (0.1 \<le> \<bar>r\<bar> \<and> \<bar>r\<bar> < 0.3 \<longrightarrow> ocen_sile r = lbl_slaby) \<and>
   (0.3 \<le> \<bar>r\<bar> \<and> \<bar>r\<bar> < 0.5 \<longrightarrow> ocen_sile r = lbl_umiarkowany) \<and>
   (0.5 \<le> \<bar>r\<bar> \<longrightarrow> ocen_sile r = lbl_silny) \<and>
   ocen_sile 0.099 = lbl_brak \<and> ocen_sile 0.1 = lbl_slaby \<and> ocen_sile 0.299 = lbl_slaby \<and>
   ocen_sile 0.3 = lbl_umiarkowany \<and> ocen_sile 0.499 = lbl_umiarkowany \<and>
   ocen_sile 0.5 = lbl_silny \<and>
   ocen_sile (- 0.099) = lbl_brak \<and> ocen_sile (- 0.1) = lbl_slaby \<and>
   ocen_sile (- 0.299) = lbl_slaby \<and> ocen_sile (- 0.3) = lbl_umiarkowany \<and>
   ocen_sile (- 0.499) = lbl_umiarkowany \<and> ocen_sile (- 0.5) = lbl_silny \<and>
   distinct [lbl_brak, lbl_slaby, lbl_umiarkowany, lbl_silny]"
  by (simp add: ocen_sile_def Let_def lbl_brak_def lbl_slaby_def lbl_umiarkowany_def lbl_silny_def)

theorem ocen_sile_thresholds_witness:
  "\<bar>0.05 :: real\<bar> < 0.1 \<and> ocen_sile 0.05 = lbl_brak \<and>
   0.1 \<le> \<bar>- 0.2 :: real\<bar> \<and> \<bar>- 0.2 :: real\<bar> < 0.3 \<and> ocen_sile (- 0.2) = lbl_slaby \<and>
   0.3 \<le> \<bar>0.4 :: real\<bar> \<and> \<bar>0.4 :: real\<bar> < 0.5 \<and> ocen_sile 0.4 = lbl_umiarkowany \<and>
   0.5 \<le> \<bar>- 0.55 :: real\<bar> \<and> ocen_sile (- 0.55) = lbl_silny"
  using ocen_sile_thresholds [of "0.05"] ocen_sile_thresholds [of "- 0.2"]
    ocen_sile_thresholds [of "0.4"] ocen_sile_thresholds [of "- 0.55"]
  by simp

text \<open>
  Claim C7 says that for every coefficient the formatted string is the coefficient to two
  decimal places with a comma. A coefficient can be NaN (the rank correlation of a constant
  column): the string is then \<^verbatim>\<open>nan\<close>, with no digit and no comma.
\<close>

theorem nan_coefficient_prints_nan:
  "format_r_z_gwiazdkami NaN NaN = ''nan''"
  by (simp add: format_r_z_gwiazdkami_def format_2f_def flt_def str_replace_def)

text \<open>
  Claim C7 as amended. For every finite coefficient \<open>r\<close> there is an integer \<open>n\<close>, the
  integer nearest to \<open>100 r\<close> (of two equally near ones the even one), such that the
  formatted string is the sign of \<open>r\<close>, the decimal digits of \<open>|n|\<close> with a comma before
  the last two, and then three stars for \<open>p < 0.001\<close>, two for \<open>p < 0.01\<close>, one for
  \<open>p < 0.05\<close> and none otherwise (none for a NaN p-value); stripping the stars, restoring
  the period and parsing gives \<open>n / 100\<close>. For a NaN coefficient the string is
  \<^verbatim>\<open>nan\<close> followed by the stars.
\<close>

theorem format_of_finite_coefficient:
  "(\<exists>n :: int.
      \<bar>real_of_int n - r * 100\<bar> \<le> 1 / 2 \<and>
      (\<bar>real_of_int n - r * 100\<bar> = 1 / 2 \<longrightarrow> even n) \<and>
      format_r_z_gwiazdkami (Fin r) p =
        (if r < 0 then ''-'' else '''') @
        str_nat (nat \<bar>n\<bar> div 100) @ '','' @
        [digit_char (nat \<bar>n\<bar> mod 100 div 10), digit_char (nat \<bar>n\<bar> mod 10)] @
        (case p of
           Fin pv \<Rightarrow> (if pv < 0.001 then ''***'' else if pv < 0.01 then ''**''
                      else if pv < 0.05 then ''*'' else '''')
         | NaN \<Rightarrow> '''') \<and>
      spec_read_back (format_r_z_gwiazdkami (Fin r) p) = Some (real_of_int n / 100)) \<and>
   format_r_z_gwiazdkami NaN p =
     ''nan'' @
     (case p of
        Fin pv \<Rightarrow> (if pv < 0.001 then ''***'' else if pv < 0.01 then ''**''
                   else if pv < 0.05 then ''*'' else '''')
      | NaN \<Rightarrow> '''')"
proof
  let ?n = "round_half_even (r * 100)"
  let ?q = "nat (round_half_even (\<bar>r\<bar> * 100))"
  have q: "?q = nat \<bar>?n\<bar>"
  proof (cases "r < 0")
    case True
    then have "\<bar>r\<bar> * 100 = - (r * 100)" by simp
    then have e: "round_half_even (\<bar>r\<bar> * 100) = - ?n" by (simp add: rhe_neg)
    have "0 \<le> round_half_even (\<bar>r\<bar> * 100)" by (rule rhe_nonneg) simp
    with e show ?thesis by simp
  next
    case False
    then have e: "\<bar>r\<bar> * 100 = r * 100" by simp
    have "0 \<le> round_half_even (\<bar>r\<bar> * 100)" by (rule rhe_nonneg) simp
    with e show ?thesis by simp
  qed
  have d: "str_replace (CHR ''.'') (CHR '','') (str_nat (?q div 100)) = str_nat (?q div 100)"
    by (rule digits_replace_id(1)[OF str_nat_digits])
  have t: "str_replace (CHR ''.'') (CHR '','')
             [digit_char (?q mod 100 div 10), digit_char (?q mod 10)]
           = [digit_char (?q mod 100 div 10), digit_char (?q mod 10)]"
    by (rule digits_replace_id(1)[OF two_digits])
  have b: "str_replace (CHR ''.'') (CHR '','') (body_2f ?q) =
           str_nat (?q div 100) @ '','' @ [digit_char (?q mod 100 div 10), digit_char (?q mod 10)]"
    unfolding body_2f_def str_replace_append d t by (simp add: str_replace_def)
  have f: "format_r_z_gwiazdkami (Fin r) p =
        (if r < 0 then ''-'' else '''') @
        str_nat (?q div 100) @ '','' @
        [digit_char (?q mod 100 div 10), digit_char (?q mod 10)] @
        (case p of
           Fin pv \<Rightarrow> (if pv < 0.001 then ''***'' else if pv < 0.01 then ''**''
                      else if pv < 0.05 then ''*'' else '''')
         | NaN \<Rightarrow> '''')"
    unfolding format_r_z_gwiazdkami_def format_2f_body Let_def str_replace_append b
    by (cases p) (simp_all add: str_replace_def flt_def)
  have g: "spec_read_back (format_r_z_gwiazdkami (Fin r) p) = Some (real_of_int ?n / 100)"
    by (simp add: spec_read_back_def unformat parse_format_2f)
  show "\<exists>n :: int.
      \<bar>real_of_int n - r * 100\<bar> \<le> 1 / 2 \<and>
      (\<bar>real_of_int n - r * 100\<bar> = 1 / 2 \<longrightarrow> even n) \<and>
      format_r_z_gwiazdkami (Fin r) p =
        (if r < 0 then ''-'' else '''') @
        str_nat (nat \<bar>n\<bar> div 100) @ '','' @
        [digit_char (nat \<bar>n\<bar> mod 100 div 10), digit_char (nat \<bar>n\<bar> mod 10)] @
        (case p of
           Fin pv \<Rightarrow> (if pv < 0.001 then ''***'' else if pv < 0.01 then ''**''
                      else if pv < 0.05 then ''*'' else '''')
         | NaN \<Rightarrow> '''') \<and>
      spec_read_back (format_r_z_gwiazdkami (Fin r) p) = Some (real_of_int n / 100)"
    apply (rule exI[of _ ?n])
    using rhe_nearest[of "r * 100"] f g unfolding q by blast
  show "format_r_z_gwiazdkami NaN p =
     ''nan'' @
     (case p of
        Fin pv \<Rightarrow> (if pv < 0.001 then ''***'' else if pv < 0.01 then ''**''
                   else if pv < 0.05 then ''*'' else '''')
      | NaN \<Rightarrow> '''')"
    by (cases p) (simp_all add: format_r_z_gwiazdkami_def format_2f_def flt_def str_replace_def)
qed

theorem format_of_finite_coefficient_witness:
  "format_r_z_gwiazdkami (Fin 0.129) (Fin 0.02) = ''0,13*'' \<and>
   spec_read_back ''0,13*'' = Some 0.13 \<and>
   format_r_z_gwiazdkami (Fin (- 0.555)) (Fin 0.0001) = ''-0,56***'' \<and>
   spec_read_back ''-0,56***'' = Some (- 0.56) \<and>
   format_r_z_gwiazdkami (Fin 0.125) NaN = ''0,12'' \<and>
   spec_read_back ''0,12'' = Some 0.12"
proof -
  have s: "str_nat 0 = ''0''" by (subst str_nat.simps) (simp add: digit_char_vals)
  from format_of_finite_coefficient [of "0.129" "Fin 0.02"] obtain n1 :: int where
    n1: "\<bar>real_of_int n1 - 0.129 * 100\<bar> \<le> 1 / 2"
        "\<bar>real_of_int n1 - 0.129 * 100\<bar> = 1 / 2 \<longrightarrow> even n1" and
    f1: "format_r_z_gwiazdkami (Fin 0.129) (Fin 0.02) =
        (if (0.129 :: real) < 0 then ''-'' else '''') @
        str_nat (nat \<bar>n1\<bar> div 100) @ '','' @
        [digit_char (nat \<bar>n1\<bar> mod 100 div 10), digit_char (nat \<bar>n1\<bar> mod 10)] @
        (case Fin 0.02 of
           Fin pv \<Rightarrow> (if pv < 0.001 then ''***'' else if pv < 0.01 then ''**''
                      else if pv < 0.05 then ''*'' else '''')
         | NaN \<Rightarrow> '''')" and
    r1: "spec_read_back (format_r_z_gwiazdkami (Fin 0.129) (Fin 0.02)) = Some (real_of_int n1 / 100)"
    by blast
  have v1: "round_half_even (0.129 * 100) = 13"
  proof -
    have "\<lfloor>129 / 10 :: real\<rfloor> = 12" by simp
    then show ?thesis by (simp add: round_half_even_def Let_def)
  qed
  have "n1 = round_half_even (0.129 * 100)" by (rule rhe_unique[OF n1])
  with v1 have "n1 = 13" by simp
  with f1 r1 have a: "format_r_z_gwiazdkami (Fin 0.129) (Fin 0.02) = ''0,13*''"
    "spec_read_back (format_r_z_gwiazdkami (Fin 0.129) (Fin 0.02)) = Some 0.13"
    by (simp_all add: s digit_char_vals)
  from format_of_finite_coefficient [of "- 0.555" "Fin 0.0001"] obtain n2 :: int where
    n2: "\<bar>real_of_int n2 - (- 0.555) * 100\<bar> \<le> 1 / 2"
        "\<bar>real_of_int n2 - (- 0.555) * 100\<bar> = 1 / 2 \<longrightarrow> even n2" and
    f2: "format_r_z_gwiazdkami (Fin (- 0.555)) (Fin 0.0001) =
        (if (- 0.555 :: real) < 0 then ''-'' else '''') @
        str_nat (nat \<bar>n2\<bar> div 100) @ '','' @
        [digit_char (nat \<bar>n2\<bar> mod 100 div 10), digit_char (nat \<bar>n2\<bar> mod 10)] @
        (case Fin 0.0001 of
           Fin pv \<Rightarrow> (if pv < 0.001 then ''***'' else if pv < 0.01 then ''**''
                      else if pv < 0.05 then ''*'' else '''')
         | NaN \<Rightarrow> '''')" and
    r2: "spec_read_back (format_r_z_gwiazdkami (Fin (- 0.555)) (Fin 0.0001)) = Some (real_of_int n2 / 100)"
    by blast
  have v2: "round_half_even ((- 0.555) * 100) = - 56"
  proof -
    have "\<lfloor>- (111 / 2) :: real\<rfloor> = - 56" by simp
    then show ?thesis by (simp add: round_half_even_def Let_def)
  qed
  have "n2 = round_half_even ((- 0.555) * 100)" by (rule rhe_unique[OF n2])
  with v2 have "n2 = - 56" by simp
  with f2 r2 have b: "format_r_z_gwiazdkami (Fin (- 0.555)) (Fin 0.0001) = ''-0,56***''"
    "spec_read_back (format_r_z_gwiazdkami (Fin (- 0.555)) (Fin 0.0001)) = Some (- 0.56)"
    by (simp_all add: s digit_char_vals)
  from format_of_finite_coefficient [of "0.125" NaN] obtain n3 :: int where
    n3: "\<bar>real_of_int n3 - 0.125 * 100\<bar> \<le> 1 / 2"
        "\<bar>real_of_int n3 - 0.125 * 100\<bar> = 1 / 2 \<longrightarrow> even n3" and
    f3: "format_r_z_gwiazdkami (Fin 0.125) NaN =
        (if (0.125 :: real) < 0 then ''-'' else '''') @
        str_nat (nat \<bar>n3\<bar> div 100) @ '','' @
        [digit_char (nat \<bar>n3\<bar> mod 100 div 10), digit_char (nat \<bar>n3\<bar> mod 10)] @
        (case NaN of
           Fin pv \<Rightarrow> (if pv < 0.001 then ''***'' else if pv < 0.01 then ''**''
                      else if pv < 0.05 then ''*'' else '''')
         | NaN \<Rightarrow> '''')" and
    r3: "spec_read_back (format_r_z_gwiazdkami (Fin 0.125) NaN) = Some (real_of_int n3 / 100)"
    by blast
  have v3: "round_half_even (0.125 * 100) = 12"
  proof -
    have "\<lfloor>25 / 2 :: real\<rfloor> = 12" by simp
    then show ?thesis by (simp add: round_half_even_def Let_def)
  qed
  have "n3 = round_half_even (0.125 * 100)" by (rule rhe_unique[OF n3])
  with v3 have "n3 = 12" by simp
  with f3 r3 have c: "format_r_z_gwiazdkami (Fin 0.125) NaN = ''0,12''"
    "spec_read_back (format_r_z_gwiazdkami (Fin 0.125) NaN) = Some 0.12"
    by (simp_all add: s digit_char_vals)
  from a(2) b(2) c(2) have
    "spec_read_back ''0,13*'' = Some 0.13" "spec_read_back ''-0,56***'' = Some (- 0.56)"
    "spec_read_back ''0,12'' = Some 0.12"
    unfolding a(1) b(1) c(1) by simp_all
  with a(1) b(1) c(1) show ?thesis by simp
qed

section \<open>Claims about the generator\<close>

text \<open>
  Claim C8 says that a seed is obtained for every identifier string. A Python string may
  hold a lone surrogate code point, which has no UTF-8 encoding: for the one-character
  identifier U+D800 line 44 raises and no seed is derived.
\<close>

theorem lone_surrogate_has_no_seed:
  "derive_seed sample_env [0xD800] = Inl UnicodeEncodeError"
proof -
  have "\<not> list_all encodable [0xD800]" by (simp add: encodable_def)
  then show ?thesis by (rule derive_seed_fail)
qed

text \<open>
  Claim C8 as amended. For an identifier whose code points all have a UTF-8 encoding (and
  a digest of 16 bytes) a seed is derived; for any other identifier the encoding raises.
  A derived seed is the digest of the identifier's UTF-8 bytes, read as one big-endian
  integer and reduced modulo \<open>2^32\<close>: it is the number held by the last four bytes of the
  digest and lies in \<open>[0, 2^32)\<close>. The bytes are those of UTF-8: one byte for a code point
  below U+0080 (the code point itself), two below U+0800, three below U+10000, four above,
  and the bytes of a string are those of its code points in order.
\<close>

theorem seed_of_encodable_identifier:
  "(derive_seed env user_id = Inr seed \<longrightarrow>
      0 \<le> seed \<and> seed < 2 ^ 32 \<and>
      (\<exists>bs. str_encode_utf8 user_id = Inr bs \<and>
            seed = digest_int (md5_digest env bs) mod 2 ^ 32 \<and>
            (\<forall>d b3 b2 b1 b0. md5_digest env bs = d @ [b3, b2, b1, b0] \<longrightarrow>
               seed = 16777216 * uint b3 + 65536 * uint b2 + 256 * uint b1 + uint b0))) \<and>
   (library_contract env \<and> list_all encodable user_id \<longrightarrow>
      (\<exists>seed'. derive_seed env user_id = Inr seed')) \<and>
   (\<not> list_all encodable user_id \<longrightarrow> derive_seed env user_id = Inl UnicodeEncodeError) \<and>
   (list_all (\<lambda>c. c < 0x80) user_id \<longrightarrow> str_encode_utf8 user_id = Inr (map of_nat user_id)) \<and>
   (c < 0x80 \<longrightarrow> str_encode_utf8 [c] = Inr [of_nat c]) \<and>
   (0x80 \<le> c \<and> c < 0x800 \<longrightarrow>
      str_encode_utf8 [c] = Inr [of_nat (0xC0 + c div 64), of_nat (0x80 + c mod 64)]) \<and>
   (0x800 \<le> c \<and> c < 0xD800 \<or> 0xE000 \<le> c \<and> c < 0x10000 \<longrightarrow>
      str_encode_utf8 [c] =
        Inr [of_nat (0xE0 + c div 4096), of_nat (0x80 + c div 64 mod 64), of_nat (0x80 + c mod 64)]) \<and>
   (0x10000 \<le> c \<and> c < 0x110000 \<longrightarrow>
      str_encode_utf8 [c] =
        Inr [of_nat (0xF0 + c div 262144), of_nat (0x80 + c div 4096 mod 64),
             of_nat (0x80 + c div 64 mod 64), of_nat (0x80 + c mod 64)]) \<and>
   (str_encode_utf8 u = Inr a \<and> str_encode_utf8 v = Inr b \<longrightarrow>
      str_encode_utf8 (u @ v) = Inr (a @ b))"
proof (intro conjI impI)
  assume s: "derive_seed env user_id = Inr seed"
  from derive_seed_Inr_range[OF s] show "0 \<le> seed" "seed < 2 ^ 32" by simp_all
  from s obtain bs h where bs: "str_encode_utf8 user_id = Inr bs"
    and h: "int_base16 (hexdigest (md5_digest env bs)) = Inr h" and sh: "seed = h mod 2 ^ 32"
    by (auto simp: derive_seed_def Let_def bindE_Inr_iff)
  from h have "md5_digest env bs \<noteq> []" by (auto simp: int_base16_def)
  from int_base16_hexdigest[OF this] h have "h = digest_int (md5_digest env bs)" by simp
  with sh have e: "seed = digest_int (md5_digest env bs) mod 2 ^ 32" by simp
  have "\<forall>d b3 b2 b1 b0. md5_digest env bs = d @ [b3, b2, b1, b0] \<longrightarrow>
               seed = 16777216 * uint b3 + 65536 * uint b2 + 256 * uint b1 + uint b0"
    unfolding e by (auto simp only: digest_int_last4)
  with bs e
  show "\<exists>bs. str_encode_utf8 user_id = Inr bs \<and>
            seed = digest_int (md5_digest env bs) mod 2 ^ 32 \<and>
            (\<forall>d b3 b2 b1 b0. md5_digest env bs = d @ [b3, b2, b1, b0] \<longrightarrow>
               seed = 16777216 * uint b3 + 65536 * uint b2 + 256 * uint b1 + uint b0)"
    by blast
next
  assume "library_contract env \<and> list_all encodable user_id"
  then have c: "library_contract env" and e: "list_all encodable user_id" by simp_all
  from str_encode_ok[OF e] obtain bs where "str_encode_utf8 user_id = Inr bs" by blast
  from derive_seed_ok[OF c this] show "\<exists>seed'. derive_seed env user_id = Inr seed'" by blast
next
  assume "\<not> list_all encodable user_id"
  then show "derive_seed env user_id = Inl UnicodeEncodeError" by (rule derive_seed_fail)
next
  assume "list_all (\<lambda>c. c < 0x80) user_id"
  then show "str_encode_utf8 user_id = Inr (map of_nat user_id)" by (rule str_encode_ascii)
next
  assume "c < 0x80"
  then show "str_encode_utf8 [c] = Inr [of_nat c]"
    by (simp add: str_encode_single encode_cp_table(1))
next
  assume "0x80 \<le> c \<and> c < 0x800"
  then show "str_encode_utf8 [c] = Inr [of_nat (0xC0 + c div 64), of_nat (0x80 + c mod 64)]"
    by (simp add: str_encode_single encode_cp_table(2))
next
  assume "0x800 \<le> c \<and> c < 0xD800 \<or> 0xE000 \<le> c \<and> c < 0x10000"
  then show "str_encode_utf8 [c] =
        Inr [of_nat (0xE0 + c div 4096), of_nat (0x80 + c div 64 mod 64), of_nat (0x80 + c mod 64)]"
    by (simp only: str_encode_single encode_cp_table(3) bindE_simps)
next
  assume "0x10000 \<le> c \<and> c < 0x110000"
  then show "str_encode_utf8 [c] =
        Inr [of_nat (0xF0 + c div 262144), of_nat (0x80 + c div 4096 mod 64),
             of_nat (0x80 + c div 64 mod 64), of_nat (0x80 + c mod 64)]"
    by (simp add: str_encode_single encode_cp_table(4))
next
  assume "str_encode_utf8 u = Inr a \<and> str_encode_utf8 v = Inr b"
  then show "str_encode_utf8 (u @ v) = Inr (a @ b)" using str_encode_append by blast
qed

theorem seed_of_encodable_identifier_witness:
  "library_contract sample_env \<and> list_all encodable [0x4A, 0x61, 0x144] \<and>
   str_encode_utf8 [0x4A, 0x61, 0x144] = Inr [0x4A, 0x61, 0xC5, 0x84] \<and>
   md5_digest sample_env [0x4A, 0x61, 0xC5, 0x84] =
     [119, 254, 133, 12, 147, 26, 161, 40, 175, 54, 189, 68] @ [203, 82, 217, 96] \<and>
   derive_seed sample_env [0x4A, 0x61, 0x144] = Inr 3411204448 \<and>
   derive_seed sample_env [0x4A] = Inr 2507032352 \<and>
   derive_seed sample_env [] = Inr 1432118122 \<and>
   str_encode_utf8 [0x20AC] = Inr [0xE2, 0x82, 0xAC] \<and>
   str_encode_utf8 [0x1F600] = Inr [0xF0, 0x9F, 0x98, 0x80] \<and>
   \<not> list_all encodable [0x4A, 0xDFFF] \<and>
   derive_seed sample_env [0x4A, 0xDFFF] = Inl UnicodeEncodeError"
proof -
  note T = seed_of_encodable_identifier
  note T_seed = T [THEN conjunct1, rule_format]
  note T_ex = T [THEN conjunct2, THEN conjunct1, rule_format]
  note T_fail = T [THEN conjunct2, THEN conjunct2, THEN conjunct1, rule_format]
  note T_ascii = T [THEN conjunct2, THEN conjunct2, THEN conjunct2, THEN conjunct1, rule_format]
  note T_two = T [THEN conjunct2, THEN conjunct2, THEN conjunct2, THEN conjunct2, THEN conjunct2,
    THEN conjunct1, rule_format]
  note T_three = T [THEN conjunct2, THEN conjunct2, THEN conjunct2, THEN conjunct2, THEN conjunct2,
    THEN conjunct2, THEN conjunct1, rule_format]
  note T_four = T [THEN conjunct2, THEN conjunct2, THEN conjunct2, THEN conjunct2, THEN conjunct2,
    THEN conjunct2, THEN conjunct2, THEN conjunct1, rule_format]
  note T_app = T [THEN conjunct2, THEN conjunct2, THEN conjunct2, THEN conjunct2, THEN conjunct2,
    THEN conjunct2, THEN conjunct2, THEN conjunct2, rule_format]
  have c: "library_contract sample_env" by (rule sample_contract)
  have e: "list_all encodable [0x4A, 0x61, 0x144]" "list_all encodable [0x4A]" "list_all encodable []"
    "\<not> list_all encodable [0x4A, 0xDFFF]"
    by (simp_all add: encodable_def)
  \<comment> \<open>the bytes, from the table of the theorem\<close>
  have "str_encode_utf8 [0x4A, 0x61] = Inr (map of_nat [0x4A, 0x61])"
    by (rule T_ascii) simp
  then have b1: "str_encode_utf8 [0x4A, 0x61] = Inr [0x4A, 0x61]" by simp
  have "str_encode_utf8 [0x144] = Inr [of_nat (0xC0 + 0x144 div 64), of_nat (0x80 + 0x144 mod 64)]"
    by (rule T_two) simp
  then have b2: "str_encode_utf8 [0x144] = Inr [0xC5, 0x84]" by simp
  have "str_encode_utf8 ([0x4A, 0x61] @ [0x144]) = Inr ([0x4A, 0x61] @ [0xC5, 0x84])"
    using b1 b2 by (intro T_app conjI)
  then have b: "str_encode_utf8 [0x4A, 0x61, 0x144] = Inr [0x4A, 0x61, 0xC5, 0x84]" by simp
  have "str_encode_utf8 [0x4A] = Inr (map of_nat [0x4A])"
    by (rule T_ascii) simp
  then have b4: "str_encode_utf8 [0x4A] = Inr [0x4A]" by simp
  have "str_encode_utf8 [0x20AC] =
      Inr [of_nat (0xE0 + 0x20AC div 4096), of_nat (0x80 + 0x20AC div 64 mod 64), of_nat (0x80 + 0x20AC mod 64)]"
    by (rule T_three) simp
  then have b5: "str_encode_utf8 [0x20AC] = Inr [0xE2, 0x82, 0xAC]" by simp
  have "str_encode_utf8 [0x1F600] =
      Inr [of_nat (0xF0 + 0x1F600 div 262144), of_nat (0x80 + 0x1F600 div 4096 mod 64),
           of_nat (0x80 + 0x1F600 div 64 mod 64), of_nat (0x80 + 0x1F600 mod 64)]"
    by (rule T_four) simp
  then have b6: "str_encode_utf8 [0x1F600] = Inr [0xF0, 0x9F, 0x98, 0x80]" by simp
  \<comment> \<open>the seeds, from the last four bytes of the digest\<close>
  have d: "md5_digest sample_env [0x4A, 0x61, 0xC5, 0x84] =
     [119, 254, 133, 12, 147, 26, 161, 40, 175, 54, 189, 68] @ [203, 82, 217, 96]"
    "md5_digest sample_env [0x4A] = [105, 66, 27, 244, 205, 166, 127, 88, 49, 10, 227, 188] @ [149, 110, 71, 32]"
    "md5_digest sample_env [] = [1, 8, 15, 22, 29, 36, 43, 50, 57, 64, 71, 78] @ [85, 92, 99, 106]"
    by (simp_all add: md5_sample sample_digest_vals)
  have s: "derive_seed sample_env u = Inr (16777216 * uint b3 + 65536 * uint b2 + 256 * uint b1 + uint b0)"
    if "list_all encodable u" "str_encode_utf8 u = Inr bs" "md5_digest sample_env bs = dd @ [b3, b2, b1, b0]"
    for u bs dd b3 b2 b1 b0
  proof -
    from T_ex [of sample_env u] c that(1) obtain seed' where s': "derive_seed sample_env u = Inr seed'"
      by blast
    from T_seed [OF s'] that(2,3)
    have "seed' = 16777216 * uint b3 + 65536 * uint b2 + 256 * uint b1 + uint b0" by auto
    with s' show ?thesis by simp
  qed
  have s1: "derive_seed sample_env [0x4A, 0x61, 0x144] = Inr 3411204448"
    using s[OF e(1) b d(1)] by simp
  have s2: "derive_seed sample_env [0x4A] = Inr 2507032352"
    using s[OF e(2) b4 d(2)] by simp
  have "str_encode_utf8 [] = Inr []" by simp
  from s[OF e(3) this d(3)] have s3: "derive_seed sample_env [] = Inr 1432118122" by simp
  have f: "derive_seed sample_env [0x4A, 0xDFFF] = Inl UnicodeEncodeError"
    using e(4) by (rule T_fail)
  show ?thesis using c e(1,4) b d(1) s1 s2 s3 b5 b6 f by simp
qed

text \<open>
  Claim C1 says that the data set is a function of the identifier with no dependence on
  other state, and the comment at lines 42 and 43 of the program says that the same student
  always gets the same data. The program seeds numpy's process-global generator at line 46
  and draws from it at line 61, in two separate calls. When two requests are served by two
  threads of one process and request B for identifier \<open>b\<close> runs line 46 between line 46
  and line 61 of request A for identifier \<open>a\<close>, request A draws from the generator seeded
  for \<open>b\<close>: it returns the data set that belongs to \<open>b\<close>, and request B draws from the
  state A's draw left behind. In the sample environment the first Extraversion score of
  \<open>a\<close> is 6 when the request runs alone and 10 under this schedule; that of \<open>b\<close> is 10 when
  the request runs alone and 11 under this schedule.
\<close>

theorem interleaved_request_gets_other_data:
  "\<not> isl (generuj_dane_studenta sample_env g [0x61] 100) \<and>
   \<not> isl (generuj_dane_studenta sample_env g [0x62] 100) \<and>
   \<not> isl (interleaved_requests sample_env [0x61] [0x62] 100) \<and>
   fst (projr (interleaved_requests sample_env [0x61] [0x62] 100)) =
     fst (projr (generuj_dane_studenta sample_env g [0x62] 100)) \<and>
   snd (fst (projr (generuj_dane_studenta sample_env g [0x61] 100)) ! 0) ! 0 = 6 \<and>
   snd (fst (projr (interleaved_requests sample_env [0x61] [0x62] 100)) ! 0) ! 0 = 10 \<and>
   snd (fst (projr (generuj_dane_studenta sample_env g [0x62] 100)) ! 0) ! 0 = 10 \<and>
   snd (snd (projr (interleaved_requests sample_env [0x61] [0x62] 100)) ! 0) ! 0 = 11"
proof -
  have e: "list_all encodable [0x61]" "list_all encodable [0x62]" by (simp_all add: encodable_def)
  from interleaved_requests_ok[OF sample_contract e, of 100] obtain df_a df_b where
    I: "interleaved_requests sample_env [0x61] [0x62] 100 = Inr (df_a, df_b)" by blast
  then obtain g1 g2 g3 g4 where
    sa: "seed_call sample_env [0x61] = Inr g1" and sb: "seed_call sample_env [0x62] = Inr g2" and
    da: "draw_call sample_env g2 100 = Inr (df_a, g3)" and
    db: "draw_call sample_env g3 100 = Inr (df_b, g4)"
    unfolding interleaved_requests_Inr by blast
  from sa have g1: "g1 = 2894421559" by (simp add: seed_call_Inr sample_seed_vals)
  from sb have g2: "g2 = 2911264568" by (simp add: seed_call_Inr sample_seed_vals)
  from sample_draw_state[OF da] g2 have g3: "g3 = 2911264569" by simp
  from draw_call_ok[OF sample_contract, of g1 100] obtain df g' where
    d: "draw_call sample_env g1 100 = Inr (df, g')" by blast
  from sa d have A: "generuj_dane_studenta sample_env g [0x61] 100 = Inr (df, g')"
    unfolding generuj_Inr_calls by blast
  from sb da have B: "generuj_dane_studenta sample_env g [0x62] 100 = Inr (df_a, g3)"
    unfolding generuj_Inr_calls by blast
  have m: "mean_vector ! 0 = 12" by (simp add: mean_vector_def)
  have c1: "snd (df ! 0) ! 0 = 6"
    using sample_draw_cell[OF d, of 0 0] rhe_vals(4)
    by (simp add: g1 m np_clip_def astype_int_def)
  have c2: "snd (df_a ! 0) ! 0 = 10"
    using sample_draw_cell[OF da, of 0 0] rhe_vals(5)
    by (simp add: g2 m np_clip_def astype_int_def)
  have c3: "snd (df_b ! 0) ! 0 = 11"
    using sample_draw_cell[OF db, of 0 0] rhe_vals(6)
    by (simp add: g3 m np_clip_def astype_int_def)
  show ?thesis using c1 c2 c3 by (simp add: A B I)
qed

text \<open>
  Claim C2. The data set returned for an identifier has the five named fields and 100
  records, and every value is an integer between 5 and 20. Each value is the sampled number
  rounded and then clipped: a sample of at most 5 gives 5, a sample of at least 20 gives
  20, and for a sample between 5 and 20 the value is a nearest integer, at distance at most
  one half, and the even one of the two when the sample lies half way between two integers.
  The sampler is assumed to return as many rows as asked for, each with five entries.
\<close>

theorem generate_shape_and_range:
  assumes "library_contract env"
    and "generuj_dane_studenta env g user_id 100 = Inr (df, g')"
  shows "map fst df = column_names \<and> length df = 5 \<and>
         (\<forall>(name, series) \<in> set df. length series = 100 \<and> (\<forall>v \<in> set series. 5 \<le> v \<and> v \<le> 20)) \<and>
         (\<exists>seed sample. derive_seed env user_id = Inr seed \<and>
            sample = fst (multivariate_normal env (seed_state env seed) mean_vector
                           (map (map (\<lambda>c. c * sd\<^sup>2)) cov_matrix) 100) \<and>
            (\<forall>j < 5. \<forall>i < 100.
               snd (df ! j) ! i = np_clip 5 20 (astype_int (round_half_even (sample ! i ! j))) \<and>
               (sample ! i ! j \<le> 5 \<longrightarrow> snd (df ! j) ! i = 5) \<and>
               (20 \<le> sample ! i ! j \<and> sample ! i ! j < 2 ^ 62 \<longrightarrow> snd (df ! j) ! i = 20) \<and>
               (5 \<le> sample ! i ! j \<and> sample ! i ! j \<le> 20 \<longrightarrow>
                  \<bar>real_of_int (snd (df ! j) ! i) - sample ! i ! j\<bar> \<le> 1 / 2 \<and>
                  (\<bar>real_of_int (snd (df ! j) ! i) - sample ! i ! j\<bar> = 1 / 2 \<longrightarrow>
                     even (snd (df ! j) ! i)))))"
proof -
  let ?cov = "map (map (\<lambda>c. c * sd\<^sup>2)) cov_matrix"
  from assms(2) obtain seed where
    seed: "derive_seed env user_id = Inr seed" and
    dr: "draw_call env (seed_state env seed) 100 = Inr (df, g')"
    unfolding generuj_Inr_steps by blast
  let ?sample = "fst (multivariate_normal env (seed_state env seed) mean_vector ?cov 100)"
  note D = draw_call_cells[OF assms(1) dr]
  have cell: "snd (df ! j) ! i = np_clip 5 20 (astype_int (round_half_even (?sample ! i ! j)))"
    if "j < 5" "i < 100" for i j
    using D(4) that by blast
  have c: "\<forall>(name, series) \<in> set df. length series = 100 \<and> (\<forall>v \<in> set series. 5 \<le> v \<and> v \<le> 20)"
  proof (clarify, intro conjI ballI)
    fix name series assume m: "(name, series) \<in> set df"
    from D(3) m show len: "length series = 100" by blast
    fix v assume "v \<in> set series"
    then obtain i where i: "i < 100" "v = series ! i" using len by (metis in_set_conv_nth)
    from m obtain j where j: "j < length df" "df ! j = (name, series)" by (metis in_set_conv_nth)
    with D(2) have "j < 5" by simp
    from cell[OF this i(1)] j(2) i(2) show "5 \<le> v" "v \<le> 20"
      by (simp_all add: clip_of_rounded(1,2))
  qed
  have d: "\<forall>j < 5. \<forall>i < 100.
               snd (df ! j) ! i = np_clip 5 20 (astype_int (round_half_even (?sample ! i ! j))) \<and>
               (?sample ! i ! j \<le> 5 \<longrightarrow> snd (df ! j) ! i = 5) \<and>
               (20 \<le> ?sample ! i ! j \<and> ?sample ! i ! j < 2 ^ 62 \<longrightarrow> snd (df ! j) ! i = 20) \<and>
               (5 \<le> ?sample ! i ! j \<and> ?sample ! i ! j \<le> 20 \<longrightarrow>
                  \<bar>real_of_int (snd (df ! j) ! i) - ?sample ! i ! j\<bar> \<le> 1 / 2 \<and>
                  (\<bar>real_of_int (snd (df ! j) ! i) - ?sample ! i ! j\<bar> = 1 / 2 \<longrightarrow>
                     even (snd (df ! j) ! i)))"
  proof (intro allI impI conjI)
    fix j i :: nat assume j: "j < 5" and i: "i < 100"
    note v = cell[OF j i]
    show "snd (df ! j) ! i = np_clip 5 20 (astype_int (round_half_even (?sample ! i ! j)))"
      by (rule v)
    show "snd (df ! j) ! i = 5" if "?sample ! i ! j \<le> 5"
      unfolding v using that by (rule clip_of_rounded(3))
    show "snd (df ! j) ! i = 20" if "20 \<le> ?sample ! i ! j \<and> ?sample ! i ! j < 2 ^ 62"
      unfolding v using that by (intro clip_of_rounded(4)) simp_all
    assume r: "5 \<le> ?sample ! i ! j \<and> ?sample ! i ! j \<le> 20"
    then have e: "snd (df ! j) ! i = round_half_even (?sample ! i ! j)"
      unfolding v by (intro clip_of_rounded(5)) simp_all
    show "\<bar>real_of_int (snd (df ! j) ! i) - ?sample ! i ! j\<bar> \<le> 1 / 2"
      unfolding e by (rule rhe_nearest(1))
    assume "\<bar>real_of_int (snd (df ! j) ! i) - ?sample ! i ! j\<bar> = 1 / 2"
    then show "even (snd (df ! j) ! i)" unfolding e by (rule rhe_nearest(2))
  qed
  show ?thesis using D(1,2) c d seed by blast
qed

theorem generate_shape_and_range_witness:
  "library_contract sample_env \<and>
   \<not> isl (generuj_dane_studenta sample_env 0 [] 100) \<and>
   map fst (fst (projr (generuj_dane_studenta sample_env 0 [] 100))) = column_names \<and>
   list_all (\<lambda>(name, series). length series = 100 \<and> list_all (\<lambda>v. 5 \<le> v \<and> v \<le> 20) series)
     (fst (projr (generuj_dane_studenta sample_env 0 [] 100))) \<and>
   derive_seed sample_env [] = Inr 1432118122 \<and>
   fst (multivariate_normal sample_env 1432118122 mean_vector (map (map (\<lambda>c. c * sd\<^sup>2)) cov_matrix) 100) ! 2 ! 0 = 12.8 \<and>
   snd (fst (projr (generuj_dane_studenta sample_env 0 [] 100)) ! 0) ! 2 = 13 \<and>
   fst (multivariate_normal sample_env 1432118122 mean_vector (map (map (\<lambda>c. c * sd\<^sup>2)) cov_matrix) 100) ! 8 ! 0 = 15.5 \<and>
   snd (fst (projr (generuj_dane_studenta sample_env 0 [] 100)) ! 0) ! 8 = 16 \<and>
   fst (multivariate_normal sample_env 1432118122 mean_vector (map (map (\<lambda>c. c * sd\<^sup>2)) cov_matrix) 100) ! 38 ! 0 = 6.5 \<and>
   snd (fst (projr (generuj_dane_studenta sample_env 0 [] 100)) ! 0) ! 38 = 6 \<and>
   fst (multivariate_normal sample_env 1432118122 mean_vector (map (map (\<lambda>c. c * sd\<^sup>2)) cov_matrix) 100) ! 28 ! 0 = 2 \<and>
   snd (fst (projr (generuj_dane_studenta sample_env 0 [] 100)) ! 0) ! 28 = 5 \<and>
   fst (multivariate_normal sample_env 1432118122 mean_vector (map (map (\<lambda>c. c * sd\<^sup>2)) cov_matrix) 100) ! 20 ! 0 = 20.9 \<and>
   snd (fst (projr (generuj_dane_studenta sample_env 0 [] 100)) ! 0) ! 20 = 20"
proof -
  let ?cov = "map (map (\<lambda>c. c * sd\<^sup>2)) cov_matrix"
  let ?s = "fst (multivariate_normal sample_env 1432118122 mean_vector ?cov 100)"
  have "list_all encodable []" by simp
  from generate_ok[OF sample_contract this, of 0 100] obtain df g' where
    g: "generuj_dane_studenta sample_env 0 [] 100 = Inr (df, g')" by blast
  note T = generate_shape_and_range [OF sample_contract g]
  from T have shape: "map fst df = column_names"
    "\<forall>(name, series) \<in> set df. length series = 100 \<and> (\<forall>v \<in> set series. 5 \<le> v \<and> v \<le> 20)"
    by blast+
  from T obtain seed where seed: "derive_seed sample_env [] = Inr seed" and
    cells: "\<forall>j < 5. \<forall>i < 100.
       (fst (multivariate_normal sample_env (seed_state sample_env seed) mean_vector ?cov 100) ! i ! j \<le> 5 \<longrightarrow> snd (df ! j) ! i = 5) \<and>
       (20 \<le> fst (multivariate_normal sample_env (seed_state sample_env seed) mean_vector ?cov 100) ! i ! j \<and>
        fst (multivariate_normal sample_env (seed_state sample_env seed) mean_vector ?cov 100) ! i ! j < 2 ^ 62 \<longrightarrow> snd (df ! j) ! i = 20) \<and>
       (5 \<le> fst (multivariate_normal sample_env (seed_state sample_env seed) mean_vector ?cov 100) ! i ! j \<and>
        fst (multivariate_normal sample_env (seed_state sample_env seed) mean_vector ?cov 100) ! i ! j \<le> 20 \<longrightarrow>
          \<bar>real_of_int (snd (df ! j) ! i) - fst (multivariate_normal sample_env (seed_state sample_env seed) mean_vector ?cov 100) ! i ! j\<bar> \<le> 1 / 2 \<and>
          (\<bar>real_of_int (snd (df ! j) ! i) - fst (multivariate_normal sample_env (seed_state sample_env seed) mean_vector ?cov 100) ! i ! j\<bar> = 1 / 2 \<longrightarrow>
             even (snd (df ! j) ! i)))"
    by blast
  from seed have sv: "seed = 1432118122" by (simp add: sample_seed_vals)
  have m: "mean_vector ! 0 = 12" by (simp add: mean_vector_def)
  have x: "?s ! 2 ! 0 = 128 / 10" "?s ! 8 ! 0 = 155 / 10" "?s ! 38 ! 0 = 65 / 10"
    "?s ! 28 ! 0 = 2" "?s ! 20 ! 0 = 209 / 10"
    by (simp_all add: sample_cell m)
  have C: "(?s ! i ! 0 \<le> 5 \<longrightarrow> snd (df ! 0) ! i = 5) \<and>
       (20 \<le> ?s ! i ! 0 \<and> ?s ! i ! 0 < 2 ^ 62 \<longrightarrow> snd (df ! 0) ! i = 20) \<and>
       (5 \<le> ?s ! i ! 0 \<and> ?s ! i ! 0 \<le> 20 \<longrightarrow>
          \<bar>real_of_int (snd (df ! 0) ! i) - ?s ! i ! 0\<bar> \<le> 1 / 2 \<and>
          (\<bar>real_of_int (snd (df ! 0) ! i) - ?s ! i ! 0\<bar> = 1 / 2 \<longrightarrow> even (snd (df ! 0) ! i)))"
    if "i < 100" for i
    using cells[rule_format, of 0 i] that unfolding sv sample_state by simp
  have "snd (df ! 0) ! 2 = round_half_even (128 / 10)"
    using C[of 2] unfolding x by (intro rhe_unique) simp_all
  then have v1: "snd (df ! 0) ! 2 = 13" by (simp only: rhe_vals)
  have "snd (df ! 0) ! 8 = round_half_even (155 / 10)"
    using C[of 8] unfolding x by (intro rhe_unique) simp_all
  then have v2: "snd (df ! 0) ! 8 = 16" by (simp only: rhe_vals)
  have "snd (df ! 0) ! 38 = round_half_even (65 / 10)"
    using C[of 38] unfolding x by (intro rhe_unique) simp_all
  then have v3: "snd (df ! 0) ! 38 = 6" by (simp only: rhe_vals)
  have v4: "snd (df ! 0) ! 28 = 5" using C[of 28] unfolding x by simp
  have v5: "snd (df ! 0) ! 20 = 20" using C[of 20] unfolding x by simp
  have x': "?s ! 2 ! 0 = 12.8" "?s ! 8 ! 0 = 15.5" "?s ! 38 ! 0 = 6.5" "?s ! 28 ! 0 = 2" "?s ! 20 ! 0 = 20.9"
    using x by simp_all
  have l: "list_all (\<lambda>(name, series). length series = 100 \<and> list_all (\<lambda>v. 5 \<le> v \<and> v \<le> 20) series) df"
    using shape(2) by (simp add: list_all_iff case_prod_unfold)
  show ?thesis
    using sample_contract shape(1) l seed[unfolded sv] x' v1 v2 v3 v4 v5 unfolding g
    by (simp only: sum.disc sum.sel fst_conv simp_thms)
qed

section \<open>Claims about the answer key\<close>

text \<open>
  Claim C9. Whenever the analysis returns an answer key, its keys are the same 69 keys in
  the same order, whatever the values of the data set: nine statistics for each of the five
  variables, the two method labels, the ten correlation pairs, and strength, direction and
  verdict for each of the four hypotheses.
\<close>

theorem answer_key_keys_fixed:
  assumes "oblicz_poprawne_statystyki env df = Inr klucz"
  shows "map fst klucz = expected_keys \<and> distinct (map fst klucz) \<and> length klucz = 69 \<and>
         expected_keys =
           [''ekstra_m'', ''ekstra_mdn'', ''ekstra_sd'', ''ekstra_sk'', ''ekstra_kurt'',
            ''ekstra_min'', ''ekstra_max'', ''ekstra_d'', ''ekstra_p'',
            ''neuro_m'', ''neuro_mdn'', ''neuro_sd'', ''neuro_sk'', ''neuro_kurt'',
            ''neuro_min'', ''neuro_max'', ''neuro_d'', ''neuro_p'',
            ''otwar_m'', ''otwar_mdn'', ''otwar_sd'', ''otwar_sk'', ''otwar_kurt'',
            ''otwar_min'', ''otwar_max'', ''otwar_d'', ''otwar_p'',
            ''ugoda_m'', ''ugoda_mdn'', ''ugoda_sd'', ''ugoda_sk'', ''ugoda_kurt'',
            ''ugoda_min'', ''ugoda_max'', ''ugoda_d'', ''ugoda_p'',
            ''sumien_m'', ''sumien_mdn'', ''sumien_sd'', ''sumien_sk'', ''sumien_kurt'',
            ''sumien_min'', ''sumien_max'', ''sumien_d'', ''sumien_p'',
            ''rozklad_typ'', ''korelacja_typ'',
            ''corr_neuro_ekstra'', ''corr_otwar_ekstra'', ''corr_otwar_neuro'',
            ''corr_ugoda_ekstra'', ''corr_ugoda_neuro'', ''corr_ugoda_otwar'',
            ''corr_sumien_ekstra'', ''corr_sumien_neuro'', ''corr_sumien_otwar'',
            ''corr_sumien_ugoda'',
            ''h1_sila'', ''h1_kierunek'', ''h1_decyzja'',
            ''h2_sila'', ''h2_kierunek'', ''h2_decyzja'',
            ''h3_sila'', ''h3_kierunek'', ''h3_decyzja'',
            ''h4_sila'', ''h4_kierunek'', ''h4_decyzja'']"
proof -
  have k: "map fst klucz = expected_keys" by (rule oblicz_keys[OF assms])
  have l: "length expected_keys = 69"
    by (simp add: expected_keys_def PREFIX_MAP_def stat_suffixes_def pairs_def hypothesis_keys_def)
  have "length klucz = length (map fst klucz)" by simp
  with k l have n: "length klucz = 69" by simp
  have e: "expected_keys =
           [''ekstra_m'', ''ekstra_mdn'', ''ekstra_sd'', ''ekstra_sk'', ''ekstra_kurt'',
            ''ekstra_min'', ''ekstra_max'', ''ekstra_d'', ''ekstra_p'',
            ''neuro_m'', ''neuro_mdn'', ''neuro_sd'', ''neuro_sk'', ''neuro_kurt'',
            ''neuro_min'', ''neuro_max'', ''neuro_d'', ''neuro_p'',
            ''otwar_m'', ''otwar_mdn'', ''otwar_sd'', ''otwar_sk'', ''otwar_kurt'',
            ''otwar_min'', ''otwar_max'', ''otwar_d'', ''otwar_p'',
            ''ugoda_m'', ''ugoda_mdn'', ''ugoda_sd'', ''ugoda_sk'', ''ugoda_kurt'',
            ''ugoda_min'', ''ugoda_max'', ''ugoda_d'', ''ugoda_p'',
            ''sumien_m'', ''sumien_mdn'', ''sumien_sd'', ''sumien_sk'', ''sumien_kurt'',
            ''sumien_min'', ''sumien_max'', ''sumien_d'', ''sumien_p'',
            ''rozklad_typ'', ''korelacja_typ'',
            ''corr_neuro_ekstra'', ''corr_otwar_ekstra'', ''corr_otwar_neuro'',
            ''corr_ugoda_ekstra'', ''corr_ugoda_neuro'', ''corr_ugoda_otwar'',
            ''corr_sumien_ekstra'', ''corr_sumien_neuro'', ''corr_sumien_otwar'',
            ''corr_sumien_ugoda'',
            ''h1_sila'', ''h1_kierunek'', ''h1_decyzja'',
            ''h2_sila'', ''h2_kierunek'', ''h2_decyzja'',
            ''h3_sila'', ''h3_kierunek'', ''h3_decyzja'',
            ''h4_sila'', ''h4_kierunek'', ''h4_decyzja'']"
    by (simp add: expected_keys_def PREFIX_MAP_def stat_suffixes_def pairs_def hypothesis_keys_def)
  from k expected_keys_distinct have "distinct (map fst klucz)" by simp
  with k n e show ?thesis by blast
qed

theorem answer_key_keys_fixed_witness:
  "\<not> isl (oblicz_poprawne_statystyki sample_env sample_df) \<and>
   map fst (projr (oblicz_poprawne_statystyki sample_env sample_df)) = expected_keys \<and>
   length (projr (oblicz_poprawne_statystyki sample_env sample_df)) = 69"
proof -
  from oblicz_sample_ok(1) obtain klucz where
    k: "oblicz_poprawne_statystyki sample_env sample_df = Inr klucz" by blast
  from answer_key_keys_fixed [OF k] show ?thesis by (simp add: k)
qed



text \<open>
  Claim C4. With \<open>r\<close> and \<open>p\<close> the Spearman coefficient and p-value of the hypothesis'
  pair, the verdict is "potwierdza" (confirmed) exactly when \<open>p < 0.05\<close> and \<open>r < 0\<close> for
  Neuroticism-Extraversion (H1) and Openness-Neuroticism (H3), \<open>p < 0.05\<close> and \<open>r > 0\<close> for
  Openness-Extraversion (H2), and \<open>p < 0.05\<close>, \<open>r > 0\<close> and \<open>|r| \<ge> 0.1\<close> for
  Agreeableness-Extraversion (H4); in every other case it is "nie potwierdza" (not
  confirmed). Strength and direction are those of the same coefficient.
\<close>

theorem hypothesis_verdicts:
  assumes "oblicz_poprawne_statystyki env df = Inr klucz"
  shows "\<exists>columns rho pm r1 p1 r2 p2 r3 p3 r4 p4.
           df_select df vars_list = Inr columns \<and> spearmanr env columns = Inr (NdArray rho, NdArray pm) \<and>
           get_rp (NdArray rho) (NdArray pm) ''Neurotyzm'' ''Ekstrawersja'' = Inr (r1, p1) \<and>
           get_rp (NdArray rho) (NdArray pm) ''Otwartosc'' ''Ekstrawersja'' = Inr (r2, p2) \<and>
           get_rp (NdArray rho) (NdArray pm) ''Otwartosc'' ''Neurotyzm'' = Inr (r3, p3) \<and>
           get_rp (NdArray rho) (NdArray pm) ''Ugodowosc'' ''Ekstrawersja'' = Inr (r4, p4) \<and>
           map_of klucz ''h1_decyzja'' =
             Some (PStr (if p1 < 0.05 \<and> r1 < 0 then lbl_potwierdza else lbl_nie_potwierdza)) \<and>
           map_of klucz ''h2_decyzja'' =
             Some (PStr (if p2 < 0.05 \<and> r2 > 0 then lbl_potwierdza else lbl_nie_potwierdza)) \<and>
           map_of klucz ''h3_decyzja'' =
             Some (PStr (if p3 < 0.05 \<and> r3 < 0 then lbl_potwierdza else lbl_nie_potwierdza)) \<and>
           map_of klucz ''h4_decyzja'' =
             Some (PStr (if p4 < 0.05 \<and> r4 > 0 \<and> \<bar>r4\<bar> \<ge> 0.1
                         then lbl_potwierdza else lbl_nie_potwierdza)) \<and>
           map_of klucz ''h1_sila'' = Some (PStr (ocen_sile r1)) \<and>
           map_of klucz ''h1_kierunek'' = Some (PStr (ocen_kierunek r1)) \<and>
           map_of klucz ''h2_sila'' = Some (PStr (ocen_sile r2)) \<and>
           map_of klucz ''h2_kierunek'' = Some (PStr (ocen_kierunek r2)) \<and>
           map_of klucz ''h3_sila'' = Some (PStr (ocen_sile r3)) \<and>
           map_of klucz ''h3_kierunek'' = Some (PStr (ocen_kierunek r3)) \<and>
           map_of klucz ''h4_sila'' = Some (PStr (ocen_sile r4)) \<and>
           map_of klucz ''h4_kierunek'' = Some (PStr (ocen_kierunek r4)) \<and>
           lbl_potwierdza \<noteq> lbl_nie_potwierdza"
proof -
  from oblicz_hypothesis_entries[OF assms] obtain columns rho pm k3 where
    sel: "df_select df vars_list = Inr columns" and
    s: "spearmanr env columns = Inr (NdArray rho, NdArray pm)" and
    k: "klucz = hypothesis_entries rho pm k3"
    by blast
  have h: "map_of klucz ''h1_decyzja'' =
       Some (PStr (if pm 1 0 < 0.05 \<and> rho 1 0 < 0 then lbl_potwierdza else lbl_nie_potwierdza))"
    "map_of klucz ''h2_decyzja'' =
       Some (PStr (if pm 2 0 < 0.05 \<and> rho 2 0 > 0 then lbl_potwierdza else lbl_nie_potwierdza))"
    "map_of klucz ''h3_decyzja'' =
       Some (PStr (if pm 2 1 < 0.05 \<and> rho 2 1 < 0 then lbl_potwierdza else lbl_nie_potwierdza))"
    "map_of klucz ''h4_decyzja'' =
       Some (PStr (if pm 3 0 < 0.05 \<and> rho 3 0 > 0 \<and> \<bar>rho 3 0\<bar> \<ge> 0.1
                   then lbl_potwierdza else lbl_nie_potwierdza))"
    "map_of klucz ''h1_sila'' = Some (PStr (ocen_sile (rho 1 0)))"
    "map_of klucz ''h1_kierunek'' = Some (PStr (ocen_kierunek (rho 1 0)))"
    "map_of klucz ''h2_sila'' = Some (PStr (ocen_sile (rho 2 0)))"
    "map_of klucz ''h2_kierunek'' = Some (PStr (ocen_kierunek (rho 2 0)))"
    "map_of klucz ''h3_sila'' = Some (PStr (ocen_sile (rho 2 1)))"
    "map_of klucz ''h3_kierunek'' = Some (PStr (ocen_kierunek (rho 2 1)))"
    "map_of klucz ''h4_sila'' = Some (PStr (ocen_sile (rho 3 0)))"
    "map_of klucz ''h4_kierunek'' = Some (PStr (ocen_kierunek (rho 3 0)))"
    unfolding k hypothesis_entries_lookup by simp_all
  have ne: "lbl_potwierdza \<noteq> lbl_nie_potwierdza"
    by (simp add: lbl_potwierdza_def lbl_nie_potwierdza_def)
  show ?thesis
    apply (rule exI[of _ columns], rule exI[of _ rho], rule exI[of _ pm])
    apply (rule exI[of _ "rho 1 0"], rule exI[of _ "pm 1 0"])
    apply (rule exI[of _ "rho 2 0"], rule exI[of _ "pm 2 0"])
    apply (rule exI[of _ "rho 2 1"], rule exI[of _ "pm 2 1"])
    apply (rule exI[of _ "rho 3 0"], rule exI[of _ "pm 3 0"])
    using sel s h ne get_rp_vals[of rho pm] by (intro conjI) assumption+
qed

theorem hypothesis_verdicts_witness:
  "\<not> isl (oblicz_poprawne_statystyki sample_env sample_df) \<and>
   get_rp (NdArray sample_rho) (NdArray sample_p) ''Neurotyzm'' ''Ekstrawersja'' = Inr (- 0.55, 0.0001) \<and>
   map_of (projr (oblicz_poprawne_statystyki sample_env sample_df)) ''h1_sila'' =
     Some (PStr lbl_silny) \<and>
   map_of (projr (oblicz_poprawne_statystyki sample_env sample_df)) ''h1_kierunek'' =
     Some (PStr lbl_negatywny) \<and>
   map_of (projr (oblicz_poprawne_statystyki sample_env sample_df)) ''h1_decyzja'' =
     Some (PStr lbl_potwierdza) \<and>
   get_rp (NdArray sample_rho) (NdArray sample_p) ''Ugodowosc'' ''Ekstrawersja'' = Inr (0.3, 0.002) \<and>
   map_of (projr (oblicz_poprawne_statystyki sample_env sample_df)) ''h4_decyzja'' =
     Some (PStr lbl_potwierdza)"
proof -
  from oblicz_sample_ok(1) obtain klucz where
    k: "oblicz_poprawne_statystyki sample_env sample_df = Inr klucz" by blast
  from hypothesis_verdicts [OF k] obtain columns rho pm r1 p1 r4 p4 where
    s: "spearmanr sample_env columns = Inr (NdArray rho, NdArray pm)" and
    g: "get_rp (NdArray rho) (NdArray pm) ''Neurotyzm'' ''Ekstrawersja'' = Inr (r1, p1)"
       "get_rp (NdArray rho) (NdArray pm) ''Ugodowosc'' ''Ekstrawersja'' = Inr (r4, p4)" and
    h: "map_of klucz ''h1_decyzja'' =
             Some (PStr (if p1 < 0.05 \<and> r1 < 0 then lbl_potwierdza else lbl_nie_potwierdza))"
       "map_of klucz ''h4_decyzja'' =
             Some (PStr (if p4 < 0.05 \<and> r4 > 0 \<and> \<bar>r4\<bar> \<ge> 0.1
                         then lbl_potwierdza else lbl_nie_potwierdza))"
       "map_of klucz ''h1_sila'' = Some (PStr (ocen_sile r1))"
       "map_of klucz ''h1_kierunek'' = Some (PStr (ocen_kierunek r1))"
    by blast
  from s have r: "rho = sample_rho" "pm = sample_p" by simp_all
  from g have v: "r1 = - 0.55" "p1 = 0.0001" "r4 = 0.3" "p4 = 0.002"
    by (simp_all add: r get_rp_vals sample_matrix_vals)
  have e: "get_rp (NdArray sample_rho) (NdArray sample_p) ''Neurotyzm'' ''Ekstrawersja'' = Inr (- 0.55, 0.0001)"
    "get_rp (NdArray sample_rho) (NdArray sample_p) ''Ugodowosc'' ''Ekstrawersja'' = Inr (0.3, 0.002)"
    by (simp_all add: get_rp_vals sample_matrix_vals)
  from h have "map_of klucz ''h1_decyzja'' = Some (PStr lbl_potwierdza)"
    "map_of klucz ''h4_decyzja'' = Some (PStr lbl_potwierdza)"
    "map_of klucz ''h1_sila'' = Some (PStr lbl_silny)"
    "map_of klucz ''h1_kierunek'' = Some (PStr lbl_negatywny)"
    by (simp_all add: v ocen_sile_def ocen_kierunek_def)
  with e show ?thesis by (simp add: k)
qed

section \<open>Claims about failures\<close>




text \<open>
  Claim C10 says that no error branch of the generator is reachable for any string. A
  Python string may hold a lone surrogate code point, which has no UTF-8 encoding: for the
  one-character identifier U+D800 the encoding raises and no data set is returned.
\<close>

theorem lone_surrogate_identifier_fails:
  "library_contract sample_env \<and>
   generuj_dane_studenta sample_env 0 [0xD800] 100 = Inl UnicodeEncodeError"
proof -
  have "\<not> list_all encodable [0xD800]" by (simp add: encodable_def)
  from generate_fail[OF this] sample_contract show ?thesis by simp
qed

text \<open>
  Claim C10 as amended. The generator returns a data set with the five named columns of
  100 values for the empty identifier and for every identifier whose code points all have a
  UTF-8 encoding; for an identifier holding a lone surrogate the encoding raises
  \<^verbatim>\<open>UnicodeEncodeError\<close>. The libraries are assumed to keep their contract (a 16-byte
  digest, a sample of the requested shape).
\<close>

theorem generate_total_on_encodable:
  assumes "library_contract env"
  shows "(list_all encodable user_id \<longrightarrow>
            (\<exists>df g'. generuj_dane_studenta env g user_id 100 = Inr (df, g') \<and>
               map fst df = column_names \<and> (\<forall>(name, series) \<in> set df. length series = 100))) \<and>
         (\<not> list_all encodable user_id \<longrightarrow>
            generuj_dane_studenta env g user_id 100 = Inl UnicodeEncodeError) \<and>
         (\<exists>df g'. generuj_dane_studenta env g [] 100 = Inr (df, g') \<and>
               map fst df = column_names \<and> (\<forall>(name, series) \<in> set df. length series = 100))"
proof -
  have ok: "\<exists>df g'. generuj_dane_studenta env g u 100 = Inr (df, g') \<and>
               map fst df = column_names \<and> (\<forall>(name, series) \<in> set df. length series = 100)"
    if "list_all encodable u" for u
  proof -
    from generate_ok[OF assms that, of g 100] obtain df g' where
      r: "generuj_dane_studenta env g u 100 = Inr (df, g')" by blast
    from generuj_Inr_shape[OF assms r] r show ?thesis by blast
  qed
  have "list_all encodable []" by simp
  from ok[OF this] ok[of user_id] generate_fail[of user_id env g 100] show ?thesis by blast
qed

theorem generate_total_on_encodable_witness:
  "library_contract sample_env \<and>
   list_all encodable [0x4A, 0x61, 0x144] \<and>
   \<not> isl (generuj_dane_studenta sample_env 0 [0x4A, 0x61, 0x144] 100) \<and>
   map fst (fst (projr (generuj_dane_studenta sample_env 0 [0x4A, 0x61, 0x144] 100))) = column_names \<and>
   \<not> list_all encodable [0x4A, 0xDC00] \<and>
   generuj_dane_studenta sample_env 0 [0x4A, 0xDC00] 100 = Inl UnicodeEncodeError \<and>
   \<not> isl (generuj_dane_studenta sample_env 0 [] 100)"
proof -
  have e: "list_all encodable [0x4A, 0x61, 0x144]" "\<not> list_all encodable [0x4A, 0xDC00]"
    by (simp_all add: encodable_def)
  note T1 = generate_total_on_encodable [OF sample_contract, of "[0x4A, 0x61, 0x144]" 0]
  note T2 = generate_total_on_encodable [OF sample_contract, of "[0x4A, 0xDC00]" 0]
  from T1 e(1) obtain df g' where
    a: "generuj_dane_studenta sample_env 0 [0x4A, 0x61, 0x144] 100 = Inr (df, g')"
       "map fst df = column_names" by blast
  from T1 obtain df0 g0 where b: "generuj_dane_studenta sample_env 0 [] 100 = Inr (df0, g0)" by blast
  from T2 e(2) have c: "generuj_dane_studenta sample_env 0 [0x4A, 0xDC00] 100 = Inl UnicodeEncodeError"
    by blast
  show ?thesis using sample_contract e a b c by simp
qed

end
